theory Spec2Isabelle
  imports
    Complex_Main
    "HOL-Library.Product_Lexorder"
    "HOL-Library.List_Lexorder"
    "HOL-Library.Char_ord"
begin

section \<open>Data model of the FX pipeline (scripts/transform.py, config/config.py)\<close>

text \<open>
  The transform stage works on pandas data frames whose rows have the four columns
  \<open>rate_date\<close>, \<open>base_currency\<close>, \<open>quote_currency\<close> and \<open>exchange_rate\<close>.  A frame is
  modelled as the list of its rows, in row order.  The type of a row is parametrised by the
  type of its rate: \<open>fx_row\<close> is a row whose rate is a number, and a row as it is loaded from
  a CSV file, whose rate can be missing, comes further down.

  Dates are calendar dates \<open>(year, month, day)\<close> ordered lexicographically, which is the order
  of \<open>datetime.date\<close> and of pandas timestamps at midnight.  Currency codes are strings,
  ordered as Python orders them (by code point).

  Rates are binary floating-point numbers in the program.  They are modelled here as exact
  real numbers: every arithmetic operation of the source is the exact operation, and
  \<open>round(x, n)\<close> is rounding of the exact value to \<open>n\<close> decimals, ties to even.  The
  rounding of the float operations themselves is written out in a second version of the two
  stages, further down, on which the properties that depend on it are stated; infinities
  are outside the model, and NaN and text appear only in the frames as they are loaded, also
  further down.
\<close>

type_synonym currency = string

type_synonym date = "nat \<times> nat \<times> nat"

definition year :: "date \<Rightarrow> nat" where
  "year d = fst d"

record 'v rate_row =
  rate_date :: date
  base_currency :: currency
  quote_currency :: currency
  exchange_rate :: 'v

type_synonym fx_row = "real rate_row"

datatype error = ZeroDivisionError | KeyError | TypeError | DbError | IoError | ConfigError

text \<open>config.py, line 20.\<close>

definition CURRENCIES :: "currency list" where
  "CURRENCIES = [''NOK'', ''EUR'', ''SEK'', ''PLN'', ''RON'', ''DKK'', ''CZK'']"

subsection \<open>Python's \<open>round(x, n)\<close> on exact values\<close>

definition round_half_even :: "real \<Rightarrow> int" where
  "round_half_even y =
     (let f = \<lfloor>y\<rfloor>; r = y - of_int f
      in if r < 1 / 2 then f
         else if 1 / 2 < r then f + 1
         else if even f then f else f + 1)"

definition py_round :: "real \<Rightarrow> nat \<Rightarrow> real" where
  "py_round x n = of_int (round_half_even (x * 10 ^ n)) / 10 ^ n"

section \<open>The Cross-Pair Engine: \<open>calculate_cross_pairs\<close>\<close>

text \<open>
  \<open>df.groupby('rate_date')\<close> visits the distinct dates in ascending order; each group holds
  the rows of that date in frame order.
\<close>

definition groupby_dates :: "'v rate_row list \<Rightarrow> date list" where
  "groupby_dates df = sort (remdups (map rate_date df))"

definition date_group :: "'v rate_row list \<Rightarrow> date \<Rightarrow> 'v rate_row list" where
  "date_group df d = filter (\<lambda>r. rate_date r = d) df"

text \<open>
  Lines 87-94: the dictionary starts as \<open>{'EUR': 1.0}\<close> and every row of the group stores its
  rate under its quote currency; a later row overwrites an earlier one with the same key.
\<close>

fun rates_dict_loop ::
  "(currency \<rightharpoonup> 'v) \<Rightarrow> 'v rate_row list \<Rightarrow> (currency \<rightharpoonup> 'v)" where
  "rates_dict_loop m [] = m"
| "rates_dict_loop m (r # rs) = rates_dict_loop (m(quote_currency r \<mapsto> exchange_rate r)) rs"

definition rates_dict_of :: "fx_row list \<Rightarrow> (currency \<rightharpoonup> real)" where
  "rates_dict_of grp = rates_dict_loop [''EUR'' \<mapsto> 1] grp"

text \<open>
  Lines 97-108: the two nested loops over \<open>CURRENCIES\<close>, as one loop over the pairs in the
  order the nested loops visit them.  The division of two Python floats raises
  \<open>ZeroDivisionError\<close> when the divisor is zero, which aborts the whole function.
\<close>

definition cross_row :: "date \<Rightarrow> currency \<Rightarrow> currency \<Rightarrow> 'v \<Rightarrow> 'v rate_row" where
  "cross_row d b q v =
     \<lparr>rate_date = d, base_currency = b, quote_currency = q, exchange_rate = v\<rparr>"

fun pairs_loop ::
  "date \<Rightarrow> (currency \<rightharpoonup> real) \<Rightarrow> (currency \<times> currency) list \<Rightarrow> error + fx_row list" where
  "pairs_loop d t [] = Inr []"
| "pairs_loop d t ((b, q) # ps) =
     (if b \<noteq> q \<and> t b \<noteq> None \<and> t q \<noteq> None then
        (if the (t b) = 0 then Inl ZeroDivisionError
         else (case pairs_loop d t ps of
                 Inl e \<Rightarrow> Inl e
               | Inr rs \<Rightarrow> Inr (cross_row d b q (py_round (the (t q) / the (t b)) 8) # rs)))
      else pairs_loop d t ps)"

definition currency_pairs :: "(currency \<times> currency) list" where
  "currency_pairs = List.product CURRENCIES CURRENCIES"

fun dates_loop :: "fx_row list \<Rightarrow> date list \<Rightarrow> error + fx_row list" where
  "dates_loop df [] = Inr []"
| "dates_loop df (d # ds) =
     (case pairs_loop d (rates_dict_of (date_group df d)) currency_pairs of
        Inl e \<Rightarrow> Inl e
      | Inr rs \<Rightarrow> (case dates_loop df ds of
                    Inl e \<Rightarrow> Inl e
                  | Inr rest \<Rightarrow> Inr (rs @ rest)))"

text \<open>
  Line 110 builds the frame from the collected rows; line 115 reads the column
  \<open>base_currency\<close> of it, which does not exist when no row was collected: \<open>KeyError\<close>.
\<close>

definition calculate_cross_pairs :: "fx_row list \<Rightarrow> error + fx_row list" where
  "calculate_cross_pairs df =
     (case dates_loop df (groupby_dates df) of
        Inl e \<Rightarrow> Inl e
      | Inr [] \<Rightarrow> Inl KeyError
      | Inr (r # rs) \<Rightarrow> Inr (r # rs))"

subsection \<open>The rows the loops collect, as a list comprehension\<close>

text \<open>
  The per-date table, the test of line 99 and the row of lines 103-108, named so that the
  loops can be described without their error plumbing; and the input conditions of the
  RawRate data model.
\<close>

definition table_of :: "fx_row list \<Rightarrow> date \<Rightarrow> (currency \<rightharpoonup> real)" where
  "table_of df d = rates_dict_of (date_group df d)"

definition emits :: "(currency \<rightharpoonup> real) \<Rightarrow> currency \<times> currency \<Rightarrow> bool" where
  "emits t p = (fst p \<noteq> snd p \<and> t (fst p) \<noteq> None \<and> t (snd p) \<noteq> None)"

definition emitted_row ::
  "date \<Rightarrow> (currency \<rightharpoonup> real) \<Rightarrow> currency \<times> currency \<Rightarrow> fx_row" where
  "emitted_row d t p =
     cross_row d (fst p) (snd p) (py_round (the (t (snd p)) / the (t (fst p))) 8)"

definition zero_base :: "(currency \<rightharpoonup> real) \<Rightarrow> (currency \<times> currency) list \<Rightarrow> bool" where
  "zero_base t ps = (\<exists>p\<in>set ps. emits t p \<and> the (t (fst p)) = 0)"

definition date_rows :: "date \<Rightarrow> (currency \<rightharpoonup> real) \<Rightarrow> fx_row list" where
  "date_rows d t = map (emitted_row d t) (filter (emits t) currency_pairs)"

definition pair_key :: "'v rate_row \<Rightarrow> currency \<times> currency" where
  "pair_key r = (base_currency r, quote_currency r)"

definition available :: "fx_row list \<Rightarrow> date \<Rightarrow> currency set" where
  "available df d =
     {c \<in> set CURRENCIES. c = ''EUR'' \<or> (\<exists>r\<in>set df. rate_date r = d \<and> quote_currency r = c)}"

definition all_rows :: "fx_row list \<Rightarrow> fx_row list" where
  "all_rows df = concat (map (\<lambda>d. date_rows d (table_of df d)) (groupby_dates df))"

definition raw_rates_nonzero :: "fx_row list \<Rightarrow> bool" where
  "raw_rates_nonzero df = (\<forall>r\<in>set df. exchange_rate r \<noteq> 0)"

definition has_universe_row :: "fx_row list \<Rightarrow> bool" where
  "has_universe_row df =
     (\<exists>r\<in>set df. quote_currency r \<in> set CURRENCIES \<and> quote_currency r \<noteq> ''EUR'')"

text \<open>
  The RawRate data model: one record per (date, quote currency), and EUR is never a quote
  currency of the raw data.
\<close>

definition raw_keys_distinct :: "fx_row list \<Rightarrow> bool" where
  "raw_keys_distinct df = distinct (map (\<lambda>r. (rate_date r, quote_currency r)) df)"

definition no_eur_quote :: "fx_row list \<Rightarrow> bool" where
  "no_eur_quote df = (\<forall>r\<in>set df. quote_currency r \<noteq> ''EUR'')"

definition raw_rates_positive :: "fx_row list \<Rightarrow> bool" where
  "raw_rates_positive df = (\<forall>r\<in>set df. 0 < exchange_rate r)"

text \<open>
  The concrete scenario of the specification: on 2024-01-01 the raw rates are NOK 11.5 and
  SEK 11.2.
\<close>

definition fx_example :: "fx_row list" where
  "fx_example =
     [cross_row (2024, 1, 1) ''EUR'' ''NOK'' (23 / 2),
      cross_row (2024, 1, 1) ''EUR'' ''SEK'' (56 / 5)]"

definition fx_example_out :: "fx_row list" where
  "fx_example_out =
     [cross_row (2024, 1, 1) ''NOK'' ''EUR'' (8695652 / 10 ^ 8),
      cross_row (2024, 1, 1) ''NOK'' ''SEK'' (97391304 / 10 ^ 8),
      cross_row (2024, 1, 1) ''EUR'' ''NOK'' (23 / 2),
      cross_row (2024, 1, 1) ''EUR'' ''SEK'' (56 / 5),
      cross_row (2024, 1, 1) ''SEK'' ''NOK'' (102678571 / 10 ^ 8),
      cross_row (2024, 1, 1) ''SEK'' ''EUR'' (8928571 / 10 ^ 8)]"

text \<open>A raw row of a currency outside the universe.\<close>

definition foreign_row :: fx_row where
  "foreign_row = cross_row (2024, 1, 1) ''EUR'' ''USD'' (11 / 10)"

section \<open>The YTD Aggregator: \<open>calculate_ytd_metrics\<close>\<close>

text \<open>
  One record of the YTD output (lines 189-202).  The first three fields are the columns
  \<open>rate_date\<close>, \<open>base_currency\<close> and \<open>quote_currency\<close> of the output frame; \<open>None\<close> is
  Python's \<open>None\<close>.
\<close>

record 'v metric_row =
  ytd_rate_date :: date
  ytd_base_currency :: currency
  ytd_quote_currency :: currency
  ytd_avg_rate :: 'v
  ytd_min_rate :: 'v
  ytd_max_rate :: 'v
  ytd_first_rate :: 'v
  ytd_last_rate :: 'v
  ytd_days_count :: nat
  ytd_variance :: "'v option"
  ytd_std_dev :: "'v option"
  ytd_change_pct :: 'v

type_synonym ytd_row = "real metric_row"

text \<open>
  \<open>sort_values('rate_date')\<close>.  Rows of equal date keep their frame order here; pandas'
  default sort does not promise an order among them.
\<close>

definition sort_values :: "'v rate_row list \<Rightarrow> 'v rate_row list" where
  "sort_values df = sort_key rate_date df"

text \<open>
  \<open>groupby(['base_currency', 'quote_currency'])\<close> visits the distinct key pairs in ascending
  order; each group holds its rows in frame order.
\<close>

definition groupby_pairs :: "'v rate_row list \<Rightarrow> (currency \<times> currency) list" where
  "groupby_pairs df = sort (remdups (map pair_key df))"

definition pair_group ::
  "'v rate_row list \<Rightarrow> currency \<times> currency \<Rightarrow> 'v rate_row list" where
  "pair_group df k = filter (\<lambda>r. pair_key r = k) df"

text \<open>Lines 162-169: the rows of the group from January 1 of the year up to the date.\<close>

definition year_start :: "date \<Rightarrow> date" where
  "year_start current_date = (year current_date, 1, 1)"

definition ytd_data :: "'v rate_row list \<Rightarrow> date \<Rightarrow> 'v rate_row list" where
  "ytd_data grp current_date =
     filter (\<lambda>r. year_start current_date \<le> rate_date r \<and> rate_date r \<le> current_date) grp"

text \<open>
  The numpy reductions of lines 174-181 on a non-empty array.  \<open>var\<close> and \<open>std\<close> are called
  without arguments: numpy's default divisor is the number of elements.
\<close>

definition np_mean :: "real list \<Rightarrow> real" where
  "np_mean rates = sum_list rates / real (length rates)"

definition np_min :: "real list \<Rightarrow> real" where
  "np_min rates = fold min (tl rates) (hd rates)"

definition np_max :: "real list \<Rightarrow> real" where
  "np_max rates = fold max (tl rates) (hd rates)"

definition np_var :: "real list \<Rightarrow> real" where
  "np_var rates =
     sum_list (map (\<lambda>x. \<bar>x - np_mean rates\<bar> ^ 2) rates) / real (length rates)"

definition np_std :: "real list \<Rightarrow> real" where
  "np_std rates = sqrt (np_var rates)"

text \<open>Lines 172-202, for the non-empty array \<open>rates\<close> of a window.\<close>

definition ytd_record :: "currency \<times> currency \<Rightarrow> date \<Rightarrow> real list \<Rightarrow> ytd_row" where
  "ytd_record k current_date rates =
     (let ytd_avg = np_mean rates;
          ytd_min = np_min rates;
          ytd_max = np_max rates;
          ytd_first = hd rates;
          ytd_last = last rates;
          ytd_count = length rates;
          ytd_var = (if length rates > 1 then np_var rates else 0);
          ytd_std = (if length rates > 1 then np_std rates else 0);
          change_pct = (if ytd_first \<noteq> 0 then ((ytd_last - ytd_first) / ytd_first) * 100 else 0)
      in \<lparr>ytd_rate_date = current_date,
          ytd_base_currency = fst k,
          ytd_quote_currency = snd k,
          ytd_avg_rate = py_round ytd_avg 8,
          ytd_min_rate = py_round ytd_min 8,
          ytd_max_rate = py_round ytd_max 8,
          ytd_first_rate = py_round ytd_first 8,
          ytd_last_rate = py_round ytd_last 8,
          ytd_days_count = ytd_count,
          ytd_variance = (if ytd_var \<noteq> 0 then Some (py_round ytd_var 8) else None),
          ytd_std_dev = (if ytd_std \<noteq> 0 then Some (py_round ytd_std 8) else None),
          ytd_change_pct = py_round change_pct 4\<rparr>)"

text \<open>Lines 161-202: the loop over the rows of one group.\<close>

fun rows_loop :: "currency \<times> currency \<Rightarrow> fx_row list \<Rightarrow> fx_row list \<Rightarrow> ytd_row list" where
  "rows_loop k grp [] = []"
| "rows_loop k grp (row # rows) =
     (let current_date = rate_date row;
          window = ytd_data grp current_date
      in if length window > 0
         then ytd_record k current_date (map exchange_rate window) # rows_loop k grp rows
         else rows_loop k grp rows)"

text \<open>Lines 157-158: the loop over the groups of the sorted frame.\<close>

fun groups_loop :: "fx_row list \<Rightarrow> (currency \<times> currency) list \<Rightarrow> ytd_row list" where
  "groups_loop df [] = []"
| "groups_loop df (k # ks) =
     (let grp = sort_values (pair_group df k)
      in rows_loop k grp grp @ groups_loop df ks)"

definition calculate_ytd_metrics :: "fx_row list \<Rightarrow> ytd_row list" where
  "calculate_ytd_metrics df = (let df' = sort_values df in groups_loop df' (groupby_pairs df'))"

subsection \<open>The window in the words of the specification\<close>

text \<open>
  The records of a pair with date between January 1 of the year of \<open>D\<close> and \<open>D\<close>, both
  included, ordered by date ascending.
\<close>

definition spec_window :: "fx_row list \<Rightarrow> currency \<times> currency \<Rightarrow> date \<Rightarrow> fx_row list" where
  "spec_window df k D =
     sort_key rate_date
       (filter (\<lambda>r. pair_key r = k \<and> (year D, 1, 1) \<le> rate_date r \<and> rate_date r \<le> D) df)"

text \<open>
  The variance with divisor \<open>N - 1\<close> that the specification names, and the variance with
  divisor \<open>N\<close>.
\<close>

definition spec_mean :: "real list \<Rightarrow> real" where
  "spec_mean xs = (\<Sum>x\<leftarrow>xs. x) / real (length xs)"

definition sample_variance :: "real list \<Rightarrow> real" where
  "sample_variance xs = (\<Sum>x\<leftarrow>xs. (x - spec_mean xs) ^ 2) / real (length xs - 1)"

definition population_variance :: "real list \<Rightarrow> real" where
  "population_variance xs = (\<Sum>x\<leftarrow>xs. (x - spec_mean xs) ^ 2) / real (length xs)"

text \<open>A calendar date has a month and a day of at least 1.\<close>

definition valid_date :: "date \<Rightarrow> bool" where
  "valid_date d = (1 \<le> fst (snd d) \<and> fst (snd d) \<le> 12 \<and> 1 \<le> snd (snd d) \<and> snd (snd d) \<le> 31)"

text \<open>Three days of one pair, for the examples of the YTD metrics.\<close>

definition ytd_example :: "fx_row list" where
  "ytd_example =
     [cross_row (2024, 1, 1) ''EUR'' ''NOK'' 3,
      cross_row (2024, 1, 2) ''EUR'' ''NOK'' 3,
      cross_row (2024, 1, 3) ''EUR'' ''NOK'' 4]"

text \<open>The cross rates of these three days, as \<open>calculate_cross_pairs\<close> returns them.\<close>

definition ytd_example_cross :: "fx_row list" where
  "ytd_example_cross =
     [cross_row (2024, 1, 1) ''NOK'' ''EUR'' (33333333 / 10 ^ 8),
      cross_row (2024, 1, 1) ''EUR'' ''NOK'' 3,
      cross_row (2024, 1, 2) ''NOK'' ''EUR'' (33333333 / 10 ^ 8),
      cross_row (2024, 1, 2) ''EUR'' ''NOK'' 3,
      cross_row (2024, 1, 3) ''NOK'' ''EUR'' (25 / 10 ^ 2),
      cross_row (2024, 1, 3) ''EUR'' ''NOK'' 4]"

section \<open>Frames as they are loaded from a CSV file\<close>

text \<open>
  \<open>load_extracted_data\<close> (lines 45-63) reads the file with \<open>pd.read_csv\<close>, which reads an
  empty \<open>exchange_rate\<close> field as the float NaN and keeps the fields of a column that holds
  text as strings.  A loaded rate is therefore a float, which is a number or NaN, or a
  string, and the cross-pair stage is given a second time on such cells, line by line as
  above, with Python's operations: the division of line 101 raises \<open>TypeError\<close> as soon as
  an operand is a string (the dictionary's own \<open>1.0\<close> is a float, and neither \<open>float / str\<close>
  nor \<open>str / float\<close> nor \<open>str / str\<close> is defined); on two floats it raises
  \<open>ZeroDivisionError\<close> when the divisor is zero and otherwise gives NaN as soon as an operand
  is NaN.  \<open>round\<close> of NaN is NaN, NaN is different from 0 and true as a condition, and a
  numpy reduction of an array holding a NaN is NaN.  The rows the cross-pair stage returns
  hold floats only, and the YTD stage is given a second time on those.  A missing date is
  not modelled.
\<close>

datatype pyfloat = Fin real | NaN

datatype cell = Float pyfloat | Text string

type_synonym loaded_row = "cell rate_row"

type_synonym float_row = "pyfloat rate_row"

fun py_truediv :: "cell \<Rightarrow> cell \<Rightarrow> error + pyfloat" where
  "py_truediv (Text s) b = Inl TypeError"
| "py_truediv (Float a) (Text s) = Inl TypeError"
| "py_truediv (Float a) (Float (Fin y)) =
     (if y = 0 then Inl ZeroDivisionError
      else (case a of Fin x \<Rightarrow> Inr (Fin (x / y)) | NaN \<Rightarrow> Inr NaN))"
| "py_truediv (Float a) (Float NaN) = Inr NaN"

fun py_round_float :: "pyfloat \<Rightarrow> nat \<Rightarrow> pyfloat" where
  "py_round_float (Fin x) n = Fin (py_round x n)"
| "py_round_float NaN n = NaN"

definition rates_dict_of_loaded :: "loaded_row list \<Rightarrow> (currency \<rightharpoonup> cell)" where
  "rates_dict_of_loaded grp = rates_dict_loop [''EUR'' \<mapsto> Float (Fin 1)] grp"

fun pairs_loop_loaded ::
  "date \<Rightarrow> (currency \<rightharpoonup> cell) \<Rightarrow> (currency \<times> currency) list \<Rightarrow> error + float_row list"
  where
  "pairs_loop_loaded d t [] = Inr []"
| "pairs_loop_loaded d t ((b, q) # ps) =
     (if b \<noteq> q \<and> t b \<noteq> None \<and> t q \<noteq> None then
        (case py_truediv (the (t q)) (the (t b)) of
           Inl e \<Rightarrow> Inl e
         | Inr cross_rate \<Rightarrow>
             (case pairs_loop_loaded d t ps of
                Inl e \<Rightarrow> Inl e
              | Inr rs \<Rightarrow> Inr (cross_row d b q (py_round_float cross_rate 8) # rs)))
      else pairs_loop_loaded d t ps)"

fun dates_loop_loaded :: "loaded_row list \<Rightarrow> date list \<Rightarrow> error + float_row list" where
  "dates_loop_loaded df [] = Inr []"
| "dates_loop_loaded df (d # ds) =
     (case pairs_loop_loaded d (rates_dict_of_loaded (date_group df d)) currency_pairs of
        Inl e \<Rightarrow> Inl e
      | Inr rs \<Rightarrow> (case dates_loop_loaded df ds of
                    Inl e \<Rightarrow> Inl e
                  | Inr rest \<Rightarrow> Inr (rs @ rest)))"

definition calculate_cross_pairs_loaded :: "loaded_row list \<Rightarrow> error + float_row list" where
  "calculate_cross_pairs_loaded df =
     (case dates_loop_loaded df (groupby_dates df) of
        Inl e \<Rightarrow> Inl e
      | Inr [] \<Rightarrow> Inl KeyError
      | Inr (r # rs) \<Rightarrow> Inr (r # rs))"

text \<open>The numpy reductions on an array that may hold NaN.\<close>

fun is_fin :: "pyfloat \<Rightarrow> bool" where
  "is_fin (Fin x) = True"
| "is_fin NaN = False"

fun fin_value :: "pyfloat \<Rightarrow> real" where
  "fin_value (Fin x) = x"
| "fin_value NaN = 0"

definition np_reduce :: "(real list \<Rightarrow> real) \<Rightarrow> pyfloat list \<Rightarrow> pyfloat" where
  "np_reduce f rates = (if list_all is_fin rates then Fin (f (map fin_value rates)) else NaN)"

fun change_pct_float :: "pyfloat \<Rightarrow> pyfloat \<Rightarrow> pyfloat" where
  "change_pct_float (Fin l) (Fin f) = Fin (((l - f) / f) * 100)"
| "change_pct_float l f = NaN"

definition ytd_record_loaded ::
  "currency \<times> currency \<Rightarrow> date \<Rightarrow> pyfloat list \<Rightarrow> pyfloat metric_row" where
  "ytd_record_loaded k current_date rates =
     (let ytd_avg = np_reduce np_mean rates;
          ytd_min = np_reduce np_min rates;
          ytd_max = np_reduce np_max rates;
          ytd_first = hd rates;
          ytd_last = last rates;
          ytd_count = length rates;
          ytd_var = (if length rates > 1 then np_reduce np_var rates else Fin 0);
          ytd_std = (if length rates > 1 then np_reduce np_std rates else Fin 0);
          change_pct = (if ytd_first \<noteq> Fin 0 then change_pct_float ytd_last ytd_first else Fin 0)
      in \<lparr>ytd_rate_date = current_date,
          ytd_base_currency = fst k,
          ytd_quote_currency = snd k,
          ytd_avg_rate = py_round_float ytd_avg 8,
          ytd_min_rate = py_round_float ytd_min 8,
          ytd_max_rate = py_round_float ytd_max 8,
          ytd_first_rate = py_round_float ytd_first 8,
          ytd_last_rate = py_round_float ytd_last 8,
          ytd_days_count = ytd_count,
          ytd_variance = (if ytd_var \<noteq> Fin 0 then Some (py_round_float ytd_var 8) else None),
          ytd_std_dev = (if ytd_std \<noteq> Fin 0 then Some (py_round_float ytd_std 8) else None),
          ytd_change_pct = py_round_float change_pct 4\<rparr>)"

fun rows_loop_loaded ::
  "currency \<times> currency \<Rightarrow> float_row list \<Rightarrow> float_row list \<Rightarrow> pyfloat metric_row list" where
  "rows_loop_loaded k grp [] = []"
| "rows_loop_loaded k grp (row # rows) =
     (let current_date = rate_date row;
          window = ytd_data grp current_date
      in if length window > 0
         then ytd_record_loaded k current_date (map exchange_rate window) #
              rows_loop_loaded k grp rows
         else rows_loop_loaded k grp rows)"

fun groups_loop_loaded ::
  "float_row list \<Rightarrow> (currency \<times> currency) list \<Rightarrow> pyfloat metric_row list" where
  "groups_loop_loaded df [] = []"
| "groups_loop_loaded df (k # ks) =
     (let grp = sort_values (pair_group df k)
      in rows_loop_loaded k grp grp @ groups_loop_loaded df ks)"

definition calculate_ytd_metrics_loaded :: "float_row list \<Rightarrow> pyfloat metric_row list" where
  "calculate_ytd_metrics_loaded df =
     (let df' = sort_values df in groups_loop_loaded df' (groupby_pairs df'))"

text \<open>A frame of numbers, seen as a loaded frame and as a frame of floats.\<close>

definition num_row :: "fx_row \<Rightarrow> loaded_row" where
  "num_row r =
     cross_row (rate_date r) (base_currency r) (quote_currency r) (Float (Fin (exchange_rate r)))"

definition fin_row :: "fx_row \<Rightarrow> float_row" where
  "fin_row r =
     cross_row (rate_date r) (base_currency r) (quote_currency r) (Fin (exchange_rate r))"

text \<open>A record of numbers, seen as a record on loaded rates.\<close>

definition fin_metric :: "ytd_row \<Rightarrow> pyfloat metric_row" where
  "fin_metric y =
     \<lparr>ytd_rate_date = ytd_rate_date y,
      ytd_base_currency = ytd_base_currency y,
      ytd_quote_currency = ytd_quote_currency y,
      ytd_avg_rate = Fin (ytd_avg_rate y),
      ytd_min_rate = Fin (ytd_min_rate y),
      ytd_max_rate = Fin (ytd_max_rate y),
      ytd_first_rate = Fin (ytd_first_rate y),
      ytd_last_rate = Fin (ytd_last_rate y),
      ytd_days_count = ytd_days_count y,
      ytd_variance = map_option Fin (ytd_variance y),
      ytd_std_dev = map_option Fin (ytd_std_dev y),
      ytd_change_pct = Fin (ytd_change_pct y)\<rparr>"

text \<open>
  The example of the specification with the SEK rate missing, and the rows the cross-pair
  stage returns on it.
\<close>

definition nan_example :: "loaded_row list" where
  "nan_example =
     [cross_row (2024, 1, 1) ''EUR'' ''NOK'' (Float (Fin (23 / 2))),
      cross_row (2024, 1, 1) ''EUR'' ''SEK'' (Float NaN)]"

definition nan_example_out :: "float_row list" where
  "nan_example_out =
     [cross_row (2024, 1, 1) ''NOK'' ''EUR'' (Fin (8695652 / 10 ^ 8)),
      cross_row (2024, 1, 1) ''NOK'' ''SEK'' NaN,
      cross_row (2024, 1, 1) ''EUR'' ''NOK'' (Fin (23 / 2)),
      cross_row (2024, 1, 1) ''EUR'' ''SEK'' NaN,
      cross_row (2024, 1, 1) ''SEK'' ''NOK'' NaN,
      cross_row (2024, 1, 1) ''SEK'' ''EUR'' NaN]"

section \<open>Audit logging and the entry points: \<open>log_execution\<close>, \<open>main\<close>\<close>

text \<open>
  \<open>try: body except Exception: handler\<close>: the handler runs on the exception of the body.
\<close>

definition try_except :: "error + 'a \<Rightarrow> (error \<Rightarrow> error + 'a) \<Rightarrow> error + 'a" where
  "try_except body handler = (case body of Inl e \<Rightarrow> handler e | Inr v \<Rightarrow> Inr v)"

text \<open>
  One record of the table \<open>pipeline_execution_log\<close>, and what the database does with the
  insertion of one: it is written, or \<open>connection.execute\<close> raises, or \<open>connection.commit\<close>
  raises.
\<close>

record audit_row =
  pipeline_step :: string
  status :: string
  rows_processed :: nat
  error_message :: "error option"

datatype audit_outcome = Written | ExecuteRaises error | CommitRaises error

record audit_state =
  audit_log :: "audit_row list"
  warnings :: nat

text \<open>
  \<open>log_execution\<close> (transform.py lines 25-42, load.py lines 24-41, extract.py lines 26-53: the
  same function): the insertion and the commit are the body of a \<open>try\<close>, and the handler logs
  a warning.
\<close>

definition db_insert :: "audit_outcome \<Rightarrow> audit_row \<Rightarrow> audit_state \<Rightarrow> error + audit_state" where
  "db_insert outcome row s =
     (case outcome of
        ExecuteRaises e \<Rightarrow> Inl e
      | CommitRaises e \<Rightarrow> Inl e
      | Written \<Rightarrow> Inr (s\<lparr>audit_log := audit_log s @ [row]\<rparr>))"

definition log_execution ::
  "audit_outcome \<Rightarrow> audit_row \<Rightarrow> audit_state \<Rightarrow> error + audit_state" where
  "log_execution connection row s =
     try_except (db_insert connection row s) (\<lambda>e. Inr (s\<lparr>warnings := warnings s + 1\<rparr>))"

text \<open>
  What the surroundings of one run of transform.py's \<open>main\<close> do: the result of every call
  that leaves the module.  \<open>None\<close> is a call that returns, \<open>Some e\<close> one that raises \<open>e\<close>; the
  audit insertions are told apart by the status they write.
\<close>

record transform_env =
  validate_config_result :: "error option"
  get_db_connection_result :: "error option"
  audit_write :: "string \<Rightarrow> audit_outcome"
  load_extracted_data_result :: "error + loaded_row list"
  save_cross_result :: "error option"
  save_ytd_result :: "error option"
  close_result :: "error option"

text \<open>
  The state of a run: whether \<open>connection\<close> is set, the two output files (\<open>None\<close>: not
  written) and the audit table.
\<close>

record transform_state =
  connection :: bool
  cross_output :: "float_row list option"
  ytd_output :: "pyfloat metric_row list option"
  audit :: audit_state

definition initial_state :: transform_state where
  "initial_state =
     \<lparr>connection = False, cross_output = None, ytd_output = None,
      audit = \<lparr>audit_log = [], warnings = 0\<rparr>\<rparr>"

text \<open>
  A call of \<open>log_execution\<close> from \<open>main\<close>: its exception, if it had one, leaves with the state
  unchanged.
\<close>

definition call_log_execution ::
  "transform_env \<Rightarrow> audit_row \<Rightarrow> transform_state \<Rightarrow> error + transform_state" where
  "call_log_execution env row s =
     (case log_execution (audit_write env (status row)) row (audit s) of
        Inl e \<Rightarrow> Inl e
      | Inr a \<Rightarrow> Inr (s\<lparr>audit := a\<rparr>))"

text \<open>
  Lines 260-264: the inner \<open>try\<close>.  An exception of \<open>get_db_connection\<close> or of the call of
  \<open>log_execution\<close> is logged as a warning; \<open>connection\<close> is set as soon as
  \<open>get_db_connection\<close> has returned.
\<close>

definition connect_for_logs :: "transform_env \<Rightarrow> transform_state \<Rightarrow> transform_state" where
  "connect_for_logs env s =
     (case get_db_connection_result env of
        Some e \<Rightarrow> s\<lparr>audit := (audit s)\<lparr>warnings := warnings (audit s) + 1\<rparr>\<rparr>
      | None \<Rightarrow>
          (let s1 = s\<lparr>connection := True\<rparr>
           in case call_log_execution env
                  \<lparr>pipeline_step = ''transform'', status = ''running'', rows_processed = 0,
                   error_message = None\<rparr> s1 of
                Inl e \<Rightarrow> s1\<lparr>audit := (audit s1)\<lparr>warnings := warnings (audit s1) + 1\<rparr>\<rparr>
              | Inr s2 \<Rightarrow> s2))"

text \<open>
  Lines 243-296: the body of the outer \<open>try\<close>.  It returns the state it has reached and the
  exception that ended it, if one did.
\<close>

definition transform_body :: "transform_env \<Rightarrow> transform_state \<times> error option" where
  "transform_body env =
     (case validate_config_result env of
        Some e \<Rightarrow> (initial_state, Some e)
      | None \<Rightarrow>
          (let s1 = connect_for_logs env initial_state
           in case load_extracted_data_result env of
                Inl e \<Rightarrow> (s1, Some e)
              | Inr df_raw \<Rightarrow>
                  (case calculate_cross_pairs_loaded df_raw of
                     Inl e \<Rightarrow> (s1, Some e)
                   | Inr df_cross \<Rightarrow>
                       (case save_cross_result env of
                          Some e \<Rightarrow> (s1, Some e)
                        | None \<Rightarrow>
                            (let s2 = s1\<lparr>cross_output := Some df_cross\<rparr>;
                                 df_ytd = calculate_ytd_metrics_loaded df_cross
                             in case save_ytd_result env of
                                  Some e \<Rightarrow> (s2, Some e)
                                | None \<Rightarrow>
                                    (let s3 = s2\<lparr>ytd_output := Some df_ytd\<rparr>
                                     in if connection s3 then
                                          (case call_log_execution env
                                                 \<lparr>pipeline_step = ''transform'',
                                                  status = ''success'',
                                                  rows_processed = length df_cross + length df_ytd,
                                                  error_message = None\<rparr> s3 of
                                             Inl e \<Rightarrow> (s3, Some e)
                                           | Inr s4 \<Rightarrow> (s4, None))
                                        else (s3, None)))))))"

text \<open>
  Lines 298-308: the handler of the outer \<open>try\<close> and the \<open>finally\<close> clause.  The result is
  the return value of \<open>main\<close>, or the exception that leaves it, and the final state.
\<close>

definition transform_handler ::
  "transform_env \<Rightarrow> transform_state \<times> error option \<Rightarrow> (error + nat) \<times> transform_state" where
  "transform_handler env r =
     (case snd r of
        None \<Rightarrow> (Inr 0, fst r)
      | Some e \<Rightarrow>
          (if connection (fst r) then
             (case call_log_execution env
                    \<lparr>pipeline_step = ''transform'', status = ''failed'', rows_processed = 0,
                     error_message = Some e\<rparr> (fst r) of
                Inl e' \<Rightarrow> (Inl e', fst r)
              | Inr s \<Rightarrow> (Inr 1, s))
           else (Inr 1, fst r)))"

definition transform_finally ::
  "transform_env \<Rightarrow> (error + nat) \<times> transform_state \<Rightarrow> (error + nat) \<times> transform_state" where
  "transform_finally env r =
     (if connection (snd r) then
        (case close_result env of Some e \<Rightarrow> (Inl e, snd r) | None \<Rightarrow> r)
      else r)"

definition main :: "transform_env \<Rightarrow> (error + nat) \<times> transform_state" where
  "main env = transform_finally env (transform_handler env (transform_body env))"

text \<open>
  load.py's \<open>main\<close> (lines 214-313) has the same shape.  Its steps between the two audit
  insertions (reading the two files, the two loads, the verification) all leave the module,
  and \<open>load_steps_result\<close> is the first exception among them, if any; the number of rows
  written to the audit table is left out.
\<close>

record load_env =
  load_validate_config_result :: "error option"
  load_get_db_engine_result :: "error option"
  load_get_db_connection_result :: "error option"
  load_audit_write :: "string \<Rightarrow> audit_outcome"
  load_steps_result :: "error option"
  load_close_result :: "error option"
  load_dispose_result :: "error option"

record load_state =
  load_engine :: bool
  load_connection :: bool
  load_done :: bool
  load_audit :: audit_state

definition load_call_log_execution ::
  "load_env \<Rightarrow> audit_row \<Rightarrow> load_state \<Rightarrow> error + load_state" where
  "load_call_log_execution env row s =
     (case log_execution (load_audit_write env (status row)) row (load_audit s) of
        Inl e \<Rightarrow> Inl e
      | Inr a \<Rightarrow> Inr (s\<lparr>load_audit := a\<rparr>))"

definition load_initial_state :: load_state where
  "load_initial_state =
     \<lparr>load_engine = False, load_connection = False, load_done = False,
      load_audit = \<lparr>audit_log = [], warnings = 0\<rparr>\<rparr>"

definition load_body :: "load_env \<Rightarrow> load_state \<times> error option" where
  "load_body env =
     (case load_validate_config_result env of
        Some e \<Rightarrow> (load_initial_state, Some e)
      | None \<Rightarrow>
          (case load_get_db_engine_result env of
             Some e \<Rightarrow> (load_initial_state, Some e)
           | None \<Rightarrow>
               (let s0 = load_initial_state\<lparr>load_engine := True\<rparr>
                in case load_get_db_connection_result env of
                     Some e \<Rightarrow> (s0, Some e)
                   | None \<Rightarrow>
                       (let s1 = s0\<lparr>load_connection := True\<rparr>
                        in case load_call_log_execution env
                               \<lparr>pipeline_step = ''load'', status = ''running'',
                                rows_processed = 0, error_message = None\<rparr> s1 of
                             Inl e \<Rightarrow> (s1, Some e)
                           | Inr s2 \<Rightarrow>
                               (case load_steps_result env of
                                  Some e \<Rightarrow> (s2, Some e)
                                | None \<Rightarrow>
                                    (let s3 = s2\<lparr>load_done := True\<rparr>
                                     in case load_call_log_execution env
                                            \<lparr>pipeline_step = ''load'', status = ''success'',
                                             rows_processed = 0, error_message = None\<rparr> s3 of
                                          Inl e \<Rightarrow> (s3, Some e)
                                        | Inr s4 \<Rightarrow> (s4, None)))))))"

definition load_handler ::
  "load_env \<Rightarrow> load_state \<times> error option \<Rightarrow> (error + nat) \<times> load_state" where
  "load_handler env r =
     (case snd r of
        None \<Rightarrow> (Inr 0, fst r)
      | Some e \<Rightarrow>
          (if load_connection (fst r) then
             (case load_call_log_execution env
                    \<lparr>pipeline_step = ''load'', status = ''failed'', rows_processed = 0,
                     error_message = Some e\<rparr> (fst r) of
                Inl e' \<Rightarrow> (Inl e', fst r)
              | Inr s \<Rightarrow> (Inr 1, s))
           else (Inr 1, fst r)))"

definition load_finally ::
  "load_env \<Rightarrow> (error + nat) \<times> load_state \<Rightarrow> (error + nat) \<times> load_state" where
  "load_finally env r =
     (let r1 = (if load_connection (snd r) then
                  (case load_close_result env of Some e \<Rightarrow> (Inl e, snd r) | None \<Rightarrow> r)
                else r)
      in if load_connection (snd r) \<and> load_close_result env \<noteq> None then r1
         else if load_engine (snd r) then
           (case load_dispose_result env of Some e \<Rightarrow> (Inl e, snd r1) | None \<Rightarrow> r1)
         else r1)"

definition load_main :: "load_env \<Rightarrow> (error + nat) \<times> load_state" where
  "load_main env = load_finally env (load_handler env (load_body env))"

text \<open>
  The state \<open>log_execution\<close> leaves, and the parts of a state other than the audit table.
\<close>

definition logged :: "audit_outcome \<Rightarrow> audit_row \<Rightarrow> audit_state \<Rightarrow> audit_state" where
  "logged c row a =
     (case c of
        Written \<Rightarrow> a\<lparr>audit_log := audit_log a @ [row]\<rparr>
      | ExecuteRaises e \<Rightarrow> a\<lparr>warnings := warnings a + 1\<rparr>
      | CommitRaises e \<Rightarrow> a\<lparr>warnings := warnings a + 1\<rparr>)"

definition same_outputs :: "transform_state \<Rightarrow> transform_state \<Rightarrow> bool" where
  "same_outputs s s' =
     (connection s = connection s' \<and> cross_output s = cross_output s' \<and>
      ytd_output s = ytd_output s')"

definition same_load :: "load_state \<Rightarrow> load_state \<Rightarrow> bool" where
  "same_load s s' =
     (load_engine s = load_engine s' \<and> load_connection s = load_connection s' \<and>
      load_done s = load_done s')"

text \<open>A run of transform.py on the frame with the missing rate, everything else in order.\<close>

definition nan_env :: transform_env where
  "nan_env =
     \<lparr>validate_config_result = None, get_db_connection_result = None,
      audit_write = (\<lambda>s. Written), load_extracted_data_result = Inr nan_example,
      save_cross_result = None, save_ytd_result = None, close_result = None\<rparr>"

text \<open>The same run with a database that refuses every audit insertion.\<close>

definition nan_env_no_audit :: transform_env where
  "nan_env_no_audit = nan_env\<lparr>audit_write := (\<lambda>s. ExecuteRaises DbError)\<rparr>"

text \<open>
  A frame with a zero rate, a run whose input cannot be read and a run whose YTD output
  cannot be written.
\<close>

definition zero_example :: "loaded_row list" where
  "zero_example = [cross_row (2024, 1, 1) ''EUR'' ''NOK'' (Float (Fin 0))]"

definition unreadable_env :: transform_env where
  "unreadable_env = nan_env\<lparr>load_extracted_data_result := Inl IoError\<rparr>"

definition ytd_unwritable_env :: transform_env where
  "ytd_unwritable_env = nan_env\<lparr>save_ytd_result := Some IoError\<rparr>"

text \<open>
  A cell that holds text, and a row of a frame whose rate the pair loop reads as text: the
  row quotes a currency of the universe other than EUR, and every row of its date and quote
  currency holds text (so that whichever of them the dictionary keeps, it is text).
\<close>

fun is_text :: "cell \<Rightarrow> bool" where
  "is_text (Text s) = True"
| "is_text (Float x) = False"

definition non_numeric_rate :: "loaded_row list \<Rightarrow> loaded_row \<Rightarrow> bool" where
  "non_numeric_rate df r \<longleftrightarrow>
     r \<in> set df \<and> quote_currency r \<in> set CURRENCIES \<and> quote_currency r \<noteq> ''EUR'' \<and>
     (\<forall>r'\<in>set df. rate_date r' = rate_date r \<and> quote_currency r' = quote_currency r \<longrightarrow>
        is_text (exchange_rate r'))"

text \<open>
  The example of the specification with a SEK rate that is not a number (the whole column
  is then kept as strings), and a run on it with everything else in order.
\<close>

definition text_example :: "loaded_row list" where
  "text_example =
     [cross_row (2024, 1, 1) ''EUR'' ''NOK'' (Text ''11.5''),
      cross_row (2024, 1, 1) ''EUR'' ''SEK'' (Text ''abc'')]"

definition text_env :: transform_env where
  "text_env = nan_env\<lparr>load_extracted_data_result := Inr text_example\<rparr>"

section \<open>The stages in floating-point arithmetic\<close>

text \<open>
  Python's \<open>float\<close> and numpy's \<open>float64\<close> are IEEE 754 binary64 numbers: an arithmetic
  operation returns the exact result rounded to the nearest float.  The stages are given
  here once more with that rounding written out, as functions of the rounding \<open>rnd\<close>; the
  rates of the input frame and of the dictionary are the values of the floats, so they stay
  real numbers.  With the identity for \<open>rnd\<close> these are the stages on exact values above.

  \<open>accurate_rounding u rnd\<close> says that \<open>rnd\<close> has relative accuracy \<open>u\<close>, and \<open>binary64\<close> is
  rounding to the nearest number with a 53-bit significand, ties to even, which has accuracy
  \<open>2 ^ -53\<close>.  It is the rounding of the float operations as long as no result overflows or
  is subnormal (the exponent range is left unbounded here).
\<close>

definition accurate_rounding :: "real \<Rightarrow> (real \<Rightarrow> real) \<Rightarrow> bool" where
  "accurate_rounding u rnd = (\<forall>x. \<bar>rnd x - x\<bar> \<le> u * \<bar>x\<bar>)"

definition binary64 :: "real \<Rightarrow> real" where
  "binary64 x =
     (if x = 0 then 0
      else (let e = \<lfloor>log 2 \<bar>x\<bar>\<rfloor> - 52
            in of_int (round_half_even (x / 2 powr of_int e)) * 2 powr of_int e))"

text \<open>
  Line 101: the division of two Python floats.  Line 107: \<open>round(x, 8)\<close> of a Python float,
  which rounds the exact value of \<open>x\<close> to 8 decimals, ties to even, and returns the float
  nearest to that decimal number.
\<close>

definition float_div :: "(real \<Rightarrow> real) \<Rightarrow> real \<Rightarrow> real \<Rightarrow> real" where
  "float_div rnd a b = rnd (a / b)"

definition float_round :: "(real \<Rightarrow> real) \<Rightarrow> real \<Rightarrow> nat \<Rightarrow> real" where
  "float_round rnd x n = rnd (py_round x n)"

text \<open>Lines 97-108, 84-108 and 66-121 with these two operations.\<close>

fun pairs_loop_float ::
  "(real \<Rightarrow> real) \<Rightarrow> date \<Rightarrow> (currency \<rightharpoonup> real) \<Rightarrow> (currency \<times> currency) list \<Rightarrow>
   error + fx_row list" where
  "pairs_loop_float rnd d t [] = Inr []"
| "pairs_loop_float rnd d t ((b, q) # ps) =
     (if b \<noteq> q \<and> t b \<noteq> None \<and> t q \<noteq> None then
        (if the (t b) = 0 then Inl ZeroDivisionError
         else (case pairs_loop_float rnd d t ps of
                 Inl e \<Rightarrow> Inl e
               | Inr rs \<Rightarrow>
                   Inr (cross_row d b q
                          (float_round rnd (float_div rnd (the (t q)) (the (t b))) 8) # rs)))
      else pairs_loop_float rnd d t ps)"

fun dates_loop_float ::
  "(real \<Rightarrow> real) \<Rightarrow> fx_row list \<Rightarrow> date list \<Rightarrow> error + fx_row list" where
  "dates_loop_float rnd df [] = Inr []"
| "dates_loop_float rnd df (d # ds) =
     (case pairs_loop_float rnd d (rates_dict_of (date_group df d)) currency_pairs of
        Inl e \<Rightarrow> Inl e
      | Inr rs \<Rightarrow> (case dates_loop_float rnd df ds of
                    Inl e \<Rightarrow> Inl e
                  | Inr rest \<Rightarrow> Inr (rs @ rest)))"

definition calculate_cross_pairs_float ::
  "(real \<Rightarrow> real) \<Rightarrow> fx_row list \<Rightarrow> error + fx_row list" where
  "calculate_cross_pairs_float rnd df =
     (case dates_loop_float rnd df (groupby_dates df) of
        Inl e \<Rightarrow> Inl e
      | Inr [] \<Rightarrow> Inl KeyError
      | Inr (r # rs) \<Rightarrow> Inr (r # rs))"

text \<open>
  The distance of an emitted rate from the exact quotient \<open>x\<close> of the two table values, for
  a rounding of accuracy \<open>u\<close>: the division, the rounding to 8 decimals and the conversion
  of the decimal number to a float each add to it.  And the resulting distance from 1 of
  the product of the emitted rates of a pair and of its inverse.
\<close>

definition rate_error :: "real \<Rightarrow> real \<Rightarrow> real" where
  "rate_error u x = (1 + u) / (2 * 10 ^ 8) + u * (2 + u) * \<bar>x\<bar>"

definition product_bound :: "real \<Rightarrow> real \<Rightarrow> real" where
  "product_bound u x =
     \<bar>x\<bar> * rate_error u (1 / x) + rate_error u x / \<bar>x\<bar> + rate_error u x * rate_error u (1 / x)"

text \<open>
  The numpy reductions of lines 174-181 on a \<open>float64\<close> array, as numpy computes them
  (\<open>_mean\<close>, \<open>_var\<close> and \<open>_std\<close> of \<open>numpy/_core/_methods.py\<close>): the mean is the sum divided
  by the number of elements; the variance subtracts the mean from every element, squares
  the differences, sums the squares and divides by the number of elements, since \<open>var\<close> is
  called without \<open>ddof\<close>; the standard deviation is the square root of the variance.
  \<open>fsum\<close> is the sum of an array as numpy adds it up in floating point (\<open>add.reduce\<close>, which
  adds long arrays pairwise in blocks), and it is \<open>sum_list\<close> in exact arithmetic.  \<open>min\<close>
  and \<open>max\<close> round nothing.
\<close>

definition np_mean_float :: "(real \<Rightarrow> real) \<Rightarrow> (real list \<Rightarrow> real) \<Rightarrow> real list \<Rightarrow> real" where
  "np_mean_float rnd fsum rates = rnd (fsum rates / real (length rates))"

definition np_var_float :: "(real \<Rightarrow> real) \<Rightarrow> (real list \<Rightarrow> real) \<Rightarrow> real list \<Rightarrow> real" where
  "np_var_float rnd fsum rates =
     (let arrmean = rnd (fsum rates / real (length rates));
          x = map (\<lambda>a. rnd (a - arrmean)) rates;
          x2 = map (\<lambda>a. rnd (a * a)) x
      in rnd (fsum x2 / real (length rates)))"

definition np_std_float :: "(real \<Rightarrow> real) \<Rightarrow> (real list \<Rightarrow> real) \<Rightarrow> real list \<Rightarrow> real" where
  "np_std_float rnd fsum rates = rnd (sqrt (np_var_float rnd fsum rates))"

text \<open>
  \<open>round(x, n)\<close> of a numpy \<open>float64\<close>, which is numpy's \<open>round\<close>: the float \<open>x * 10 ** n\<close> is
  rounded to an integer, ties to even, and divided by \<open>10 ** n\<close>.
\<close>

definition np_round :: "(real \<Rightarrow> real) \<Rightarrow> real \<Rightarrow> nat \<Rightarrow> real" where
  "np_round rnd x n = rnd (of_int (round_half_even (rnd (x * 10 ^ n))) / 10 ^ n)"

text \<open>
  Lines 172-202 with these operations.  The \<open>0\<close> of lines 180, 181 and 187 is Python's
  integer, which is false as a condition and which \<open>round\<close> leaves as it is.
\<close>

definition ytd_record_float ::
  "(real \<Rightarrow> real) \<Rightarrow> (real list \<Rightarrow> real) \<Rightarrow> currency \<times> currency \<Rightarrow> date \<Rightarrow> real list \<Rightarrow> ytd_row"
  where
  "ytd_record_float rnd fsum k current_date rates =
     (let ytd_avg = np_mean_float rnd fsum rates;
          ytd_min = np_min rates;
          ytd_max = np_max rates;
          ytd_first = hd rates;
          ytd_last = last rates;
          ytd_count = length rates;
          ytd_var = (if length rates > 1 then np_var_float rnd fsum rates else 0);
          ytd_std = (if length rates > 1 then np_std_float rnd fsum rates else 0)
      in \<lparr>ytd_rate_date = current_date,
          ytd_base_currency = fst k,
          ytd_quote_currency = snd k,
          ytd_avg_rate = np_round rnd ytd_avg 8,
          ytd_min_rate = np_round rnd ytd_min 8,
          ytd_max_rate = np_round rnd ytd_max 8,
          ytd_first_rate = np_round rnd ytd_first 8,
          ytd_last_rate = np_round rnd ytd_last 8,
          ytd_days_count = ytd_count,
          ytd_variance = (if ytd_var \<noteq> 0 then Some (np_round rnd ytd_var 8) else None),
          ytd_std_dev = (if ytd_std \<noteq> 0 then Some (np_round rnd ytd_std 8) else None),
          ytd_change_pct =
            (if ytd_first \<noteq> 0
             then np_round rnd (rnd (rnd (rnd (ytd_last - ytd_first) / ytd_first) * 100)) 4
             else 0)\<rparr>)"

fun rows_loop_float ::
  "(real \<Rightarrow> real) \<Rightarrow> (real list \<Rightarrow> real) \<Rightarrow> currency \<times> currency \<Rightarrow> fx_row list \<Rightarrow>
   fx_row list \<Rightarrow> ytd_row list" where
  "rows_loop_float rnd fsum k grp [] = []"
| "rows_loop_float rnd fsum k grp (row # rows) =
     (let current_date = rate_date row;
          window = ytd_data grp current_date
      in if length window > 0
         then ytd_record_float rnd fsum k current_date (map exchange_rate window) #
              rows_loop_float rnd fsum k grp rows
         else rows_loop_float rnd fsum k grp rows)"

fun groups_loop_float ::
  "(real \<Rightarrow> real) \<Rightarrow> (real list \<Rightarrow> real) \<Rightarrow> fx_row list \<Rightarrow> (currency \<times> currency) list \<Rightarrow>
   ytd_row list" where
  "groups_loop_float rnd fsum df [] = []"
| "groups_loop_float rnd fsum df (k # ks) =
     (let grp = sort_values (pair_group df k)
      in rows_loop_float rnd fsum k grp grp @ groups_loop_float rnd fsum df ks)"

definition calculate_ytd_metrics_float ::
  "(real \<Rightarrow> real) \<Rightarrow> (real list \<Rightarrow> real) \<Rightarrow> fx_row list \<Rightarrow> ytd_row list" where
  "calculate_ytd_metrics_float rnd fsum df =
     (let df' = sort_values df in groups_loop_float rnd fsum df' (groupby_pairs df'))"

section \<open>Properties of the Cross-Pair Engine\<close>

subsection \<open>The loops without their error plumbing\<close>

lemma zero_base_Nil: "zero_base t [] = False"
  by (simp add: zero_base_def)

lemma zero_base_Cons:
  "zero_base t (p # ps) = ((emits t p \<and> the (t (fst p)) = 0) \<or> zero_base t ps)"
  by (auto simp: zero_base_def)

lemma pairs_loop_Cons:
  "pairs_loop d t (p # ps) =
     (if emits t p then
        (if the (t (fst p)) = 0 then Inl ZeroDivisionError
         else (case pairs_loop d t ps of
                 Inl e \<Rightarrow> Inl e
               | Inr rs \<Rightarrow> Inr (emitted_row d t p # rs)))
      else pairs_loop d t ps)"
proof -
  obtain b q where p: "p = (b, q)" by (cases p)
  show ?thesis unfolding p by (simp add: emits_def emitted_row_def split: sum.splits)
qed

lemma pairs_loop_eq:
  "pairs_loop d t ps =
     (if zero_base t ps then Inl ZeroDivisionError
      else Inr (map (emitted_row d t) (filter (emits t) ps)))"
proof (induction ps)
  case Nil
  show ?case by (simp add: zero_base_Nil)
next
  case (Cons p ps)
  show ?case
    by (simp only: pairs_loop_Cons zero_base_Cons Cons.IH) simp
qed

lemma dates_loop_eq:
  "dates_loop df ds =
     (if \<exists>d\<in>set ds. zero_base (table_of df d) currency_pairs then Inl ZeroDivisionError
      else Inr (concat (map (\<lambda>d. date_rows d (table_of df d)) ds)))"
proof (induction ds)
  case Nil
  show ?case by simp
next
  case (Cons d ds)
  show ?case
    using Cons.IH
    by (simp add: pairs_loop_eq table_of_def date_rows_def)
qed

lemma rates_dict_loop_eq:
  "rates_dict_loop m rs c =
     (if \<exists>r\<in>set rs. quote_currency r = c
      then Some (exchange_rate (last (filter (\<lambda>r. quote_currency r = c) rs)))
      else m c)"
proof (induction rs arbitrary: m)
  case Nil
  show ?case by simp
next
  case (Cons r rs)
  show ?case
    by (simp add: Cons.IH filter_empty_conv) 
qed

lemma calculate_cross_pairs_eq:
  "calculate_cross_pairs df =
     (if \<exists>d\<in>set (groupby_dates df). zero_base (table_of df d) currency_pairs
      then Inl ZeroDivisionError
      else if all_rows df = [] then Inl KeyError else Inr (all_rows df))"
proof (cases "all_rows df")
  case Nil
  then show ?thesis
    by (simp add: calculate_cross_pairs_def dates_loop_eq all_rows_def [symmetric])
next
  case (Cons r rs)
  then show ?thesis
    by (simp add: calculate_cross_pairs_def dates_loop_eq all_rows_def [symmetric])
qed

lemma calculate_cross_pairs_Inr:
  "calculate_cross_pairs df = Inr out \<Longrightarrow> out = all_rows df"
  by (simp add: calculate_cross_pairs_eq split: if_splits)


lemma set_groupby_dates: "set (groupby_dates df) = rate_date ` set df"
  by (simp add: groupby_dates_def)

lemma distinct_groupby_dates: "distinct (groupby_dates df)"
  by (simp add: groupby_dates_def)

lemma sorted_groupby_dates: "sorted (groupby_dates df)"
  by (simp add: groupby_dates_def)

lemma table_of_eq:
  "table_of df d c =
     (if \<exists>r\<in>set df. rate_date r = d \<and> quote_currency r = c
      then Some (exchange_rate (last (filter (\<lambda>r. rate_date r = d \<and> quote_currency r = c) df)))
      else if c = ''EUR'' then Some 1 else None)"
proof -
  have f: "filter (\<lambda>r. quote_currency r = c) (filter (\<lambda>r. rate_date r = d) df) =
           filter (\<lambda>r. rate_date r = d \<and> quote_currency r = c) df"
    by (simp add: conj_commute)
  show ?thesis
    by (auto simp add: table_of_def rates_dict_of_def date_group_def rates_dict_loop_eq f)
qed

lemma dom_table_of:
  "dom (table_of df d) \<inter> set CURRENCIES = available df d"
  by (auto simp add: available_def table_of_eq dom_def CURRENCIES_def split: if_splits)

lemma rate_date_date_rows: "r \<in> set (date_rows d t) \<Longrightarrow> rate_date r = d"
  by (auto simp add: date_rows_def emitted_row_def cross_row_def)

lemma filter_date_date_rows:
  "filter (\<lambda>r. rate_date r = d) (date_rows d' t) = (if d' = d then date_rows d' t else [])"
  by (auto simp add: filter_empty_conv filter_id_conv dest: rate_date_date_rows)

lemma filter_date_concat:
  "distinct ds \<Longrightarrow>
   filter (\<lambda>r. rate_date r = d) (concat (map (\<lambda>d. date_rows d (T d)) ds)) =
     (if d \<in> set ds then date_rows d (T d) else [])"
  by (induction ds) (auto simp add: filter_date_date_rows)

lemma filter_date_all_rows:
  "filter (\<lambda>r. rate_date r = d) (all_rows df) =
     (if d \<in> rate_date ` set df then date_rows d (table_of df d) else [])"
  by (simp add: all_rows_def filter_date_concat distinct_groupby_dates set_groupby_dates)

lemma pair_key_emitted_row: "pair_key (emitted_row d t p) = p"
  by (simp add: pair_key_def emitted_row_def cross_row_def)

lemma map_pair_key_date_rows:
  "map pair_key (date_rows d t) = filter (emits t) currency_pairs"
  by (simp add: date_rows_def pair_key_emitted_row o_def)

lemma distinct_currency_pairs: "distinct currency_pairs"
  by (simp add: currency_pairs_def CURRENCIES_def distinct_product)

lemma set_emitting_pairs:
  "set (filter (emits (table_of df d)) currency_pairs) =
     {(b, q). b \<in> available df d \<and> q \<in> available df d \<and> b \<noteq> q}"
proof -
  have "set currency_pairs = set CURRENCIES \<times> set CURRENCIES"
    by (simp add: currency_pairs_def)
  then show ?thesis
    unfolding dom_table_of [symmetric]
    by (auto simp add: emits_def dom_def)
qed

lemma card_off_diagonal:
  assumes "finite A"
  shows "card {(b, q). b \<in> A \<and> q \<in> A \<and> b \<noteq> q} = card A * (card A - 1)"
proof -
  have eq: "{(b, q). b \<in> A \<and> q \<in> A \<and> b \<noteq> q} = A \<times> A - Id_on A"
    by (auto simp add: Id_on_def)
  have sub: "Id_on A \<subseteq> A \<times> A"
    by (auto simp add: Id_on_def)
  have "Id_on A = (\<lambda>x. (x, x)) ` A"
    by (auto simp add: Id_on_def)
  then have cd: "card (Id_on A) = card A"
    by (simp add: card_image inj_on_def)
  have "card (A \<times> A - Id_on A) = card (A \<times> A) - card (Id_on A)"
    using assms sub by (simp add: card_Diff_subset finite_subset)
  then show ?thesis
    unfolding eq by (simp add: cd card_cartesian_product diff_mult_distrib2)
qed

lemma finite_available: "finite (available df d)"
  by (simp add: available_def)

lemma calculate_cross_pairs_fx_example:
  "calculate_cross_pairs fx_example = Inr fx_example_out"
  by code_simp

lemma table_of_nonzero:
  assumes "raw_rates_nonzero df" and "table_of df d c = Some v"
  shows "v \<noteq> 0"
proof (cases "\<exists>r\<in>set df. rate_date r = d \<and> quote_currency r = c")
  case True
  define xs where "xs = filter (\<lambda>r. rate_date r = d \<and> quote_currency r = c) df"
  from True have ne: "xs \<noteq> []"
    by (auto simp add: xs_def filter_empty_conv)
  then have "last xs \<in> set xs" by simp
  then have "last xs \<in> set df" by (simp add: xs_def)
  moreover from True assms(2) have "v = exchange_rate (last xs)"
    by (simp add: table_of_eq xs_def)
  ultimately show ?thesis
    using assms(1) by (simp add: raw_rates_nonzero_def)
next
  case False
  with assms(2) show ?thesis
    by (simp add: table_of_eq split: if_splits)
qed

lemma no_zero_base:
  assumes "raw_rates_nonzero df"
  shows "\<not> zero_base (table_of df d) ps"
proof
  assume "zero_base (table_of df d) ps"
  then obtain p where "emits (table_of df d) p" and z: "the (table_of df d (fst p)) = 0"
    by (auto simp add: zero_base_def)
  then obtain v where "table_of df d (fst p) = Some v"
    by (auto simp add: emits_def)
  with table_of_nonzero [OF assms this] z show False by simp
qed

lemma all_rows_nonempty:
  assumes "has_universe_row df"
  shows "all_rows df \<noteq> []"
proof -
  from assms obtain r where r: "r \<in> set df" "quote_currency r \<in> set CURRENCIES"
      "quote_currency r \<noteq> ''EUR''"
    by (auto simp add: has_universe_row_def)
  let ?d = "rate_date r" and ?p = "(''EUR'', quote_currency r)"
  have "?p \<in> set currency_pairs"
    using r(2) by (simp add: currency_pairs_def CURRENCIES_def)
  moreover have "emits (table_of df ?d) ?p"
    using r by (auto simp add: emits_def table_of_eq)
  ultimately have "date_rows ?d (table_of df ?d) \<noteq> []"
    by (auto simp add: date_rows_def filter_empty_conv)
  moreover have "?d \<in> set (groupby_dates df)"
    using r(1) by (simp add: set_groupby_dates)
  ultimately show ?thesis
    by (auto simp add: all_rows_def)
qed

lemma calculate_cross_pairs_returns:
  "raw_rates_nonzero df \<Longrightarrow> has_universe_row df \<Longrightarrow>
   calculate_cross_pairs df = Inr (all_rows df)"
  by (simp add: calculate_cross_pairs_eq no_zero_base all_rows_nonempty)

lemma base_neq_quote_all_rows:
  "r \<in> set (all_rows df) \<Longrightarrow> base_currency r \<noteq> quote_currency r"
  by (auto simp add: all_rows_def date_rows_def emits_def emitted_row_def cross_row_def)

subsection \<open>Which pairs a date emits\<close>

text \<open>
  Claim C4.  For a date \<open>d\<close> of the input, let the available currencies be those of
  \<open>CURRENCIES\<close> that are EUR or are the quote currency of some row of \<open>d\<close>, and \<open>k\<close> their
  number.  Whenever \<open>calculate_cross_pairs\<close> returns, the rows it emits for \<open>d\<close> have pairwise
  different (base, quote) keys, these keys are exactly the ordered pairs of two different
  available currencies, there are \<open>k * (k - 1)\<close> of them, and no emitted row at all has its
  base equal to its quote.  The function does return when no input rate is zero and some row
  quotes a non-EUR currency of the universe.
\<close>

theorem cross_pairs_keys_per_date:
  assumes "d \<in> rate_date ` set df"
  shows "(raw_rates_nonzero df \<and> has_universe_row df \<longrightarrow>
            (\<exists>out. calculate_cross_pairs df = Inr out)) \<and>
         (\<forall>out. calculate_cross_pairs df = Inr out \<longrightarrow>
            distinct (map pair_key (filter (\<lambda>r. rate_date r = d) out)) \<and>
            set (map pair_key (filter (\<lambda>r. rate_date r = d) out)) =
              {(b, q). b \<in> available df d \<and> q \<in> available df d \<and> b \<noteq> q} \<and>
            length (filter (\<lambda>r. rate_date r = d) out) =
              card (available df d) * (card (available df d) - 1) \<and>
            (\<forall>r\<in>set out. base_currency r \<noteq> quote_currency r))"
proof (intro conjI allI impI)
  assume "raw_rates_nonzero df \<and> has_universe_row df"
  then show "\<exists>out. calculate_cross_pairs df = Inr out"
    by (auto simp add: calculate_cross_pairs_returns)
next
  fix out
  assume "calculate_cross_pairs df = Inr out"
  then have out: "out = all_rows df"
    by (rule calculate_cross_pairs_Inr)
  have keys: "map pair_key (filter (\<lambda>r. rate_date r = d) out) =
              filter (emits (table_of df d)) currency_pairs"
    using assms by (simp add: out filter_date_all_rows map_pair_key_date_rows)
  show "distinct (map pair_key (filter (\<lambda>r. rate_date r = d) out))"
    by (simp add: keys distinct_currency_pairs)
  show s: "set (map pair_key (filter (\<lambda>r. rate_date r = d) out)) =
        {(b, q). b \<in> available df d \<and> q \<in> available df d \<and> b \<noteq> q}"
    by (simp only: keys set_emitting_pairs)
  have "length (filter (\<lambda>r. rate_date r = d) out) =
        length (map pair_key (filter (\<lambda>r. rate_date r = d) out))"
    by simp
  also have "\<dots> = card (set (map pair_key (filter (\<lambda>r. rate_date r = d) out)))"
    by (simp only: keys distinct_card [OF distinct_filter [OF distinct_currency_pairs]])
  also have "\<dots> = card (available df d) * (card (available df d) - 1)"
    by (simp only: s card_off_diagonal [OF finite_available])
  finally show "length (filter (\<lambda>r. rate_date r = d) out) =
        card (available df d) * (card (available df d) - 1)" .
  show "\<forall>r\<in>set out. base_currency r \<noteq> quote_currency r"
    by (simp add: out base_neq_quote_all_rows)
qed

text \<open>
  The example of the specification: NOK at 11.5 and SEK at 11.2 on 2024-01-01 give three
  available currencies and six rows.
\<close>

theorem cross_pairs_keys_per_date_witness:
  "(2024, 1, 1) \<in> rate_date ` set fx_example \<and>
   raw_rates_nonzero fx_example \<and> has_universe_row fx_example \<and>
   calculate_cross_pairs fx_example = Inr fx_example_out \<and>
   card (available fx_example (2024, 1, 1)) = 3 \<and>
   length (filter (\<lambda>r. rate_date r = (2024, 1, 1)) fx_example_out) = 3 * (3 - 1) \<and>
   set (map pair_key (filter (\<lambda>r. rate_date r = (2024, 1, 1)) fx_example_out)) =
     {(b, q). b \<in> available fx_example (2024, 1, 1) \<and>
              q \<in> available fx_example (2024, 1, 1) \<and> b \<noteq> q}"
proof -
  have d: "(2024, 1, 1) \<in> rate_date ` set fx_example" by code_simp
  have nz: "raw_rates_nonzero fx_example" by code_simp
  have hu: "has_universe_row fx_example" by code_simp
  have c: "card (available fx_example (2024, 1, 1)) = 3" by code_simp
  have out: "calculate_cross_pairs fx_example = Inr fx_example_out" by code_simp
  from cross_pairs_keys_per_date [OF d] out c
  show ?thesis
    using d nz hu by simp
qed

lemma filter_eq_key_distinct:
  "distinct (map f xs) \<Longrightarrow> r \<in> set xs \<Longrightarrow> filter (\<lambda>x. f x = f r) xs = [r]"
proof (induction xs)
  case Nil
  then show ?case by simp
next
  case (Cons a xs)
  show ?case
  proof (cases "a = r")
    case True
    with Cons.prems(1) have "f r \<notin> f ` set xs"
      by simp
    then have "\<forall>x\<in>set xs. f x \<noteq> f r"
      by (metis imageI)
    then have "filter (\<lambda>x. f x = f r) xs = []"
      by (simp add: filter_empty_conv)
    with True show ?thesis by simp
  next
    case False
    with Cons.prems have "r \<in> set xs" and "f a \<noteq> f r"
      by auto
    with Cons show ?thesis by simp
  qed
qed

lemma table_of_unique_row:
  assumes "raw_keys_distinct df" and "r \<in> set df"
  shows "table_of df (rate_date r) (quote_currency r) = Some (exchange_rate r)"
proof -
  have "filter (\<lambda>x. (rate_date x, quote_currency x) = (rate_date r, quote_currency r)) df = [r]"
    using assms filter_eq_key_distinct [of "\<lambda>r. (rate_date r, quote_currency r)" df r]
    by (simp add: raw_keys_distinct_def)
  then have "filter (\<lambda>x. rate_date x = rate_date r \<and> quote_currency x = quote_currency r) df = [r]"
    by simp
  then show ?thesis
    using assms(2) by (auto simp add: table_of_eq)
qed

lemma table_of_EUR:
  "no_eur_quote df \<Longrightarrow> table_of df d ''EUR'' = Some 1"
  by (auto simp add: table_of_eq no_eur_quote_def)

lemma filter_eq_distinct:
  "distinct xs \<Longrightarrow>
   filter (\<lambda>x. P x \<and> x = p) xs = (if p \<in> set xs \<and> P p then [p] else [])"
  by (induction xs) (auto simp add: filter_empty_conv)

lemma filter_key_date_rows:
  "filter (\<lambda>x. pair_key x = p) (date_rows d t) =
     (if p \<in> set currency_pairs \<and> emits t p then [emitted_row d t p] else [])"
proof -
  have "filter (\<lambda>x. pair_key x = p) (date_rows d t) =
        map (emitted_row d t) (filter (\<lambda>x. x = p) (filter (emits t) currency_pairs))"
    by (simp add: date_rows_def filter_map o_def pair_key_emitted_row)
  also have "\<dots> = (if p \<in> set currency_pairs \<and> emits t p then [emitted_row d t p] else [])"
    by (simp add: filter_eq_distinct distinct_currency_pairs)
  finally show ?thesis .
qed

lemma filter_date_key_all_rows:
  "filter (\<lambda>x. rate_date x = d \<and> base_currency x = b \<and> quote_currency x = q) (all_rows df) =
     (if d \<in> rate_date ` set df \<and> (b, q) \<in> set currency_pairs \<and> emits (table_of df d) (b, q)
      then [emitted_row d (table_of df d) (b, q)] else [])"
proof -
  have "filter (\<lambda>x. rate_date x = d \<and> base_currency x = b \<and> quote_currency x = q) (all_rows df) =
        filter (\<lambda>x. pair_key x = (b, q)) (filter (\<lambda>x. rate_date x = d) (all_rows df))"
    by (simp add: pair_key_def conj_commute conj_left_commute)
  then show ?thesis
    by (simp add: filter_date_all_rows filter_key_date_rows)
qed

subsection \<open>Round trip of the EUR pairs\<close>

text \<open>
  Claim C7.  Let the raw rows have pairwise different (date, quote currency) keys and let no
  row quote EUR, as the RawRate data model says.  For every raw row \<open>r\<close>: whenever
  \<open>calculate_cross_pairs\<close> returns, the rows it emits for \<open>r\<close>'s date with base EUR and
  \<open>r\<close>'s currency as quote are exactly one row, holding \<open>r\<close>'s own rate rounded to 8
  decimals, when that currency belongs to \<open>CURRENCIES\<close>, and no row otherwise.  The function
  returns when that currency belongs to \<open>CURRENCIES\<close> and no input rate is zero.
\<close>

theorem eur_pair_round_trip:
  assumes "r \<in> set df" and "raw_keys_distinct df" and "no_eur_quote df"
  shows "(quote_currency r \<in> set CURRENCIES \<and> raw_rates_nonzero df \<longrightarrow>
            (\<exists>out. calculate_cross_pairs df = Inr out)) \<and>
         (\<forall>out. calculate_cross_pairs df = Inr out \<longrightarrow>
            filter (\<lambda>x. rate_date x = rate_date r \<and> base_currency x = ''EUR'' \<and>
                        quote_currency x = quote_currency r) out =
              (if quote_currency r \<in> set CURRENCIES
               then [cross_row (rate_date r) ''EUR'' (quote_currency r)
                        (py_round (exchange_rate r) 8)]
               else []))"
proof (intro conjI allI impI)
  assume a: "quote_currency r \<in> set CURRENCIES \<and> raw_rates_nonzero df"
  with assms(1,3) have "has_universe_row df"
    by (auto simp add: has_universe_row_def no_eur_quote_def)
  with a show "\<exists>out. calculate_cross_pairs df = Inr out"
    by (auto simp add: calculate_cross_pairs_returns)
next
  fix out
  assume "calculate_cross_pairs df = Inr out"
  then have out: "out = all_rows df"
    by (rule calculate_cross_pairs_Inr)
  let ?t = "table_of df (rate_date r)"
  have tq: "?t (quote_currency r) = Some (exchange_rate r)"
    using assms(1,2) by (simp add: table_of_unique_row)
  have te: "?t ''EUR'' = Some 1"
    using assms(3) by (rule table_of_EUR)
  have ne: "quote_currency r \<noteq> ''EUR''"
    using assms(1,3) by (auto simp add: no_eur_quote_def)
  have em: "emits ?t (''EUR'', quote_currency r)"
    using tq te ne by (auto simp add: emits_def)
  have row: "emitted_row (rate_date r) ?t (''EUR'', quote_currency r) =
             cross_row (rate_date r) ''EUR'' (quote_currency r) (py_round (exchange_rate r) 8)"
    by (simp add: emitted_row_def tq te)
  have mem: "(''EUR'', quote_currency r) \<in> set currency_pairs \<longleftrightarrow>
             quote_currency r \<in> set CURRENCIES"
    by (simp add: currency_pairs_def CURRENCIES_def)
  show "filter (\<lambda>x. rate_date x = rate_date r \<and> base_currency x = ''EUR'' \<and>
                        quote_currency x = quote_currency r) out =
              (if quote_currency r \<in> set CURRENCIES
               then [cross_row (rate_date r) ''EUR'' (quote_currency r)
                        (py_round (exchange_rate r) 8)]
               else [])"
    unfolding out filter_date_key_all_rows
    using assms(1) em row mem by simp
qed

text \<open>The NOK row of the example comes back as the row (EUR, NOK) with 11.5 rounded.\<close>

theorem eur_pair_round_trip_witness:
  "cross_row (2024, 1, 1) ''EUR'' ''NOK'' (23 / 2) \<in> set fx_example \<and>
   raw_keys_distinct fx_example \<and> no_eur_quote fx_example \<and>
   ''NOK'' \<in> set CURRENCIES \<and> raw_rates_nonzero fx_example \<and>
   calculate_cross_pairs fx_example = Inr fx_example_out \<and>
   filter (\<lambda>x. rate_date x = (2024, 1, 1) \<and> base_currency x = ''EUR'' \<and>
               quote_currency x = ''NOK'') fx_example_out =
     [cross_row (2024, 1, 1) ''EUR'' ''NOK'' (py_round (23 / 2) 8)]"
proof -
  have m: "cross_row (2024, 1, 1) ''EUR'' ''NOK'' (23 / 2) \<in> set fx_example" by code_simp
  have k: "raw_keys_distinct fx_example" by code_simp
  have e: "no_eur_quote fx_example" by code_simp
  have c: "''NOK'' \<in> set CURRENCIES" by code_simp
  have nz: "raw_rates_nonzero fx_example" by code_simp
  have out: "calculate_cross_pairs fx_example = Inr fx_example_out" by code_simp
  from eur_pair_round_trip [OF m k e] out c
  have "filter (\<lambda>x. rate_date x = (2024, 1, 1) \<and> base_currency x = ''EUR'' \<and>
               quote_currency x = ''NOK'') fx_example_out =
     [cross_row (2024, 1, 1) ''EUR'' ''NOK'' (py_round (23 / 2) 8)]"
    by (simp add: cross_row_def)
  with m k e c nz out show ?thesis by simp
qed


lemma all_rows_at_date:
  assumes "x \<in> set (all_rows df)" and "rate_date x = d"
  shows "\<exists>p\<in>set currency_pairs. emits (table_of df d) p \<and> x = emitted_row d (table_of df d) p"
proof -
  from assms obtain d' where "x \<in> set (date_rows d' (table_of df d'))"
    by (auto simp add: all_rows_def)
  moreover from this assms(2) have "d' = d"
    by (auto dest: rate_date_date_rows)
  ultimately show ?thesis
    by (auto simp add: date_rows_def)
qed

lemma emitted_row_sel:
  "rate_date (emitted_row d t p) = d"
  "base_currency (emitted_row d t p) = fst p"
  "quote_currency (emitted_row d t p) = snd p"
  "exchange_rate (emitted_row d t p) = py_round (the (t (snd p)) / the (t (fst p))) 8"
  by (simp_all add: emitted_row_def cross_row_def)

lemma all_rows_at_date_values:
  assumes "x \<in> set (all_rows df)" and "rate_date x = d"
  shows "\<exists>vb vq. table_of df d (base_currency x) = Some vb \<and>
           table_of df d (quote_currency x) = Some vq \<and>
           exchange_rate x = py_round (vq / vb) 8 \<and>
           base_currency x \<in> set CURRENCIES \<and> quote_currency x \<in> set CURRENCIES \<and>
           base_currency x \<noteq> quote_currency x"
proof -
  from all_rows_at_date [OF assms] obtain p where p: "p \<in> set currency_pairs"
      "emits (table_of df d) p" "x = emitted_row d (table_of df d) p"
    by blast
  from p(2) obtain vb vq where v: "table_of df d (fst p) = Some vb"
      "table_of df d (snd p) = Some vq" "fst p \<noteq> snd p"
    by (auto simp add: emits_def)
  from p(1) have "fst p \<in> set CURRENCIES" "snd p \<in> set CURRENCIES"
    by (auto simp add: currency_pairs_def)
  with v show ?thesis
    by (simp add: p(3) emitted_row_sel)
qed

subsection \<open>The per-date table and the emitted rates\<close>



subsection \<open>Rows of currencies outside the universe\<close>

lemma table_of_drop_foreign:
  assumes "quote_currency r \<notin> set CURRENCIES" and "c \<in> set CURRENCIES"
  shows "table_of (xs @ r # ys) d c = table_of (xs @ ys) d c"
proof -
  from assms have ne: "quote_currency r \<noteq> c" by auto
  then have "filter (\<lambda>x. rate_date x = d \<and> quote_currency x = c) (xs @ r # ys) =
        filter (\<lambda>x. rate_date x = d \<and> quote_currency x = c) (xs @ ys)"
    by simp
  moreover have "(\<exists>x\<in>set (xs @ r # ys). rate_date x = d \<and> quote_currency x = c) \<longleftrightarrow>
        (\<exists>x\<in>set (xs @ ys). rate_date x = d \<and> quote_currency x = c)"
    using ne by auto
  ultimately show ?thesis
    by (simp only: table_of_eq)
qed

lemma currency_pairs_in_universe:
  "p \<in> set currency_pairs \<Longrightarrow> fst p \<in> set CURRENCIES \<and> snd p \<in> set CURRENCIES"
  by (auto simp add: currency_pairs_def)

lemma emits_cong_universe:
  assumes "\<forall>c\<in>set CURRENCIES. t1 c = t2 c" and "p \<in> set currency_pairs"
  shows "emits t1 p = emits t2 p" and "emitted_row d t1 p = emitted_row d t2 p"
  using assms currency_pairs_in_universe [OF assms(2)]
  by (simp_all add: emits_def emitted_row_def)

lemma date_rows_cong_universe:
  assumes "\<forall>c\<in>set CURRENCIES. t1 c = t2 c"
  shows "date_rows d t1 = date_rows d t2"
proof -
  have "filter (emits t1) currency_pairs = filter (emits t2) currency_pairs"
    using assms by (intro filter_cong refl) (rule emits_cong_universe)
  moreover have "map (emitted_row d t1) (filter (emits t2) currency_pairs) =
        map (emitted_row d t2) (filter (emits t2) currency_pairs)"
    using assms by (intro map_cong refl) (simp add: emits_cong_universe)
  ultimately show ?thesis
    by (simp add: date_rows_def)
qed

lemma zero_base_cong_universe:
  assumes "\<forall>c\<in>set CURRENCIES. t1 c = t2 c"
  shows "zero_base t1 currency_pairs = zero_base t2 currency_pairs"
proof -
  have "\<And>p. p \<in> set currency_pairs \<Longrightarrow>
      (emits t1 p \<and> the (t1 (fst p)) = 0) = (emits t2 p \<and> the (t2 (fst p)) = 0)"
  proof -
    fix p assume p: "p \<in> set currency_pairs"
    from assms p have "emits t1 p = emits t2 p"
      by (rule emits_cong_universe)
    moreover from assms currency_pairs_in_universe [OF p] have "t1 (fst p) = t2 (fst p)"
      by simp
    ultimately show "(emits t1 p \<and> the (t1 (fst p)) = 0) = (emits t2 p \<and> the (t2 (fst p)) = 0)"
      by simp
  qed
  then show ?thesis
    unfolding zero_base_def by blast
qed

lemma concat_map_filter_nonempty:
  "concat (map F ds) = concat (map F (filter (\<lambda>d. F d \<noteq> []) ds))"
  by (induction ds) simp_all

lemma table_of_no_rows:
  assumes "d \<notin> rate_date ` set df"
  shows "table_of df d = [''EUR'' \<mapsto> 1]"
proof -
  from assms have "date_group df d = []"
    by (auto simp add: date_group_def filter_empty_conv)
  then show ?thesis
    by (simp add: table_of_def rates_dict_of_def)
qed

lemma emits_single: "\<not> emits [c \<mapsto> v] p"
  by (auto simp add: emits_def)

lemma date_rows_no_rows:
  assumes "d \<notin> rate_date ` set df"
  shows "date_rows d (table_of df d) = []" and "\<not> zero_base (table_of df d) ps"
  by (simp_all add: table_of_no_rows [OF assms] date_rows_def zero_base_def emits_single)


lemma groupby_dates_drop:
  assumes "\<forall>d. d \<in> rate_date ` set df1 \<and> d \<notin> rate_date ` set df2 \<longrightarrow> \<not> P d"
    and "rate_date ` set df2 \<subseteq> rate_date ` set df1"
  shows "filter P (groupby_dates df1) = filter P (groupby_dates df2)"
proof (rule sorted_distinct_set_unique)
  show "sorted (filter P (groupby_dates df1))" "sorted (filter P (groupby_dates df2))"
    by (simp_all add: sorted_groupby_dates sorted_wrt_filter)
  show "distinct (filter P (groupby_dates df1))" "distinct (filter P (groupby_dates df2))"
    by (simp_all add: distinct_groupby_dates)
  show "set (filter P (groupby_dates df1)) = set (filter P (groupby_dates df2))"
    unfolding set_filter set_groupby_dates using assms by blast
qed

lemma calculate_cross_pairs_drop_foreign:
  assumes "quote_currency r \<notin> set CURRENCIES"
  shows "calculate_cross_pairs (xs @ r # ys) = calculate_cross_pairs (xs @ ys)"
proof -
  let ?df1 = "xs @ r # ys" and ?df2 = "xs @ ys"
  let ?F = "\<lambda>d. date_rows d (table_of ?df2 d)"
  let ?Z = "\<lambda>d. zero_base (table_of ?df2 d) currency_pairs"
  have tab: "\<And>d. \<forall>c\<in>set CURRENCIES. table_of ?df1 d c = table_of ?df2 d c"
    using assms by (simp add: table_of_drop_foreign)
  have F: "\<And>d. date_rows d (table_of ?df1 d) = ?F d"
    by (rule date_rows_cong_universe) (rule tab)
  have Z: "\<And>d. zero_base (table_of ?df1 d) currency_pairs = ?Z d"
    by (rule zero_base_cong_universe) (rule tab)
  have sub: "rate_date ` set ?df2 \<subseteq> rate_date ` set ?df1"
    by auto
  have "all_rows ?df1 = concat (map ?F (groupby_dates ?df1))"
    by (simp only: all_rows_def F)
  also have "\<dots> = concat (map ?F (filter (\<lambda>d. ?F d \<noteq> []) (groupby_dates ?df1)))"
    by (rule concat_map_filter_nonempty)
  also have "filter (\<lambda>d. ?F d \<noteq> []) (groupby_dates ?df1) =
             filter (\<lambda>d. ?F d \<noteq> []) (groupby_dates ?df2)"
    by (rule groupby_dates_drop [OF _ sub]) (simp add: date_rows_no_rows)
  also have "concat (map ?F (filter (\<lambda>d. ?F d \<noteq> []) (groupby_dates ?df2))) =
             concat (map ?F (groupby_dates ?df2))"
    by (rule concat_map_filter_nonempty [symmetric])
  also have "\<dots> = all_rows ?df2"
    by (simp only: all_rows_def)
  finally have rows: "all_rows ?df1 = all_rows ?df2" .
  have "filter ?Z (groupby_dates ?df1) = filter ?Z (groupby_dates ?df2)"
    by (rule groupby_dates_drop [OF _ sub]) (simp add: date_rows_no_rows)
  then have "set (filter ?Z (groupby_dates ?df1)) = set (filter ?Z (groupby_dates ?df2))"
    by simp
  then have zero: "(\<exists>d\<in>set (groupby_dates ?df1). ?Z d) = (\<exists>d\<in>set (groupby_dates ?df2). ?Z d)"
    by auto
  show ?thesis
    by (simp only: calculate_cross_pairs_eq Z rows zero)
qed

text \<open>
  Claim C10.  Let \<open>r\<close> be a raw row whose quote currency is not in \<open>CURRENCIES\<close>.  The
  result of \<open>calculate_cross_pairs\<close> on an input holding \<open>r\<close> is the result on the same
  input without \<open>r\<close> (the same rows in the same order, or the same error), and whenever the
  function returns, no emitted row has \<open>r\<close>'s currency as base or quote.  The function
  returns when no input rate is zero and some other row quotes a non-EUR currency of the
  universe.
\<close>

theorem foreign_currency_row_ignored:
  assumes "quote_currency r \<notin> set CURRENCIES"
  shows "calculate_cross_pairs (xs @ r # ys) = calculate_cross_pairs (xs @ ys) \<and>
         (raw_rates_nonzero (xs @ r # ys) \<and> has_universe_row (xs @ ys) \<longrightarrow>
            (\<exists>out. calculate_cross_pairs (xs @ r # ys) = Inr out)) \<and>
         (\<forall>out. calculate_cross_pairs (xs @ r # ys) = Inr out \<longrightarrow>
            (\<forall>x\<in>set out. base_currency x \<noteq> quote_currency r \<and>
                          quote_currency x \<noteq> quote_currency r))"
proof (intro conjI allI impI ballI)
  show "calculate_cross_pairs (xs @ r # ys) = calculate_cross_pairs (xs @ ys)"
    using assms by (rule calculate_cross_pairs_drop_foreign)
next
  assume "raw_rates_nonzero (xs @ r # ys) \<and> has_universe_row (xs @ ys)"
  then have "raw_rates_nonzero (xs @ r # ys)" and "has_universe_row (xs @ r # ys)"
    by (auto simp add: has_universe_row_def)
  then show "\<exists>out. calculate_cross_pairs (xs @ r # ys) = Inr out"
    by (auto simp add: calculate_cross_pairs_returns)
next
  fix out x
  assume ret: "calculate_cross_pairs (xs @ r # ys) = Inr out" and x: "x \<in> set out"
  from x calculate_cross_pairs_Inr [OF ret] have "x \<in> set (all_rows (xs @ r # ys))"
    by simp
  from all_rows_at_date_values [OF this refl]
  have "base_currency x \<in> set CURRENCIES" and "quote_currency x \<in> set CURRENCIES"
    by auto
  with assms show "base_currency x \<noteq> quote_currency r" and "quote_currency x \<noteq> quote_currency r"
    by auto
qed

text \<open>A USD row added to the example changes nothing.\<close>

theorem foreign_currency_row_ignored_witness:
  "quote_currency foreign_row \<notin> set CURRENCIES \<and>
   raw_rates_nonzero (fx_example @ foreign_row # []) \<and> has_universe_row (fx_example @ []) \<and>
   calculate_cross_pairs (fx_example @ foreign_row # []) = Inr fx_example_out \<and>
   calculate_cross_pairs (fx_example @ []) = Inr fx_example_out \<and>
   ''USD'' \<notin> base_currency ` set fx_example_out \<and>
   ''USD'' \<notin> quote_currency ` set fx_example_out"
proof -
  have f: "quote_currency foreign_row \<notin> set CURRENCIES" by code_simp
  have q: "quote_currency foreign_row = ''USD''" by code_simp
  have nz: "raw_rates_nonzero (fx_example @ foreign_row # [])" by code_simp
  have hu: "has_universe_row (fx_example @ [])" by code_simp
  have out: "calculate_cross_pairs (fx_example @ foreign_row # []) = Inr fx_example_out"
    by code_simp
  note th = foreign_currency_row_ignored [OF f, of fx_example "[]"]
  from th out have same: "calculate_cross_pairs (fx_example @ []) = Inr fx_example_out"
    by simp
  from th [THEN conjunct2, THEN conjunct2, rule_format, OF out]
  have "\<forall>x\<in>set fx_example_out. base_currency x \<noteq> ''USD'' \<and> quote_currency x \<noteq> ''USD''"
    by (simp add: q)
  then have "''USD'' \<notin> base_currency ` set fx_example_out"
    and "''USD'' \<notin> quote_currency ` set fx_example_out"
    by auto
  with f nz hu out same show ?thesis
    by blast
qed
subsection \<open>A pair and its inverse\<close>

lemma round_half_even_error: "\<bar>of_int (round_half_even y) - y\<bar> \<le> 1 / 2"
proof -
  have "of_int \<lfloor>y\<rfloor> \<le> y" and "y < of_int \<lfloor>y\<rfloor> + 1"
    by linarith+
  then show ?thesis
    by (auto simp add: round_half_even_def Let_def)
qed

lemma py_round_error: "\<bar>py_round x n - x\<bar> \<le> 1 / (2 * 10 ^ n)"
proof -
  let ?k = "round_half_even (x * 10 ^ n)"
  have p: "(0::real) < 10 ^ n" by simp
  have "py_round x n - x = (of_int ?k - x * 10 ^ n) / 10 ^ n"
    by (simp add: py_round_def diff_divide_distrib)
  then have "\<bar>py_round x n - x\<bar> = \<bar>of_int ?k - x * 10 ^ n\<bar> / 10 ^ n"
    by (simp add: abs_divide del: of_int_diff)
  also have "\<dots> \<le> (1 / 2) / 10 ^ n"
    by (rule divide_right_mono [OF round_half_even_error]) simp
  finally show ?thesis by simp
qed

text \<open>The rounding \<open>binary64\<close> has accuracy \<open>2 ^ -53\<close>, and the identity any accuracy.\<close>

lemma binary64_error: "\<bar>binary64 x - x\<bar> \<le> \<bar>x\<bar> / 2 ^ 53"
proof (cases "x = 0")
  case True
  then show ?thesis by (simp add: binary64_def)
next
  case False
  define E where "E = \<lfloor>log 2 \<bar>x\<bar>\<rfloor>"
  define s :: real where "s = 2 powr of_int (E - 52)"
  define k where "k = round_half_even (x / s)"
  have s0: "0 < s" by (simp add: s_def)
  have b: "binary64 x = of_int k * s"
    using False by (simp add: binary64_def Let_def E_def s_def k_def)
  have "\<bar>of_int k - x / s\<bar> \<le> 1 / 2"
    unfolding k_def by (rule round_half_even_error)
  then have "\<bar>of_int k - x / s\<bar> * s \<le> (1 / 2) * s"
    using s0 by (intro mult_right_mono) simp_all
  moreover have "\<bar>of_int k - x / s\<bar> * s = \<bar>of_int k * s - x\<bar>"
  proof -
    have "\<bar>of_int k - x / s\<bar> * s = \<bar>(of_int k - x / s) * s\<bar>"
      using s0 by (simp add: abs_mult)
    also have "(of_int k - x / s) * s = of_int k * s - x"
      using s0 by (simp add: field_simps)
    finally show ?thesis .
  qed
  ultimately have e: "\<bar>binary64 x - x\<bar> \<le> s / 2"
    by (simp add: b)
  have "of_int E \<le> log 2 \<bar>x\<bar>"
    by (simp add: E_def)
  then have "2 powr of_int E \<le> 2 powr log 2 \<bar>x\<bar>"
    by (simp only: powr_le_cancel_iff [of 2] one_less_numeral_iff semiring_norm)
  also have "\<dots> = \<bar>x\<bar>"
    using False by simp
  finally have p: "2 powr of_int E \<le> \<bar>x\<bar>" .
  have "s = 2 powr of_int E / 2 powr 52"
    by (simp add: s_def powr_diff)
  also have "(2::real) powr 52 = 2 ^ 52"
    by (simp add: powr_numeral)
  finally have "s / 2 = 2 powr of_int E / 2 ^ 53"
    by simp
  also have "\<dots> \<le> \<bar>x\<bar> / 2 ^ 53"
    using p by (intro divide_right_mono) simp_all
  finally show ?thesis
    using e by linarith
qed

lemma binary64_accurate: "accurate_rounding (1 / 2 ^ 53) binary64"
  using binary64_error by (simp add: accurate_rounding_def)

lemma accurate_rounding_id: "0 \<le> u \<Longrightarrow> accurate_rounding u (\<lambda>x. x)"
  by (simp add: accurate_rounding_def)

lemma accurate_rounding_nonneg:
  assumes "accurate_rounding u rnd"
  shows "0 \<le> u"
proof -
  from assms have "\<bar>rnd 1 - 1\<bar> \<le> u * \<bar>1\<bar>"
    unfolding accurate_rounding_def by blast
  then show ?thesis by simp
qed

text \<open>With the identity for the rounding, the loops are the loops on exact values.\<close>

lemma pairs_loop_float_id: "pairs_loop_float (\<lambda>x. x) d t ps = pairs_loop d t ps"
  by (induction d t ps rule: pairs_loop.induct)
    (simp_all add: float_round_def float_div_def split: sum.splits)

lemma dates_loop_float_id: "dates_loop_float (\<lambda>x. x) df ds = dates_loop df ds"
  by (induction ds) (simp_all add: pairs_loop_float_id split: sum.splits)

lemma calculate_cross_pairs_float_id:
  "calculate_cross_pairs_float (\<lambda>x. x) df = calculate_cross_pairs df"
  by (simp add: calculate_cross_pairs_float_def calculate_cross_pairs_def dates_loop_float_id)

text \<open>
  The rounding changes the rates of the rows and nothing else: the keys of the rows, or the
  exception, are those of the loops on exact values.
\<close>

lemma pairs_loop_float_keys:
  "map_sum (\<lambda>e. e) (map (\<lambda>r. (rate_date r, pair_key r))) (pairs_loop_float rnd d t ps) =
   map_sum (\<lambda>e. e) (map (\<lambda>r. (rate_date r, pair_key r))) (pairs_loop d t ps)"
proof (induction d t ps rule: pairs_loop.induct)
  case (1 d t)
  show ?case by simp
next
  case (2 d t b q ps)
  show ?case
  proof (cases "b \<noteq> q \<and> t b \<noteq> None \<and> t q \<noteq> None")
    case False
    with "2.IH"(2) show ?thesis by auto
  next
    case True
    note em = this
    show ?thesis
    proof (cases "the (t b) = 0")
      case True
      with em show ?thesis by simp
    next
      case False
      from "2.IH"(1) [OF em False] em False show ?thesis
        by (cases "pairs_loop_float rnd d t ps"; cases "pairs_loop d t ps")
          (simp_all add: cross_row_def pair_key_def)
    qed
  qed
qed

lemma dates_loop_float_keys:
  "map_sum (\<lambda>e. e) (map (\<lambda>r. (rate_date r, pair_key r))) (dates_loop_float rnd df ds) =
   map_sum (\<lambda>e. e) (map (\<lambda>r. (rate_date r, pair_key r))) (dates_loop df ds)"
proof (induction ds)
  case Nil
  show ?case by simp
next
  case (Cons d ds)
  from pairs_loop_float_keys [of rnd d "rates_dict_of (date_group df d)" currency_pairs] Cons.IH
  show ?case
    by (cases "pairs_loop_float rnd d (rates_dict_of (date_group df d)) currency_pairs";
        cases "pairs_loop d (rates_dict_of (date_group df d)) currency_pairs";
        cases "dates_loop_float rnd df ds"; cases "dates_loop df ds")
      simp_all
qed

lemma calculate_cross_pairs_float_keys:
  "map_sum (\<lambda>e. e) (map (\<lambda>r. (rate_date r, pair_key r))) (calculate_cross_pairs_float rnd df) =
   map_sum (\<lambda>e. e) (map (\<lambda>r. (rate_date r, pair_key r))) (calculate_cross_pairs df)"
proof -
  let ?f = "dates_loop_float rnd df (groupby_dates df)"
  let ?g = "dates_loop df (groupby_dates df)"
  note k = dates_loop_float_keys [of rnd df "groupby_dates df"]
  show ?thesis
  proof (cases ?f)
    case (Inl e)
    with k show ?thesis
      by (cases ?g) (simp_all add: calculate_cross_pairs_float_def calculate_cross_pairs_def)
  next
    case (Inr rs)
    note f = this
    with k obtain rs' where g: "?g = Inr rs'"
      and m: "map (\<lambda>r. (rate_date r, pair_key r)) rs = map (\<lambda>r. (rate_date r, pair_key r)) rs'"
      by (cases ?g) simp_all
    from m show ?thesis
      by (cases rs; cases rs')
        (simp_all add: calculate_cross_pairs_float_def calculate_cross_pairs_def f g)
  qed
qed

lemma calculate_cross_pairs_float_returns:
  assumes "raw_rates_nonzero df" and "has_universe_row df"
  shows "\<exists>out. calculate_cross_pairs_float rnd df = Inr out"
proof -
  from assms have "\<exists>out. calculate_cross_pairs df = Inr out"
    by (auto simp add: calculate_cross_pairs_returns)
  with calculate_cross_pairs_float_keys [of rnd df] show ?thesis
    by (cases "calculate_cross_pairs_float rnd df") auto
qed

text \<open>The rows that are returned: their rate is the rounded quotient of two table values.\<close>

lemma pairs_loop_float_row:
  assumes "pairs_loop_float rnd d t ps = Inr rs" and "x \<in> set rs"
  shows "rate_date x = d \<and>
         (\<exists>vb vq. t (base_currency x) = Some vb \<and> t (quote_currency x) = Some vq \<and> vb \<noteq> 0 \<and>
            exchange_rate x = float_round rnd (float_div rnd vq vb) 8)"
  using assms
proof (induction rnd d t ps arbitrary: rs rule: pairs_loop_float.induct)
  case (1 rnd d t)
  then show ?case by simp
next
  case (2 rnd d t b q ps)
  show ?case
  proof (cases "b \<noteq> q \<and> t b \<noteq> None \<and> t q \<noteq> None")
    case False
    with "2.prems" "2.IH"(2) show ?thesis by auto
  next
    case True
    note em = this
    show ?thesis
    proof (cases "the (t b) = 0")
      case True
      with em "2.prems" show ?thesis by simp
    next
      case False
      with em "2.prems"(1) obtain rs' where
        r: "pairs_loop_float rnd d t ps = Inr rs'"
        and rs: "rs = cross_row d b q
                   (float_round rnd (float_div rnd (the (t q)) (the (t b))) 8) # rs'"
        by (auto split: sum.splits)
      show ?thesis
      proof (cases "x \<in> set rs'")
        case True
        from "2.IH"(1) [OF em False r True] show ?thesis .
      next
        case False
        with "2.prems"(2) rs
        have "x = cross_row d b q (float_round rnd (float_div rnd (the (t q)) (the (t b))) 8)"
          by simp
        with em \<open>the (t b) \<noteq> 0\<close> show ?thesis
          by (auto simp add: cross_row_def)
      qed
    qed
  qed
qed

lemma dates_loop_float_row:
  assumes "dates_loop_float rnd df ds = Inr rs" and "x \<in> set rs"
  shows "\<exists>vb vq. table_of df (rate_date x) (base_currency x) = Some vb \<and>
           table_of df (rate_date x) (quote_currency x) = Some vq \<and> vb \<noteq> 0 \<and>
           exchange_rate x = float_round rnd (float_div rnd vq vb) 8"
  using assms
proof (induction ds arbitrary: rs)
  case Nil
  then show ?case by simp
next
  case (Cons d ds)
  from Cons.prems(1) obtain r1 r2 where
    p: "pairs_loop_float rnd d (rates_dict_of (date_group df d)) currency_pairs = Inr r1"
    and l: "dates_loop_float rnd df ds = Inr r2" and rs: "rs = r1 @ r2"
    by (auto split: sum.splits)
  show ?case
  proof (cases "x \<in> set r1")
    case True
    from pairs_loop_float_row [OF p True] show ?thesis
      by (auto simp add: table_of_def)
  next
    case False
    with Cons.prems(2) rs have "x \<in> set r2" by simp
    from Cons.IH [OF l this] show ?thesis .
  qed
qed

lemma returned_row_values_float:
  assumes "calculate_cross_pairs_float rnd df = Inr out" and "x \<in> set out"
  shows "\<exists>vb vq. table_of df (rate_date x) (base_currency x) = Some vb \<and>
           table_of df (rate_date x) (quote_currency x) = Some vq \<and> vb \<noteq> 0 \<and>
           exchange_rate x = float_round rnd (float_div rnd vq vb) 8"
proof -
  from assms(1) have "dates_loop_float rnd df (groupby_dates df) = Inr out"
    by (auto simp add: calculate_cross_pairs_float_def split: sum.splits list.splits)
  from dates_loop_float_row [OF this assms(2)] show ?thesis .
qed

text \<open>The distance of an emitted rate from the exact quotient, and of the product from 1.\<close>

lemma float_rate_error:
  assumes "accurate_rounding u rnd"
  shows "\<bar>float_round rnd (float_div rnd a b) 8 - a / b\<bar> \<le> rate_error u (a / b)"
proof -
  define x where "x = a / b"
  define q where "q = rnd x"
  define p where "p = py_round q 8"
  let ?h = "1 / (2 * 10 ^ 8) :: real"
  have u0: "0 \<le> u"
    using assms by (rule accurate_rounding_nonneg)
  have e1: "\<bar>q - x\<bar> \<le> u * \<bar>x\<bar>"
    using assms by (simp add: accurate_rounding_def q_def)
  have e2: "\<bar>p - q\<bar> \<le> ?h"
    unfolding p_def by (rule py_round_error)
  have e3: "\<bar>rnd p - p\<bar> \<le> u * \<bar>p\<bar>"
    using assms by (simp add: accurate_rounding_def)
  have "\<bar>p\<bar> \<le> \<bar>x\<bar> + u * \<bar>x\<bar> + ?h"
    using e1 e2 by linarith
  then have "u * \<bar>p\<bar> \<le> u * (\<bar>x\<bar> + u * \<bar>x\<bar> + ?h)"
    using u0 by (rule mult_left_mono)
  with e1 e2 e3 have "\<bar>rnd p - x\<bar> \<le> u * (\<bar>x\<bar> + u * \<bar>x\<bar> + ?h) + ?h + u * \<bar>x\<bar>"
    by linarith
  also have "\<dots> = rate_error u x"
    by (simp add: rate_error_def algebra_simps add_divide_distrib)
  finally show ?thesis
    by (simp add: float_round_def float_div_def x_def q_def p_def)
qed

lemma inverse_product_error:
  fixes x a b h1 h2 :: real
  assumes "x \<noteq> 0" and "\<bar>a - x\<bar> \<le> h1" and "\<bar>b - 1 / x\<bar> \<le> h2"
  shows "\<bar>a * b - 1\<bar> \<le> \<bar>x\<bar> * h2 + h1 / \<bar>x\<bar> + h1 * h2"
proof -
  have h0: "0 \<le> h1" "0 \<le> h2" using assms(2,3) by linarith+
  have eq: "a * b - 1 = (a - x) * (b - 1 / x) + x * (b - 1 / x) + (a - x) * (1 / x)"
    using assms(1) by (simp add: field_simps)
  have "\<bar>a * b - 1\<bar> \<le> \<bar>(a - x) * (b - 1 / x)\<bar> + \<bar>x * (b - 1 / x)\<bar> + \<bar>(a - x) * (1 / x)\<bar>"
    unfolding eq by linarith
  also have "\<dots> = \<bar>a - x\<bar> * \<bar>b - 1 / x\<bar> + \<bar>x\<bar> * \<bar>b - 1 / x\<bar> + \<bar>a - x\<bar> * (1 / \<bar>x\<bar>)"
    by (simp add: abs_mult)
  also have "\<dots> \<le> h1 * h2 + \<bar>x\<bar> * h2 + h1 * (1 / \<bar>x\<bar>)"
    using assms(2,3) h0
    by (intro add_mono mult_mono) simp_all
  finally show ?thesis
    by (simp add: algebra_simps)
qed

lemma product_bound_exact:
  "product_bound 0 x = (\<bar>x\<bar> + 1 / \<bar>x\<bar>) / (2 * 10 ^ 8) + 1 / (4 * 10 ^ 16)"
  by (simp add: product_bound_def rate_error_def field_simps)

text \<open>
  Claim C6 is about the product of the two emitted rates of a pair and of its inverse.  Each
  of them is the quotient of the two table values, rounded to 8 decimals: it is within
  \<open>0.5e-8\<close> of the quotient, and a little more in floating point, so the product is close
  to 1 only relative to the size of the quotients.  Claim C6, as amended: for every rounding
  of relative accuracy \<open>u\<close>, whenever \<open>calculate_cross_pairs\<close> returns and has emitted both a
  row \<open>(d, a, b)\<close> and the row \<open>(d, b, a)\<close>, the table of \<open>d\<close> holds nonzero values \<open>va\<close> for
  \<open>a\<close> and \<open>vb\<close> for \<open>b\<close>, each of the two rates is within \<open>rate_error u\<close> of its quotient,
  that is within \<open>(1 + u) * 0.5e-8 + u * (2 + u) * |quotient|\<close>, and the product of the two
  rates differs from 1 by at most \<open>product_bound u (vb / va)\<close>, which for exact arithmetic
  (\<open>u = 0\<close>) is \<open>(|vb / va| + |va / vb|) * 0.5e-8 + 0.25e-16\<close>.  The function returns when
  no input rate is zero and some row quotes a non-EUR currency of the universe.
\<close>

theorem inverse_pair_product_bound:
  "(raw_rates_nonzero df \<and> has_universe_row df \<longrightarrow>
      (\<exists>out. calculate_cross_pairs_float rnd df = Inr out)) \<and>
   (accurate_rounding u rnd \<longrightarrow>
    (\<forall>out ra rb.
      calculate_cross_pairs_float rnd df = Inr out \<and> ra \<in> set out \<and> rb \<in> set out \<and>
      rate_date rb = rate_date ra \<and> base_currency rb = quote_currency ra \<and>
      quote_currency rb = base_currency ra \<longrightarrow>
      (\<exists>va vb. table_of df (rate_date ra) (base_currency ra) = Some va \<and>
         table_of df (rate_date ra) (quote_currency ra) = Some vb \<and> va \<noteq> 0 \<and> vb \<noteq> 0 \<and>
         exchange_rate ra = float_round rnd (float_div rnd vb va) 8 \<and>
         exchange_rate rb = float_round rnd (float_div rnd va vb) 8 \<and>
         \<bar>exchange_rate ra - vb / va\<bar> \<le> rate_error u (vb / va) \<and>
         \<bar>exchange_rate rb - va / vb\<bar> \<le> rate_error u (va / vb) \<and>
         \<bar>exchange_rate ra * exchange_rate rb - 1\<bar> \<le> product_bound u (vb / va)))) \<and>
   product_bound 0 x = (\<bar>x\<bar> + 1 / \<bar>x\<bar>) / (2 * 10 ^ 8) + 1 / (4 * 10 ^ 16)"
proof (intro conjI allI impI)
  assume "raw_rates_nonzero df \<and> has_universe_row df"
  then show "\<exists>out. calculate_cross_pairs_float rnd df = Inr out"
    by (simp add: calculate_cross_pairs_float_returns)
next
  fix out ra rb
  assume acc: "accurate_rounding u rnd"
  assume a: "calculate_cross_pairs_float rnd df = Inr out \<and> ra \<in> set out \<and> rb \<in> set out \<and>
      rate_date rb = rate_date ra \<and> base_currency rb = quote_currency ra \<and>
      quote_currency rb = base_currency ra"
  then have ret: "calculate_cross_pairs_float rnd df = Inr out" and ra: "ra \<in> set out"
    and rb: "rb \<in> set out" and k: "rate_date rb = rate_date ra"
      "base_currency rb = quote_currency ra" "quote_currency rb = base_currency ra"
    by simp_all
  from returned_row_values_float [OF ret ra] obtain va vb where
    A: "table_of df (rate_date ra) (base_currency ra) = Some va"
      "table_of df (rate_date ra) (quote_currency ra) = Some vb" "va \<noteq> 0"
      "exchange_rate ra = float_round rnd (float_div rnd vb va) 8"
    by blast
  from returned_row_values_float [OF ret rb] A(1,2)
  have B: "vb \<noteq> 0" "exchange_rate rb = float_round rnd (float_div rnd va vb) 8"
    by (simp_all add: k)
  have x0: "vb / va \<noteq> 0"
    using A(3) B(1) by simp
  have e1: "\<bar>exchange_rate ra - vb / va\<bar> \<le> rate_error u (vb / va)"
    unfolding A(4) using acc by (rule float_rate_error)
  have e2: "\<bar>exchange_rate rb - va / vb\<bar> \<le> rate_error u (va / vb)"
    unfolding B(2) using acc by (rule float_rate_error)
  have i: "1 / (vb / va) = va / vb"
    by simp
  from e2 have e2': "\<bar>exchange_rate rb - 1 / (vb / va)\<bar> \<le> rate_error u (1 / (vb / va))"
    by (simp only: i)
  from inverse_product_error [OF x0 e1 e2']
  have "\<bar>exchange_rate ra * exchange_rate rb - 1\<bar> \<le> product_bound u (vb / va)"
    by (simp only: product_bound_def)
  with A B e1 e2 show "\<exists>va vb. table_of df (rate_date ra) (base_currency ra) = Some va \<and>
         table_of df (rate_date ra) (quote_currency ra) = Some vb \<and> va \<noteq> 0 \<and> vb \<noteq> 0 \<and>
         exchange_rate ra = float_round rnd (float_div rnd vb va) 8 \<and>
         exchange_rate rb = float_round rnd (float_div rnd va vb) 8 \<and>
         \<bar>exchange_rate ra - vb / va\<bar> \<le> rate_error u (vb / va) \<and>
         \<bar>exchange_rate rb - va / vb\<bar> \<le> rate_error u (va / vb) \<and>
         \<bar>exchange_rate ra * exchange_rate rb - 1\<bar> \<le> product_bound u (vb / va)"
    by blast
next
  show "product_bound 0 x = (\<bar>x\<bar> + 1 / \<bar>x\<bar>) / (2 * 10 ^ 8) + 1 / (4 * 10 ^ 16)"
    by (rule product_bound_exact)
qed

text \<open>
  In the example, with exact arithmetic, EUR/NOK and NOK/EUR multiply to 0.99999998,
  within the bound 5.8e-8; and with the rounding \<open>binary64\<close> the function returns on it.
\<close>

theorem inverse_pair_product_bound_witness:
  "raw_rates_nonzero fx_example \<and> has_universe_row fx_example \<and>
   accurate_rounding (1 / 2 ^ 53) binary64 \<and>
   (\<exists>out. calculate_cross_pairs_float binary64 fx_example = Inr out) \<and>
   accurate_rounding 0 (\<lambda>x. x) \<and>
   calculate_cross_pairs_float (\<lambda>x. x) fx_example = Inr fx_example_out \<and>
   cross_row (2024, 1, 1) ''EUR'' ''NOK'' (23 / 2) \<in> set fx_example_out \<and>
   cross_row (2024, 1, 1) ''NOK'' ''EUR'' (8695652 / 10 ^ 8) \<in> set fx_example_out \<and>
   \<bar>(23 / 2) * (8695652 / 10 ^ 8) - 1\<bar> \<le> product_bound 0 ((23 / 2) / 1) \<and>
   product_bound 0 ((23 / 2) / 1) =
     (\<bar>(23 / 2) / 1\<bar> + 1 / \<bar>(23 / 2) / 1\<bar>) / (2 * 10 ^ 8) + 1 / (4 * 10 ^ 16 :: real)"
proof -
  let ?ra = "cross_row (2024, 1, 1) ''EUR'' ''NOK'' (23 / 2) :: fx_row"
  let ?rb = "cross_row (2024, 1, 1) ''NOK'' ''EUR'' (8695652 / 10 ^ 8) :: fx_row"
  have nz: "raw_rates_nonzero fx_example" by code_simp
  have hu: "has_universe_row fx_example" by code_simp
  have b64: "accurate_rounding (1 / 2 ^ 53) binary64"
    by (rule binary64_accurate)
  have ex: "accurate_rounding 0 (\<lambda>x. x)"
    by (simp add: accurate_rounding_id)
  have out: "calculate_cross_pairs_float (\<lambda>x. x) fx_example = Inr fx_example_out"
    unfolding calculate_cross_pairs_float_id by code_simp
  have ra: "?ra \<in> set fx_example_out" by code_simp
  have rb: "?rb \<in> set fx_example_out" by code_simp
  have t: "table_of fx_example (2024, 1, 1) ''EUR'' = Some 1"
    "table_of fx_example (2024, 1, 1) ''NOK'' = Some (23 / 2)"
    by (simp_all add: table_of_eq fx_example_def cross_row_def)
  have k: "rate_date ?rb = rate_date ?ra \<and> base_currency ?rb = quote_currency ?ra \<and>
      quote_currency ?rb = base_currency ?ra"
    by (simp add: cross_row_def)
  from inverse_pair_product_bound [where df = fx_example and rnd = binary64, THEN conjunct1]
    nz hu
  have r64: "\<exists>out. calculate_cross_pairs_float binary64 fx_example = Inr out"
    by blast
  note th = inverse_pair_product_bound [where df = fx_example and rnd = "\<lambda>x. x" and u = 0
      and x = "(23 / 2) / 1"]
  from th [THEN conjunct2, THEN conjunct1, rule_format, OF ex, of fx_example_out ?ra ?rb]
    out ra rb k
  obtain va vb where v: "table_of fx_example (rate_date ?ra) (base_currency ?ra) = Some va"
    "table_of fx_example (rate_date ?ra) (quote_currency ?ra) = Some vb"
    and le: "\<bar>exchange_rate ?ra * exchange_rate ?rb - 1\<bar> \<le> product_bound 0 (vb / va)"
    by blast
  from v t have "va = 1" "vb = 23 / 2"
    by (simp_all add: cross_row_def)
  with le have p: "\<bar>(23 / 2) * (8695652 / 10 ^ 8) - 1\<bar> \<le> product_bound 0 ((23 / 2) / 1)"
    by (simp only: cross_row_def rate_row.simps)
  note q = th [THEN conjunct2, THEN conjunct2]
  show ?thesis
    by (intro conjI nz hu b64 r64 ex out ra rb p q)
qed

text \<open>
  The same two rows refute the tolerance \<open>1e-8\<close> of claim C6 as stated: the input is a valid
  RawRate set, both rows are emitted, and 11.5 * 0.08695652 = 0.99999998.
\<close>

theorem inverse_pair_product_counterexample:
  "raw_keys_distinct fx_example \<and> no_eur_quote fx_example \<and> raw_rates_positive fx_example \<and>
   calculate_cross_pairs fx_example = Inr fx_example_out \<and>
   cross_row (2024, 1, 1) ''EUR'' ''NOK'' (23 / 2) \<in> set fx_example_out \<and>
   cross_row (2024, 1, 1) ''NOK'' ''EUR'' (8695652 / 10 ^ 8) \<in> set fx_example_out \<and>
   \<not> \<bar>(23 / 2) * (8695652 / 10 ^ 8) - 1\<bar> \<le> (1 / 10 ^ 8 :: real)"
proof -
  have "raw_keys_distinct fx_example" by code_simp
  moreover have "no_eur_quote fx_example" by code_simp
  moreover have "raw_rates_positive fx_example" by code_simp
  moreover have "calculate_cross_pairs fx_example = Inr fx_example_out" by code_simp
  moreover have "cross_row (2024, 1, 1) ''EUR'' ''NOK'' (23 / 2) \<in> set fx_example_out"
    by code_simp
  moreover have "cross_row (2024, 1, 1) ''NOK'' ''EUR'' (8695652 / 10 ^ 8) \<in> set fx_example_out"
    by code_simp
  moreover have "\<not> \<bar>(23 / 2) * (8695652 / 10 ^ 8) - 1\<bar> \<le> (1 / 10 ^ 8 :: real)"
    by simp
  ultimately show ?thesis by blast
qed

section \<open>Properties of the YTD Aggregator\<close>

subsection \<open>The loops as list comprehensions, and the window\<close>

lemma rows_loop_eq:
  "rows_loop k grp rows =
     map (\<lambda>row. ytd_record k (rate_date row) (map exchange_rate (ytd_data grp (rate_date row))))
       (filter (\<lambda>row. ytd_data grp (rate_date row) \<noteq> []) rows)"
  by (induction rows) (simp_all add: Let_def)

lemma groups_loop_eq:
  "groups_loop df ks =
     concat (map (\<lambda>k. rows_loop k (sort_values (pair_group df k))
                         (sort_values (pair_group df k))) ks)"
  by (induction ks) (simp_all add: Let_def)

lemma pair_group_sort_values:
  "sort_values (pair_group (sort_values df) k) = sort_values (pair_group df k)"
proof -
  have "pair_group (sort_values df) k = sort_values (pair_group df k)"
    by (simp add: pair_group_def sort_values_def filter_sort)
  moreover have "sort_values (sort_values (pair_group df k)) = sort_values (pair_group df k)"
    unfolding sort_values_def by (rule sort_key_id_if_sorted) simp
  ultimately show ?thesis by simp
qed

lemma ytd_data_group:
  "ytd_data (sort_values (pair_group df k)) D = spec_window df k D"
  by (simp add: ytd_data_def sort_values_def pair_group_def spec_window_def year_start_def
      filter_sort conj_commute conj_left_commute)

lemma ytd_data_eq_spec_window:
  "ytd_data (sort_values (pair_group (sort_values df) k)) D = spec_window df k D"
  by (simp only: pair_group_sort_values ytd_data_group)

lemma set_groupby_pairs: "set (groupby_pairs df) = pair_key ` set df"
  by (simp add: groupby_pairs_def)

lemma spec_window_sort_values: "spec_window (sort_values df) k D = spec_window df k D"
proof -
  let ?P = "\<lambda>r. pair_key r = k \<and> (year D, 1, 1) \<le> rate_date r \<and> rate_date r \<le> D"
  have "sort_key rate_date (sort_key rate_date (filter ?P df)) = sort_key rate_date (filter ?P df)"
    by (rule sort_key_id_if_sorted) simp
  then show ?thesis
    by (simp add: spec_window_def sort_values_def filter_sort)
qed

lemma calculate_ytd_metrics_eq:
  "calculate_ytd_metrics df =
     concat (map (\<lambda>k.
        map (\<lambda>row. ytd_record k (rate_date row)
                     (map exchange_rate (spec_window df k (rate_date row))))
          (filter (\<lambda>row. spec_window df k (rate_date row) \<noteq> [])
             (sort_values (pair_group df k))))
       (groupby_pairs (sort_values df)))"
  by (simp only: calculate_ytd_metrics_def Let_def groups_loop_eq rows_loop_eq
      pair_group_sort_values ytd_data_group spec_window_sort_values)

lemma in_calculate_ytd_metrics:
  "y \<in> set (calculate_ytd_metrics df) \<longleftrightarrow>
     (\<exists>r\<in>set df. spec_window df (pair_key r) (rate_date r) \<noteq> [] \<and>
        y = ytd_record (pair_key r) (rate_date r)
              (map exchange_rate (spec_window df (pair_key r) (rate_date r))))"
proof -
  let ?R = "\<lambda>k row. ytd_record k (rate_date row)
                     (map exchange_rate (spec_window df k (rate_date row)))"
  let ?W = "\<lambda>k row. spec_window df k (rate_date row) \<noteq> []"
  have "y \<in> set (calculate_ytd_metrics df) \<longleftrightarrow>
        (\<exists>k\<in>pair_key ` set df. y \<in> set (map (?R k) (filter (?W k) (sort_values (pair_group df k)))))"
    unfolding calculate_ytd_metrics_eq
    by (simp add: set_groupby_pairs sort_values_def)
  also have "\<dots> \<longleftrightarrow> (\<exists>k\<in>pair_key ` set df. \<exists>row\<in>set df. pair_key row = k \<and> ?W k row \<and> y = ?R k row)"
    by (rule bex_cong [OF refl]) (auto simp add: sort_values_def pair_group_def)
  also have "\<dots> \<longleftrightarrow> (\<exists>r\<in>set df. ?W (pair_key r) r \<and> y = ?R (pair_key r) r)"
  proof
    assume "\<exists>k\<in>pair_key ` set df. \<exists>row\<in>set df. pair_key row = k \<and> ?W k row \<and> y = ?R k row"
    then obtain k row where "row \<in> set df" and "pair_key row = k" and "?W k row \<and> y = ?R k row"
      by blast
    then have "row \<in> set df" and "?W (pair_key row) row \<and> y = ?R (pair_key row) row"
      by simp_all
    then show "\<exists>r\<in>set df. ?W (pair_key r) r \<and> y = ?R (pair_key r) r" ..
  next
    assume "\<exists>r\<in>set df. ?W (pair_key r) r \<and> y = ?R (pair_key r) r"
    then obtain r where "r \<in> set df" and "?W (pair_key r) r \<and> y = ?R (pair_key r) r"
      by blast
    then show "\<exists>k\<in>pair_key ` set df. \<exists>row\<in>set df. pair_key row = k \<and> ?W k row \<and> y = ?R k row"
      by (intro bexI [of _ "pair_key r"] bexI [of _ r]) simp_all
  qed
  finally show ?thesis .
qed

lemma ytd_record_sel:
  "ytd_rate_date (ytd_record k d rates) = d"
  "ytd_base_currency (ytd_record k d rates) = fst k"
  "ytd_quote_currency (ytd_record k d rates) = snd k"
  "ytd_avg_rate (ytd_record k d rates) = py_round (np_mean rates) 8"
  "ytd_min_rate (ytd_record k d rates) = py_round (np_min rates) 8"
  "ytd_max_rate (ytd_record k d rates) = py_round (np_max rates) 8"
  "ytd_first_rate (ytd_record k d rates) = py_round (hd rates) 8"
  "ytd_last_rate (ytd_record k d rates) = py_round (last rates) 8"
  "ytd_days_count (ytd_record k d rates) = length rates"
  "ytd_variance (ytd_record k d rates) =
     (if length rates > 1 \<and> np_var rates \<noteq> 0 then Some (py_round (np_var rates) 8) else None)"
  "ytd_std_dev (ytd_record k d rates) =
     (if length rates > 1 \<and> np_std rates \<noteq> 0 then Some (py_round (np_std rates) 8) else None)"
  "ytd_change_pct (ytd_record k d rates) =
     py_round (if hd rates \<noteq> 0 then ((last rates - hd rates) / hd rates) * 100 else 0) 4"
  by (simp_all add: ytd_record_def Let_def)

subsection \<open>The three-day example, evaluated\<close>

lemma calculate_ytd_metrics_ytd_example:
  "calculate_ytd_metrics ytd_example =
     [ytd_record (''EUR'', ''NOK'') (2024, 1, 1) [3],
      ytd_record (''EUR'', ''NOK'') (2024, 1, 2) [3, 3],
      ytd_record (''EUR'', ''NOK'') (2024, 1, 3) [3, 3, 4]]"
  by (simp add: calculate_ytd_metrics_def sort_values_def groupby_pairs_def pair_group_def
      pair_key_def ytd_data_def year_start_def year_def cross_row_def ytd_example_def)

lemma np_var_334: "np_var [3, 3, 4] = 2 / 9"
  by (simp add: np_var_def np_mean_def power2_eq_square)

lemma np_var_33: "np_var [3, 3] = 0"
  by (simp add: np_var_def np_mean_def power2_eq_square)

lemma np_mean_eq_spec_mean: "np_mean rates = spec_mean rates"
  by (simp add: np_mean_def spec_mean_def)

lemma np_var_eq_population_variance: "np_var rates = population_variance rates"
  by (simp add: np_var_def population_variance_def np_mean_eq_spec_mean)

lemma population_variance_single:
  assumes "rates \<noteq> []" and "length rates \<le> 1"
  shows "population_variance rates = 0"
proof -
  from assms obtain x where "rates = [x]"
    by (cases rates) auto
  then show ?thesis
    by (simp add: population_variance_def spec_mean_def)
qed

lemma py_round_zero: "py_round 0 n = 0"
  by (simp add: py_round_def round_half_even_def)

lemma ytd_output_row:
  assumes "y \<in> set (calculate_ytd_metrics df)"
  shows "spec_window df (ytd_base_currency y, ytd_quote_currency y) (ytd_rate_date y) \<noteq> [] \<and>
         y = ytd_record (ytd_base_currency y, ytd_quote_currency y) (ytd_rate_date y)
               (map exchange_rate
                  (spec_window df (ytd_base_currency y, ytd_quote_currency y) (ytd_rate_date y)))"
proof -
  from assms obtain r :: fx_row where r: "spec_window df (pair_key r) (rate_date r) \<noteq> []"
      "y = ytd_record (pair_key r) (rate_date r)
             (map exchange_rate (spec_window df (pair_key r) (rate_date r)))"
    unfolding in_calculate_ytd_metrics by blast
  have "(ytd_base_currency y, ytd_quote_currency y) = pair_key r" "ytd_rate_date y = rate_date r"
    by (simp_all add: r(2) ytd_record_sel)
  with r show ?thesis by simp
qed

subsection \<open>The YTD Aggregator in floating-point arithmetic\<close>

text \<open>In exact arithmetic the reductions and the stage are those on exact values.\<close>

lemma np_round_id: "np_round (\<lambda>x. x) x n = py_round x n"
  by (simp add: np_round_def py_round_def)

lemma np_mean_float_id: "np_mean_float (\<lambda>x. x) sum_list rates = np_mean rates"
  by (simp add: np_mean_float_def np_mean_def)

lemma np_var_float_id: "np_var_float (\<lambda>x. x) sum_list rates = np_var rates"
  by (simp add: np_var_float_def np_var_def np_mean_def Let_def o_def power2_eq_square)

lemma np_std_float_id: "np_std_float (\<lambda>x. x) sum_list rates = np_std rates"
  by (simp add: np_std_float_def np_std_def np_var_float_id)

lemma ytd_record_float_id:
  "ytd_record_float (\<lambda>x. x) sum_list k d rates = ytd_record k d rates"
  by (simp add: ytd_record_float_def ytd_record_def Let_def np_round_id np_mean_float_id
      np_var_float_id np_std_float_id py_round_zero)

lemma rows_loop_float_id: "rows_loop_float (\<lambda>x. x) sum_list k grp rows = rows_loop k grp rows"
  by (induction rows) (simp_all add: Let_def ytd_record_float_id)

lemma groups_loop_float_id: "groups_loop_float (\<lambda>x. x) sum_list df ks = groups_loop df ks"
  by (induction ks) (simp_all add: Let_def rows_loop_float_id)

lemma calculate_ytd_metrics_float_id:
  "calculate_ytd_metrics_float (\<lambda>x. x) sum_list df = calculate_ytd_metrics df"
  by (simp add: calculate_ytd_metrics_float_def calculate_ytd_metrics_def groups_loop_float_id)

text \<open>The records of the output, as for the stage on exact values.\<close>

lemma rows_loop_float_eq:
  "rows_loop_float rnd fsum k grp rows =
     map (\<lambda>row. ytd_record_float rnd fsum k (rate_date row)
                  (map exchange_rate (ytd_data grp (rate_date row))))
       (filter (\<lambda>row. ytd_data grp (rate_date row) \<noteq> []) rows)"
  by (induction rows) (simp_all add: Let_def)

lemma groups_loop_float_eq:
  "groups_loop_float rnd fsum df ks =
     concat (map (\<lambda>k. rows_loop_float rnd fsum k (sort_values (pair_group df k))
                         (sort_values (pair_group df k))) ks)"
  by (induction ks) (simp_all add: Let_def)

lemma calculate_ytd_metrics_float_eq:
  "calculate_ytd_metrics_float rnd fsum df =
     concat (map (\<lambda>k.
        map (\<lambda>row. ytd_record_float rnd fsum k (rate_date row)
                     (map exchange_rate (spec_window df k (rate_date row))))
          (filter (\<lambda>row. spec_window df k (rate_date row) \<noteq> [])
             (sort_values (pair_group df k))))
       (groupby_pairs (sort_values df)))"
  by (simp only: calculate_ytd_metrics_float_def Let_def groups_loop_float_eq rows_loop_float_eq
      pair_group_sort_values ytd_data_group spec_window_sort_values)

lemma in_calculate_ytd_metrics_float:
  "y \<in> set (calculate_ytd_metrics_float rnd fsum df) \<longleftrightarrow>
     (\<exists>r\<in>set df. spec_window df (pair_key r) (rate_date r) \<noteq> [] \<and>
        y = ytd_record_float rnd fsum (pair_key r) (rate_date r)
              (map exchange_rate (spec_window df (pair_key r) (rate_date r))))"
proof -
  let ?R = "\<lambda>k row. ytd_record_float rnd fsum k (rate_date row)
                     (map exchange_rate (spec_window df k (rate_date row)))"
  let ?W = "\<lambda>k row. spec_window df k (rate_date row) \<noteq> []"
  have "y \<in> set (calculate_ytd_metrics_float rnd fsum df) \<longleftrightarrow>
        (\<exists>k\<in>pair_key ` set df. y \<in> set (map (?R k) (filter (?W k) (sort_values (pair_group df k)))))"
    unfolding calculate_ytd_metrics_float_eq
    by (simp add: set_groupby_pairs sort_values_def)
  also have "\<dots> \<longleftrightarrow> (\<exists>k\<in>pair_key ` set df. \<exists>row\<in>set df. pair_key row = k \<and> ?W k row \<and> y = ?R k row)"
    by (rule bex_cong [OF refl]) (auto simp add: sort_values_def pair_group_def)
  also have "\<dots> \<longleftrightarrow> (\<exists>r\<in>set df. ?W (pair_key r) r \<and> y = ?R (pair_key r) r)"
  proof
    assume "\<exists>k\<in>pair_key ` set df. \<exists>row\<in>set df. pair_key row = k \<and> ?W k row \<and> y = ?R k row"
    then obtain k row where "row \<in> set df" and "pair_key row = k" and "?W k row \<and> y = ?R k row"
      by blast
    then have "row \<in> set df" and "?W (pair_key row) row \<and> y = ?R (pair_key row) row"
      by simp_all
    then show "\<exists>r\<in>set df. ?W (pair_key r) r \<and> y = ?R (pair_key r) r" ..
  next
    assume "\<exists>r\<in>set df. ?W (pair_key r) r \<and> y = ?R (pair_key r) r"
    then obtain r where "r \<in> set df" and "?W (pair_key r) r \<and> y = ?R (pair_key r) r"
      by blast
    then show "\<exists>k\<in>pair_key ` set df. \<exists>row\<in>set df. pair_key row = k \<and> ?W k row \<and> y = ?R k row"
      by (intro bexI [of _ "pair_key r"] bexI [of _ r]) simp_all
  qed
  finally show ?thesis .
qed

lemma ytd_record_float_sel:
  "ytd_rate_date (ytd_record_float rnd fsum k d rates) = d"
  "ytd_base_currency (ytd_record_float rnd fsum k d rates) = fst k"
  "ytd_quote_currency (ytd_record_float rnd fsum k d rates) = snd k"
  "ytd_days_count (ytd_record_float rnd fsum k d rates) = length rates"
  "ytd_variance (ytd_record_float rnd fsum k d rates) =
     (if length rates > 1 \<and> np_var_float rnd fsum rates \<noteq> 0
      then Some (np_round rnd (np_var_float rnd fsum rates) 8) else None)"
  "ytd_std_dev (ytd_record_float rnd fsum k d rates) =
     (if length rates > 1 \<and> np_std_float rnd fsum rates \<noteq> 0
      then Some (np_round rnd (np_std_float rnd fsum rates) 8) else None)"
  by (simp_all add: ytd_record_float_def Let_def)

lemma ytd_output_row_float:
  assumes "y \<in> set (calculate_ytd_metrics_float rnd fsum df)"
  shows "spec_window df (ytd_base_currency y, ytd_quote_currency y) (ytd_rate_date y) \<noteq> [] \<and>
         y = ytd_record_float rnd fsum (ytd_base_currency y, ytd_quote_currency y)
               (ytd_rate_date y)
               (map exchange_rate
                  (spec_window df (ytd_base_currency y, ytd_quote_currency y) (ytd_rate_date y)))"
proof -
  from assms obtain r :: fx_row where r: "spec_window df (pair_key r) (rate_date r) \<noteq> []"
      "y = ytd_record_float rnd fsum (pair_key r) (rate_date r)
             (map exchange_rate (spec_window df (pair_key r) (rate_date r)))"
    unfolding in_calculate_ytd_metrics_float by blast
  have "(ytd_base_currency y, ytd_quote_currency y) = pair_key r" "ytd_rate_date y = rate_date r"
    by (simp_all add: r(2) ytd_record_float_sel)
  with r show ?thesis by simp
qed

subsection \<open>Variance and standard deviation\<close>

text \<open>
  Claim C1 names the variance with divisor \<open>N - 1\<close> and ties a null variance to a window of
  at most one record.  The code calls numpy's \<open>var\<close> and \<open>std\<close> with their default divisor
  \<open>N\<close> (lines 180-181).  Claim C1, as amended: for every record of the YTD output, with
  \<open>rates\<close> the rates of its window, \<open>v\<close> the variance and \<open>s\<close> the standard deviation that
  numpy computes for \<open>rates\<close>, the window is not empty and \<open>ytd_days_count\<close> is its length;
  \<open>ytd_variance\<close> and \<open>ytd_std_dev\<close> are null when \<open>ytd_days_count\<close> is at most 1; when it is
  more than 1, \<open>ytd_variance\<close> is \<open>v\<close> rounded to 8 decimals if \<open>v\<close> is not zero, and
  \<open>ytd_std_dev\<close> is \<open>s\<close> rounded to 8 decimals if \<open>s\<close> is not zero; \<open>s\<close> is the square root of
  \<open>v\<close> (of the variance before it is rounded to 8 decimals), as a float; and \<open>v\<close> is the
  population variance (divisor \<open>N\<close>) as numpy evaluates it in floating point: in exact
  arithmetic \<open>v\<close> is the population variance of \<open>rates\<close>, \<open>s\<close> its square root, and the
  rounding is the rounding to 8 decimals, ties to even.
\<close>

theorem ytd_variance_is_population_variance:
  assumes "y \<in> set (calculate_ytd_metrics_float rnd fsum df)"
  shows "let rates = map exchange_rate
                (spec_window df (ytd_base_currency y, ytd_quote_currency y) (ytd_rate_date y));
             v = np_var_float rnd fsum rates;
             s = np_std_float rnd fsum rates
         in rates \<noteq> [] \<and> ytd_days_count y = length rates \<and>
            (ytd_days_count y \<le> 1 \<longrightarrow> ytd_variance y = None \<and> ytd_std_dev y = None) \<and>
            (1 < ytd_days_count y \<and> v \<noteq> 0 \<longrightarrow> ytd_variance y = Some (np_round rnd v 8)) \<and>
            (1 < ytd_days_count y \<and> s \<noteq> 0 \<longrightarrow> ytd_std_dev y = Some (np_round rnd s 8)) \<and>
            s = rnd (sqrt v) \<and>
            np_var_float (\<lambda>x. x) sum_list rates = population_variance rates \<and>
            np_std_float (\<lambda>x. x) sum_list rates = sqrt (population_variance rates) \<and>
            np_round (\<lambda>x. x) v 8 = py_round v 8"
proof -
  define rates where "rates = map exchange_rate
      (spec_window df (ytd_base_currency y, ytd_quote_currency y) (ytd_rate_date y))"
  define v where "v = np_var_float rnd fsum rates"
  define s where "s = np_std_float rnd fsum rates"
  from ytd_output_row_float [OF assms]
  have ne: "rates \<noteq> []"
    and y: "y = ytd_record_float rnd fsum (ytd_base_currency y, ytd_quote_currency y)
                  (ytd_rate_date y) rates"
    by (simp_all add: rates_def)
  have c: "ytd_days_count y = length rates"
    by (subst y) (simp add: ytd_record_float_sel)
  have var: "ytd_variance y =
      (if length rates > 1 \<and> v \<noteq> 0 then Some (np_round rnd v 8) else None)"
    by (subst y) (simp add: ytd_record_float_sel v_def)
  have std: "ytd_std_dev y =
      (if length rates > 1 \<and> s \<noteq> 0 then Some (np_round rnd s 8) else None)"
    by (subst y) (simp add: ytd_record_float_sel s_def)
  have one: "ytd_days_count y \<le> 1 \<longrightarrow> ytd_variance y = None \<and> ytd_std_dev y = None"
    by (simp add: c var std)
  have more_v: "1 < ytd_days_count y \<and> v \<noteq> 0 \<longrightarrow> ytd_variance y = Some (np_round rnd v 8)"
    by (simp add: c var)
  have more_s: "1 < ytd_days_count y \<and> s \<noteq> 0 \<longrightarrow> ytd_std_dev y = Some (np_round rnd s 8)"
    by (simp add: c std)
  have root: "s = rnd (sqrt v)"
    by (simp add: s_def v_def np_std_float_def)
  have ev: "np_var_float (\<lambda>x. x) sum_list rates = population_variance rates"
    by (simp add: np_var_float_id np_var_eq_population_variance)
  have es: "np_std_float (\<lambda>x. x) sum_list rates = sqrt (population_variance rates)"
    by (simp add: np_std_float_id np_std_def np_var_eq_population_variance)
  have er: "np_round (\<lambda>x. x) v 8 = py_round v 8"
    by (rule np_round_id)
  from ne c one more_v more_s root ev es er show ?thesis
    unfolding rates_def [symmetric] v_def [symmetric] s_def [symmetric] Let_def by blast
qed

lemma spec_window_ytd_example:
  "map exchange_rate (spec_window ytd_example (''EUR'', ''NOK'') (2024, 1, 3)) = [3, 3, 4]"
  by (simp add: spec_window_def ytd_example_def cross_row_def pair_key_def year_def)

text \<open>
  The third day of the example, in exact arithmetic: the rates 3, 3, 4 have population
  variance 2/9, and the record holds 2/9 rounded to 8 decimals.
\<close>

theorem ytd_variance_is_population_variance_witness:
  "ytd_record (''EUR'', ''NOK'') (2024, 1, 3) [3, 3, 4]
     \<in> set (calculate_ytd_metrics_float (\<lambda>x. x) sum_list ytd_example) \<and>
   ytd_days_count (ytd_record (''EUR'', ''NOK'') (2024, 1, 3) [3, 3, 4]) = 3 \<and>
   np_var_float (\<lambda>x. x) sum_list [3, 3, 4] = 2 / 9 \<and>
   population_variance [3, 3, 4] = 2 / 9 \<and>
   ytd_variance (ytd_record (''EUR'', ''NOK'') (2024, 1, 3) [3, 3, 4]) =
     Some (py_round (2 / 9) 8)"
proof -
  let ?y = "ytd_record (''EUR'', ''NOK'') (2024, 1, 3) [3, 3, 4]"
  have m: "?y \<in> set (calculate_ytd_metrics_float (\<lambda>x. x) sum_list ytd_example)"
    by (simp add: calculate_ytd_metrics_float_id calculate_ytd_metrics_ytd_example)
  have w: "map exchange_rate
      (spec_window ytd_example (ytd_base_currency ?y, ytd_quote_currency ?y) (ytd_rate_date ?y)) =
      [3, 3, 4]"
    by (simp only: ytd_record_sel fst_conv snd_conv spec_window_ytd_example)
  have p: "population_variance [3, 3, 4] = 2 / 9"
    by (simp add: population_variance_def spec_mean_def power2_eq_square)
  have v: "np_var_float (\<lambda>x. x) sum_list [3, 3, 4] = 2 / 9"
    by (simp add: np_var_float_id np_var_334)
  have c: "ytd_days_count ?y = 3"
    by (simp add: ytd_record_sel)
  from ytd_variance_is_population_variance [OF m]
  have "1 < ytd_days_count ?y \<and> np_var_float (\<lambda>x. x) sum_list [3, 3, 4] \<noteq> 0 \<longrightarrow>
        ytd_variance ?y = Some (np_round (\<lambda>x. x) (np_var_float (\<lambda>x. x) sum_list [3, 3, 4]) 8)"
    unfolding w Let_def by blast
  then have "ytd_variance ?y = Some (py_round (2 / 9) 8)"
    unfolding v c np_round_id by simp
  with m c v p show ?thesis by blast
qed

text \<open>
  Claim C1 as stated fails on the example: the second day has two records and a null
  variance, and the third day has variance 0.22222222 where the divisor \<open>N - 1\<close> gives
  0.33333333.
\<close>

theorem ytd_variance_counterexample:
  "calculate_ytd_metrics ytd_example =
     [ytd_record (''EUR'', ''NOK'') (2024, 1, 1) [3],
      ytd_record (''EUR'', ''NOK'') (2024, 1, 2) [3, 3],
      ytd_record (''EUR'', ''NOK'') (2024, 1, 3) [3, 3, 4]] \<and>
   ytd_days_count (ytd_record (''EUR'', ''NOK'') (2024, 1, 2) [3, 3]) = 2 \<and>
   ytd_variance (ytd_record (''EUR'', ''NOK'') (2024, 1, 2) [3, 3]) = None \<and>
   ytd_std_dev (ytd_record (''EUR'', ''NOK'') (2024, 1, 2) [3, 3]) = None \<and>
   ytd_days_count (ytd_record (''EUR'', ''NOK'') (2024, 1, 3) [3, 3, 4]) = 3 \<and>
   ytd_variance (ytd_record (''EUR'', ''NOK'') (2024, 1, 3) [3, 3, 4]) = Some (22222222 / 10 ^ 8) \<and>
   py_round (sample_variance [3, 3, 4]) 8 = 33333333 / 10 ^ 8"
proof -
  have r1: "py_round (2 / 9) 8 = 22222222 / 10 ^ 8" by code_simp
  have r2: "py_round (sample_variance [3, 3, 4]) 8 = 33333333 / 10 ^ 8" by code_simp
  show ?thesis
    by (simp add: calculate_ytd_metrics_ytd_example ytd_record_sel np_var_33 np_var_334
        np_std_def r1 r2)
qed


subsection \<open>Percent change\<close>




subsection \<open>The window of a cross rate\<close>

lemma calculate_cross_pairs_ytd_example:
  "calculate_cross_pairs ytd_example = Inr ytd_example_cross"
  by code_simp

lemma round_half_even_of_int: "round_half_even (of_int k) = k"
  by (simp add: round_half_even_def)

lemma py_round_idem: "py_round (py_round x n) n = py_round x n"
proof -
  have "py_round x n * 10 ^ n = of_int (round_half_even (x * 10 ^ n))"
    by (simp add: py_round_def)
  then show ?thesis
    by (simp add: py_round_def [of "py_round x n"] round_half_even_of_int) (simp add: py_round_def)
qed

lemma all_rows_key_determines:
  assumes "x \<in> set (all_rows raw)" and "x' \<in> set (all_rows raw)"
    and "rate_date x = rate_date x'" and "pair_key x = pair_key x'"
  shows "x = x'"
proof -
  from all_rows_at_date [OF assms(1) refl] obtain p where
    p: "x = emitted_row (rate_date x) (table_of raw (rate_date x)) p"
    by blast
  from all_rows_at_date [OF assms(2) refl] obtain p' where
    p': "x' = emitted_row (rate_date x') (table_of raw (rate_date x')) p'"
    by blast
  from p have "pair_key x = p"
    by (metis pair_key_emitted_row)
  moreover from p' have "pair_key x' = p'"
    by (metis pair_key_emitted_row)
  ultimately show ?thesis
    using p p' assms(3,4) by simp
qed

lemma all_rows_rounded:
  assumes "x \<in> set (all_rows raw)"
  shows "py_round (exchange_rate x) 8 = exchange_rate x"
proof -
  from all_rows_at_date_values [OF assms refl] obtain v where "exchange_rate x = py_round v 8"
    by blast
  then show ?thesis
    by (simp add: py_round_idem)
qed

lemma date_le_year: "(d1 :: date) \<le> d2 \<Longrightarrow> year d1 \<le> year d2"
  by (cases d1, cases d2) (auto simp add: year_def)

lemma year_start_le: "valid_date D \<Longrightarrow> (year D, 1, 1) \<le> D"
  by (cases D) (auto simp add: valid_date_def year_def)

lemma sorted_le_last:
  "sorted (map f xs) \<Longrightarrow> x \<in> set xs \<Longrightarrow> f x \<le> f (last xs)"
  by (induction xs) auto


lemma set_spec_window:
  "set (spec_window df k D) =
     {x \<in> set df. pair_key x = k \<and> (year D, 1, 1) \<le> rate_date x \<and> rate_date x \<le> D}"
  by (auto simp add: spec_window_def)

lemma sorted_spec_window: "sorted (map rate_date (spec_window df k D))"
  by (simp add: spec_window_def)

lemma spec_window_same_year:
  assumes "x \<in> set (spec_window df k D)"
  shows "year (rate_date x) = year D"
proof -
  from assms have "(year D, 1, 1) \<le> rate_date x" and "rate_date x \<le> D"
    by (simp_all add: set_spec_window)
  from date_le_year [OF this(1)] date_le_year [OF this(2)] show ?thesis
    by (simp add: year_def)
qed

lemma spec_window_last:
  assumes det: "\<forall>x\<in>set df. \<forall>x'\<in>set df.
                   rate_date x = rate_date x' \<and> pair_key x = pair_key x' \<longrightarrow> x = x'"
    and r: "r \<in> set df" and v: "valid_date (rate_date r)"
  shows "spec_window df (pair_key r) (rate_date r) \<noteq> []"
    and "last (spec_window df (pair_key r) (rate_date r)) = r"
    and "rate_date r = (year (rate_date r), 1, 1) \<Longrightarrow>
         hd (spec_window df (pair_key r) (rate_date r)) = r"
proof -
  let ?w = "spec_window df (pair_key r) (rate_date r)"
  have mem: "r \<in> set ?w"
    using r year_start_le [OF v] by (simp add: set_spec_window)
  then show ne: "?w \<noteq> []" by auto
  then have l: "last ?w \<in> set ?w" by simp
  from sorted_le_last [OF sorted_spec_window mem]
  have "rate_date r \<le> rate_date (last ?w)" .
  moreover from l have "rate_date (last ?w) \<le> rate_date r"
    by (simp add: set_spec_window)
  ultimately have "rate_date (last ?w) = rate_date r" by simp
  moreover from l have "last ?w \<in> set df" and "pair_key (last ?w) = pair_key r"
    by (simp_all add: set_spec_window)
  ultimately show "last ?w = r"
    using det r by blast
  assume jan: "rate_date r = (year (rate_date r), 1, 1)"
  from ne have h: "hd ?w \<in> set ?w" by simp
  then have "(year (rate_date r), 1, 1) \<le> rate_date (hd ?w)" and "rate_date (hd ?w) \<le> rate_date r"
    by (simp_all add: set_spec_window)
  with jan have "rate_date (hd ?w) = rate_date r" by simp
  moreover from h have "hd ?w \<in> set df" and "pair_key (hd ?w) = pair_key r"
    by (simp_all add: set_spec_window)
  ultimately show "hd ?w = r"
    using det r by blast
qed

text \<open>
  Claim C3.  Let \<open>cross\<close> be the frame \<open>calculate_cross_pairs\<close> returns on some raw input,
  and \<open>r\<close> a row of it, of pair \<open>k\<close> and calendar date \<open>D\<close>.  The window the aggregator
  computes for \<open>r\<close> (lines 150-169) is the list of the rows of \<open>cross\<close> of pair \<open>k\<close> with
  date from January 1 of the year of \<open>D\<close> to \<open>D\<close>, both included, in ascending date order;
  every row of it is of the year of \<open>D\<close>.  The record built from that window is in the YTD
  output and is the only record there with key \<open>(D, k)\<close>; its \<open>ytd_last_rate\<close> is the rate of
  \<open>r\<close> itself, and when \<open>D\<close> is a January 1 its \<open>ytd_first_rate\<close> is the rate of \<open>r\<close> too.
\<close>

theorem ytd_window_of_cross_rates:
  assumes "calculate_cross_pairs raw = Inr cross" and "r \<in> set cross"
    and "valid_date (rate_date r)"
  shows "let k = pair_key r; D = rate_date r;
             window = ytd_data (sort_values (pair_group (sort_values cross) k)) D;
             y = ytd_record k D (map exchange_rate window)
         in window = spec_window cross k D \<and>
            set window =
              {x \<in> set cross. pair_key x = k \<and> (year D, 1, 1) \<le> rate_date x \<and> rate_date x \<le> D} \<and>
            sorted (map rate_date window) \<and>
            (\<forall>x\<in>set window. year (rate_date x) = year D) \<and>
            y \<in> set (calculate_ytd_metrics cross) \<and>
            (\<forall>y'\<in>set (calculate_ytd_metrics cross).
               ytd_rate_date y' = D \<and> ytd_base_currency y' = fst k \<and>
               ytd_quote_currency y' = snd k \<longrightarrow> y' = y) \<and>
            ytd_last_rate y = exchange_rate r \<and>
            (D = (year D, 1, 1) \<longrightarrow> ytd_first_rate y = exchange_rate r)"
proof -
  let ?k = "pair_key r" and ?D = "rate_date r"
  let ?w = "spec_window cross ?k ?D"
  let ?y = "ytd_record ?k ?D (map exchange_rate ?w)"
  have cross: "cross = all_rows raw"
    using assms(1) by (rule calculate_cross_pairs_Inr)
  have det: "\<forall>x\<in>set cross. \<forall>x'\<in>set cross.
                   rate_date x = rate_date x' \<and> pair_key x = pair_key x' \<longrightarrow> x = x'"
    unfolding cross by (blast intro: all_rows_key_determines)
  have w: "ytd_data (sort_values (pair_group (sort_values cross) ?k)) ?D = ?w"
    by (rule ytd_data_eq_spec_window)
  note wl = spec_window_last [of cross r, OF det assms(2,3)]
  have s: "set ?w =
      {x \<in> set cross. pair_key x = ?k \<and> (year ?D, 1, 1) \<le> rate_date x \<and> rate_date x \<le> ?D}"
    by (rule set_spec_window)
  have so: "sorted (map rate_date ?w)"
    by (rule sorted_spec_window)
  have yr: "\<forall>x\<in>set ?w. year (rate_date x) = year ?D"
    by (rule ballI) (rule spec_window_same_year)
  have mem: "?y \<in> set (calculate_ytd_metrics cross)"
    by (rule in_calculate_ytd_metrics [THEN iffD2]) (rule bexI [OF _ assms(2)], rule conjI [OF wl(1) refl])
  have uniq: "\<forall>y'\<in>set (calculate_ytd_metrics cross).
      ytd_rate_date y' = ?D \<and> ytd_base_currency y' = fst ?k \<and> ytd_quote_currency y' = snd ?k
      \<longrightarrow> y' = ?y"
  proof (intro ballI impI)
    fix y'
    assume y': "y' \<in> set (calculate_ytd_metrics cross)"
      and key: "ytd_rate_date y' = ?D \<and> ytd_base_currency y' = fst ?k \<and> ytd_quote_currency y' = snd ?k"
    from key have e: "(ytd_base_currency y', ytd_quote_currency y') = ?k" "ytd_rate_date y' = ?D"
      by simp_all
    from ytd_output_row [OF y'] show "y' = ?y"
      unfolding e by (rule conjunct2)
  qed
  have rr: "py_round (exchange_rate r) 8 = exchange_rate r"
    using assms(2) unfolding cross by (rule all_rows_rounded)
  have "ytd_last_rate ?y = py_round (last (map exchange_rate ?w)) 8"
    by (simp only: ytd_record_sel)
  also have "last (map exchange_rate ?w) = exchange_rate (last ?w)"
    using wl(1) by (rule last_map)
  finally have la: "ytd_last_rate ?y = exchange_rate r"
    by (simp only: wl(2) rr)
  have fi: "?D = (year ?D, 1, 1) \<longrightarrow> ytd_first_rate ?y = exchange_rate r"
  proof
    assume jan: "?D = (year ?D, 1, 1)"
    have "ytd_first_rate ?y = py_round (hd (map exchange_rate ?w)) 8"
      by (simp only: ytd_record_sel)
    also have "hd (map exchange_rate ?w) = exchange_rate (hd ?w)"
      using wl(1) by (rule hd_map)
    finally show "ytd_first_rate ?y = exchange_rate r"
      by (simp only: wl(3) [OF jan] rr)
  qed
  show ?thesis
    unfolding Let_def w
    by (intro conjI refl s so yr mem uniq la fi)
qed


lemma cross_row_sel:
  "rate_date (cross_row d b q v) = d"
  "base_currency (cross_row d b q v) = b"
  "quote_currency (cross_row d b q v) = q"
  "exchange_rate (cross_row d b q v) = v"
  "pair_key (cross_row d b q v) = (b, q)"
  by (simp_all add: cross_row_def pair_key_def)

text \<open>
  The cross rates of the three-day example: the record of January 1 has first and last rate
  3, and the record of January 3 has last rate 4.
\<close>

theorem ytd_window_of_cross_rates_witness:
  "calculate_cross_pairs ytd_example = Inr ytd_example_cross \<and>
   cross_row (2024, 1, 1) ''EUR'' ''NOK'' 3 \<in> set ytd_example_cross \<and>
   valid_date (2024, 1, 1) \<and> (2024, 1, 1) = (year (2024, 1, 1), 1, 1) \<and>
   ytd_last_rate (ytd_record (''EUR'', ''NOK'') (2024, 1, 1)
      (map exchange_rate
         (ytd_data (sort_values (pair_group (sort_values ytd_example_cross) (''EUR'', ''NOK'')))
            (2024, 1, 1)))) = 3 \<and>
   ytd_first_rate (ytd_record (''EUR'', ''NOK'') (2024, 1, 1)
      (map exchange_rate
         (ytd_data (sort_values (pair_group (sort_values ytd_example_cross) (''EUR'', ''NOK'')))
            (2024, 1, 1)))) = 3 \<and>
   cross_row (2024, 1, 3) ''EUR'' ''NOK'' 4 \<in> set ytd_example_cross \<and>
   valid_date (2024, 1, 3) \<and>
   ytd_last_rate (ytd_record (''EUR'', ''NOK'') (2024, 1, 3)
      (map exchange_rate
         (ytd_data (sort_values (pair_group (sort_values ytd_example_cross) (''EUR'', ''NOK'')))
            (2024, 1, 3)))) = 4"
proof -
  let ?r1 = "cross_row (2024, 1, 1) ''EUR'' ''NOK'' 3"
  let ?r3 = "cross_row (2024, 1, 3) ''EUR'' ''NOK'' 4"
  have c: "calculate_cross_pairs ytd_example = Inr ytd_example_cross"
    by (rule calculate_cross_pairs_ytd_example)
  have m1: "?r1 \<in> set ytd_example_cross" by code_simp
  have m3: "?r3 \<in> set ytd_example_cross" by code_simp
  have v1: "valid_date (rate_date ?r1)" by code_simp
  have v3: "valid_date (rate_date ?r3)" by code_simp
  have j: "(2024, 1, 1) = (year (2024, 1, 1), 1, 1)"
    by (simp add: year_def)
  note t1 = ytd_window_of_cross_rates [OF c m1 v1, unfolded Let_def cross_row_sel]
  note t3 = ytd_window_of_cross_rates [OF c m3 v3, unfolded Let_def cross_row_sel]
  from t1 j have a: "ytd_last_rate (ytd_record (''EUR'', ''NOK'') (2024, 1, 1)
      (map exchange_rate
         (ytd_data (sort_values (pair_group (sort_values ytd_example_cross) (''EUR'', ''NOK'')))
            (2024, 1, 1)))) = 3"
    and b: "ytd_first_rate (ytd_record (''EUR'', ''NOK'') (2024, 1, 1)
      (map exchange_rate
         (ytd_data (sort_values (pair_group (sort_values ytd_example_cross) (''EUR'', ''NOK'')))
            (2024, 1, 1)))) = 3"
    by blast+
  from t3 have d: "ytd_last_rate (ytd_record (''EUR'', ''NOK'') (2024, 1, 3)
      (map exchange_rate
         (ytd_data (sort_values (pair_group (sort_values ytd_example_cross) (''EUR'', ''NOK'')))
            (2024, 1, 3)))) = 4"
    by blast
  show ?thesis
    using v1 v3 unfolding cross_row_sel
    by (intro conjI c m1 m3 j a b d)
qed

section \<open>The stages on loaded frames of numbers\<close>

text \<open>
  On a frame of numbers the two stages on loaded frames do what the stages on numbers do:
  the same rows, or the same exception.  The properties above therefore hold for the stages
  that \<open>main\<close> runs whenever every rate is a number.
\<close>

lemma fin_row_sel:
  "rate_date (fin_row r) = rate_date r"
  "base_currency (fin_row r) = base_currency r"
  "quote_currency (fin_row r) = quote_currency r"
  "exchange_rate (fin_row r) = Fin (exchange_rate r)"
  by (simp_all add: fin_row_def cross_row_def)

lemma num_row_sel:
  "rate_date (num_row r) = rate_date r"
  "base_currency (num_row r) = base_currency r"
  "quote_currency (num_row r) = quote_currency r"
  "exchange_rate (num_row r) = Float (Fin (exchange_rate r))"
  by (simp_all add: num_row_def cross_row_def)

lemma fin_row_cross_row: "fin_row (cross_row d b q v) = cross_row d b q (Fin v)"
  by (simp add: fin_row_def cross_row_def)

lemma date_group_map_num_row: "date_group (map num_row df) d = map num_row (date_group df d)"
  by (simp add: date_group_def filter_map o_def num_row_sel)

lemma groupby_dates_map_num_row: "groupby_dates (map num_row df) = groupby_dates df"
  by (simp add: groupby_dates_def o_def num_row_sel)

lemma rates_dict_loop_map_num_row:
  "rates_dict_loop (\<lambda>c. map_option (\<lambda>x. Float (Fin x)) (m c)) (map num_row rs) =
     (\<lambda>c. map_option (\<lambda>x. Float (Fin x)) (rates_dict_loop m rs c))"
proof (induction rs arbitrary: m)
  case Nil
  show ?case by simp
next
  case (Cons r rs)
  have "(\<lambda>c. map_option (\<lambda>x. Float (Fin x)) (m c))
          (quote_currency r \<mapsto> Float (Fin (exchange_rate r))) =
        (\<lambda>c. map_option (\<lambda>x. Float (Fin x)) ((m(quote_currency r \<mapsto> exchange_rate r)) c))"
    by (rule ext) simp
  then show ?case
    by (simp only: list.map rates_dict_loop.simps num_row_sel Cons.IH)
qed

lemma rates_dict_of_loaded_map_num_row:
  "rates_dict_of_loaded (map num_row grp) =
     (\<lambda>c. map_option (\<lambda>x. Float (Fin x)) (rates_dict_of grp c))"
proof -
  have "[''EUR'' \<mapsto> Float (Fin 1)] =
        (\<lambda>c. map_option (\<lambda>x. Float (Fin x)) ([''EUR'' \<mapsto> (1::real)] c))"
    by (rule ext) simp
  then show ?thesis
    by (simp only: rates_dict_of_loaded_def rates_dict_of_def rates_dict_loop_map_num_row)
qed

lemma pairs_loop_loaded_fin:
  "pairs_loop_loaded d (\<lambda>c. map_option (\<lambda>x. Float (Fin x)) (t c)) ps =
     map_sum (\<lambda>e. e) (map fin_row) (pairs_loop d t ps)"
proof (induction d t ps rule: pairs_loop.induct)
  case (1 d t)
  show ?case by simp
next
  case (2 d t b q ps)
  show ?case
  proof (cases "b \<noteq> q \<and> t b \<noteq> None \<and> t q \<noteq> None")
    case False
    with "2.IH"(2) show ?thesis by auto
  next
    case True
    then obtain vb vq where v: "t b = Some vb" "t q = Some vq" and ne: "b \<noteq> q"
      by auto
    show ?thesis
    proof (cases "vb = 0")
      case True
      with v ne show ?thesis by simp
    next
      case False
      with "2.IH"(1) v ne
      have "pairs_loop_loaded d (\<lambda>c. map_option (\<lambda>x. Float (Fin x)) (t c)) ps =
          map_sum (\<lambda>e. e) (map fin_row) (pairs_loop d t ps)"
        by simp
      with False v ne show ?thesis
        by (cases "pairs_loop d t ps") (simp_all add: fin_row_cross_row)
    qed
  qed
qed

lemma dates_loop_loaded_fin:
  "dates_loop_loaded (map num_row df) ds = map_sum (\<lambda>e. e) (map fin_row) (dates_loop df ds)"
proof (induction ds)
  case Nil
  show ?case by simp
next
  case (Cons d ds)
  show ?case
    by (cases "pairs_loop d (rates_dict_of (date_group df d)) currency_pairs";
        cases "dates_loop df ds")
      (simp_all add: date_group_map_num_row rates_dict_of_loaded_map_num_row
        pairs_loop_loaded_fin Cons.IH)
qed

lemma calculate_cross_pairs_loaded_fin:
  "calculate_cross_pairs_loaded (map num_row df) =
     map_sum (\<lambda>e. e) (map fin_row) (calculate_cross_pairs df)"
proof (cases "dates_loop df (groupby_dates df)")
  case (Inl e)
  then show ?thesis
    by (simp add: calculate_cross_pairs_loaded_def calculate_cross_pairs_def
        groupby_dates_map_num_row dates_loop_loaded_fin)
next
  case (Inr rs)
  then show ?thesis
    by (cases rs)
      (simp_all add: calculate_cross_pairs_loaded_def calculate_cross_pairs_def
        groupby_dates_map_num_row dates_loop_loaded_fin)
qed

lemma insort_key_map_fin_row:
  "insort_key rate_date (fin_row r) (map fin_row xs) = map fin_row (insort_key rate_date r xs)"
  by (induction xs) (simp_all add: fin_row_sel)

lemma sort_values_map_fin_row: "sort_values (map fin_row df) = map fin_row (sort_values df)"
  unfolding sort_values_def
  by (induction df) (simp_all add: insort_key_map_fin_row)

lemma pair_key_fin_row: "pair_key (fin_row r) = pair_key r"
  by (simp add: pair_key_def fin_row_sel)

lemma pair_group_map_fin_row: "pair_group (map fin_row df) k = map fin_row (pair_group df k)"
  by (simp add: pair_group_def filter_map o_def pair_key_fin_row)

lemma groupby_pairs_map_fin_row: "groupby_pairs (map fin_row df) = groupby_pairs df"
  by (simp add: groupby_pairs_def o_def pair_key_fin_row)

lemma ytd_data_map_fin_row: "ytd_data (map fin_row grp) d = map fin_row (ytd_data grp d)"
  by (simp add: ytd_data_def filter_map o_def fin_row_sel)

lemma np_reduce_fin: "np_reduce f (map Fin rates) = Fin (f rates)"
  by (simp add: np_reduce_def list_all_iff o_def)

lemma ytd_record_loaded_fin:
  assumes "rates \<noteq> []"
  shows "ytd_record_loaded k d (map Fin rates) = fin_metric (ytd_record k d rates)"
  using assms
  by (simp add: ytd_record_loaded_def ytd_record_def fin_metric_def Let_def np_reduce_fin
      hd_map last_map)

lemma rows_loop_loaded_fin:
  "rows_loop_loaded k (map fin_row grp) (map fin_row rows) =
     map fin_metric (rows_loop k grp rows)"
proof (induction rows)
  case Nil
  show ?case by simp
next
  case (Cons row rows)
  have e: "map exchange_rate (map fin_row (ytd_data grp (rate_date row))) =
           map Fin (map exchange_rate (ytd_data grp (rate_date row)))"
    by (simp add: o_def fin_row_sel)
  show ?case
    by (simp add: Let_def fin_row_sel ytd_data_map_fin_row e ytd_record_loaded_fin Cons.IH
        del: map_map)
qed

lemma groups_loop_loaded_fin:
  "groups_loop_loaded (map fin_row df) ks = map fin_metric (groups_loop df ks)"
  by (induction ks)
    (simp_all add: Let_def pair_group_map_fin_row sort_values_map_fin_row rows_loop_loaded_fin)

lemma calculate_ytd_metrics_loaded_fin:
  "calculate_ytd_metrics_loaded (map fin_row df) = map fin_metric (calculate_ytd_metrics df)"
  by (simp add: calculate_ytd_metrics_loaded_def calculate_ytd_metrics_def Let_def
      sort_values_map_fin_row groupby_pairs_map_fin_row groups_loop_loaded_fin)

section \<open>Properties of the audit logging and of the entry points\<close>

lemma log_execution_eq: "log_execution c row a = Inr (logged c row a)"
  by (cases c) (simp_all add: log_execution_def try_except_def db_insert_def logged_def)

lemma call_log_execution_eq:
  "call_log_execution env row s =
     Inr (s\<lparr>audit := logged (audit_write env (status row)) row (audit s)\<rparr>)"
  by (simp add: call_log_execution_def log_execution_eq)

lemma load_call_log_execution_eq:
  "load_call_log_execution env row s =
     Inr (s\<lparr>load_audit := logged (load_audit_write env (status row)) row (load_audit s)\<rparr>)"
  by (simp add: load_call_log_execution_def log_execution_eq)

lemma connect_for_logs_sel:
  "connection (connect_for_logs env s) = (connection s \<or> get_db_connection_result env = None)"
  "cross_output (connect_for_logs env s) = cross_output s"
  "ytd_output (connect_for_logs env s) = ytd_output s"
  by (simp_all add: connect_for_logs_def call_log_execution_eq Let_def split: option.splits)

lemma transform_body_same:
  "snd (transform_body (env\<lparr>audit_write := w\<rparr>)) = snd (transform_body (env\<lparr>audit_write := w'\<rparr>)) \<and>
   same_outputs (fst (transform_body (env\<lparr>audit_write := w\<rparr>)))
     (fst (transform_body (env\<lparr>audit_write := w'\<rparr>)))"
proof (cases "validate_config_result env")
  case (Some e)
  then show ?thesis
    by (simp add: transform_body_def same_outputs_def)
next
  case None
  note v = this
  show ?thesis
  proof (cases "load_extracted_data_result env")
    case (Inl e)
    with v show ?thesis
      by (simp add: transform_body_def same_outputs_def connect_for_logs_sel Let_def)
  next
    case (Inr df_raw)
    note l = this
    show ?thesis
    proof (cases "calculate_cross_pairs_loaded df_raw")
      case (Inl e)
      with v l show ?thesis
        by (simp add: transform_body_def same_outputs_def connect_for_logs_sel Let_def)
    next
      case (Inr df_cross)
      note c = this
      show ?thesis
      proof (cases "save_cross_result env")
        case (Some e)
        with v l c show ?thesis
          by (simp add: transform_body_def same_outputs_def connect_for_logs_sel Let_def)
      next
        case None
        note sc = this
        show ?thesis
        proof (cases "save_ytd_result env")
          case (Some e)
          with v l c sc show ?thesis
            by (simp add: transform_body_def same_outputs_def connect_for_logs_sel Let_def)
        next
          case None
          with v l c sc show ?thesis
            by (simp add: transform_body_def same_outputs_def connect_for_logs_sel Let_def
                call_log_execution_eq)
        qed
      qed
    qed
  qed
qed

lemma transform_handler_same:
  assumes "snd r = snd r'" and "same_outputs (fst r) (fst r')"
  shows "fst (transform_handler (env\<lparr>audit_write := w\<rparr>) r) =
           fst (transform_handler (env\<lparr>audit_write := w'\<rparr>) r') \<and>
         same_outputs (snd (transform_handler (env\<lparr>audit_write := w\<rparr>) r))
           (snd (transform_handler (env\<lparr>audit_write := w'\<rparr>) r'))"
  using assms
  by (cases "snd r'")
     (simp_all add: transform_handler_def same_outputs_def call_log_execution_eq)

lemma transform_finally_same:
  assumes "fst r = fst r'" and "same_outputs (snd r) (snd r')"
  shows "fst (transform_finally (env\<lparr>audit_write := w\<rparr>) r) =
           fst (transform_finally (env\<lparr>audit_write := w'\<rparr>) r') \<and>
         same_outputs (snd (transform_finally (env\<lparr>audit_write := w\<rparr>) r))
           (snd (transform_finally (env\<lparr>audit_write := w'\<rparr>) r'))"
  using assms
  by (cases "close_result env") (simp_all add: transform_finally_def same_outputs_def)

lemma main_same:
  "fst (main (env\<lparr>audit_write := w\<rparr>)) = fst (main (env\<lparr>audit_write := w'\<rparr>)) \<and>
   same_outputs (snd (main (env\<lparr>audit_write := w\<rparr>))) (snd (main (env\<lparr>audit_write := w'\<rparr>)))"
proof -
  note b = transform_body_same [where env = env and w = w and w' = w']
  note h = transform_handler_same [OF b [THEN conjunct1] b [THEN conjunct2],
      where env = env and w = w and w' = w']
  note f = transform_finally_same [OF h [THEN conjunct1] h [THEN conjunct2],
      where env = env and w = w and w' = w']
  show ?thesis
    unfolding main_def by (rule f)
qed

lemma load_body_same:
  "snd (load_body (env\<lparr>load_audit_write := w\<rparr>)) =
     snd (load_body (env\<lparr>load_audit_write := w'\<rparr>)) \<and>
   same_load (fst (load_body (env\<lparr>load_audit_write := w\<rparr>)))
     (fst (load_body (env\<lparr>load_audit_write := w'\<rparr>)))"
proof (cases "load_validate_config_result env")
  case (Some e)
  then show ?thesis
    by (simp add: load_body_def same_load_def)
next
  case None
  note v = this
  show ?thesis
  proof (cases "load_get_db_engine_result env")
    case (Some e)
    with v show ?thesis
      by (simp add: load_body_def same_load_def)
  next
    case None
    note g = this
    show ?thesis
    proof (cases "load_get_db_connection_result env")
      case (Some e)
      with v g show ?thesis
        by (simp add: load_body_def same_load_def Let_def)
    next
      case None
      note c = this
      show ?thesis
      proof (cases "load_steps_result env")
        case (Some e)
        with v g c show ?thesis
          by (simp add: load_body_def same_load_def Let_def load_call_log_execution_eq)
      next
        case None
        with v g c show ?thesis
          by (simp add: load_body_def same_load_def Let_def load_call_log_execution_eq)
      qed
    qed
  qed
qed

lemma load_handler_same:
  assumes "snd r = snd r'" and "same_load (fst r) (fst r')"
  shows "fst (load_handler (env\<lparr>load_audit_write := w\<rparr>) r) =
           fst (load_handler (env\<lparr>load_audit_write := w'\<rparr>) r') \<and>
         same_load (snd (load_handler (env\<lparr>load_audit_write := w\<rparr>) r))
           (snd (load_handler (env\<lparr>load_audit_write := w'\<rparr>) r'))"
  using assms
  by (cases "snd r'")
     (simp_all add: load_handler_def same_load_def load_call_log_execution_eq)

lemma load_finally_same:
  assumes "fst r = fst r'" and "same_load (snd r) (snd r')"
  shows "fst (load_finally (env\<lparr>load_audit_write := w\<rparr>) r) =
           fst (load_finally (env\<lparr>load_audit_write := w'\<rparr>) r') \<and>
         same_load (snd (load_finally (env\<lparr>load_audit_write := w\<rparr>) r))
           (snd (load_finally (env\<lparr>load_audit_write := w'\<rparr>) r'))"
  using assms
  by (cases "load_close_result env"; cases "load_dispose_result env")
     (simp_all add: load_finally_def same_load_def Let_def)

lemma load_main_same:
  "fst (load_main (env\<lparr>load_audit_write := w\<rparr>)) =
     fst (load_main (env\<lparr>load_audit_write := w'\<rparr>)) \<and>
   same_load (snd (load_main (env\<lparr>load_audit_write := w\<rparr>)))
     (snd (load_main (env\<lparr>load_audit_write := w'\<rparr>)))"
proof -
  note b = load_body_same [where env = env and w = w and w' = w']
  note h = load_handler_same [OF b [THEN conjunct1] b [THEN conjunct2],
      where env = env and w = w and w' = w']
  note f = load_finally_same [OF h [THEN conjunct1] h [THEN conjunct2],
      where env = env and w = w and w' = w']
  show ?thesis
    unfolding load_main_def by (rule f)
qed

text \<open>
  Claim C9.  \<open>log_execution\<close> returns whatever the database does with the insertion: an
  exception of \<open>execute\<close> or of \<open>commit\<close> ends in the handler and never leaves the function.
  Consequently the value \<open>main\<close> returns (or the exception that leaves it) and the output
  files it has written are the same for any two behaviours of the audit insertions, in
  transform.py; and in load.py the value \<open>main\<close> returns and whether the load was done are
  the same.
\<close>

theorem audit_failure_is_swallowed:
  "(\<exists>s'. log_execution outcome row s = Inr s') \<and>
   fst (main (env\<lparr>audit_write := w\<rparr>)) = fst (main (env\<lparr>audit_write := w'\<rparr>)) \<and>
   cross_output (snd (main (env\<lparr>audit_write := w\<rparr>))) =
     cross_output (snd (main (env\<lparr>audit_write := w'\<rparr>))) \<and>
   ytd_output (snd (main (env\<lparr>audit_write := w\<rparr>))) =
     ytd_output (snd (main (env\<lparr>audit_write := w'\<rparr>))) \<and>
   fst (load_main (lenv\<lparr>load_audit_write := v\<rparr>)) =
     fst (load_main (lenv\<lparr>load_audit_write := v'\<rparr>)) \<and>
   load_done (snd (load_main (lenv\<lparr>load_audit_write := v\<rparr>))) =
     load_done (snd (load_main (lenv\<lparr>load_audit_write := v'\<rparr>)))"
  using main_same [where env = env and w = w and w' = w']
    load_main_same [where env = lenv and w = v and w' = v']
  by (simp add: log_execution_eq same_outputs_def same_load_def)

subsection \<open>A run on the frame with a missing rate\<close>

lemma calculate_cross_pairs_loaded_nan_example:
  "calculate_cross_pairs_loaded nan_example = Inr nan_example_out"
  by code_simp

lemma connect_for_logs_nan_env:
  "connection (connect_for_logs nan_env initial_state)"
  "cross_output (connect_for_logs nan_env initial_state) = None"
  "ytd_output (connect_for_logs nan_env initial_state) = None"
  by (simp_all add: connect_for_logs_sel nan_env_def initial_state_def)

lemma transform_body_nan_env:
  "snd (transform_body nan_env) = None"
  "connection (fst (transform_body nan_env))"
  "cross_output (fst (transform_body nan_env)) = Some nan_example_out"
  "ytd_output (fst (transform_body nan_env)) = Some (calculate_ytd_metrics_loaded nan_example_out)"
proof -
  have f: "validate_config_result nan_env = None"
    "load_extracted_data_result nan_env = Inr nan_example"
    "save_cross_result nan_env = None" "save_ytd_result nan_env = None"
    by (simp_all add: nan_env_def)
  show "snd (transform_body nan_env) = None"
    "connection (fst (transform_body nan_env))"
    "cross_output (fst (transform_body nan_env)) = Some nan_example_out"
    "ytd_output (fst (transform_body nan_env)) = Some (calculate_ytd_metrics_loaded nan_example_out)"
    by (simp_all add: transform_body_def f calculate_cross_pairs_loaded_nan_example Let_def
        connect_for_logs_nan_env call_log_execution_eq)
qed

lemma main_nan_env:
  "fst (main nan_env) = Inr 0"
  "cross_output (snd (main nan_env)) = Some nan_example_out"
  "ytd_output (snd (main nan_env)) = Some (calculate_ytd_metrics_loaded nan_example_out)"
proof -
  have c: "close_result nan_env = None"
    by (simp add: nan_env_def)
  show "fst (main nan_env) = Inr 0"
    "cross_output (snd (main nan_env)) = Some nan_example_out"
    "ytd_output (snd (main nan_env)) = Some (calculate_ytd_metrics_loaded nan_example_out)"
    by (simp_all add: main_def transform_finally_def transform_handler_def
        transform_body_nan_env c)
qed

text \<open>
  With a database that refuses every audit insertion, \<open>log_execution\<close> counts a warning and
  the run returns 0 and writes the cross-pair output all the same.
\<close>

theorem audit_failure_is_swallowed_witness:
  "log_execution (ExecuteRaises DbError)
     \<lparr>pipeline_step = ''transform'', status = ''running'', rows_processed = 0,
      error_message = None\<rparr> \<lparr>audit_log = [], warnings = 0\<rparr> =
     Inr \<lparr>audit_log = [], warnings = 1\<rparr> \<and>
   fst (main nan_env_no_audit) = Inr 0 \<and>
   cross_output (snd (main nan_env_no_audit)) = Some nan_example_out"
proof -
  have u: "nan_env\<lparr>audit_write := (\<lambda>s. Written)\<rparr> = nan_env"
    by (simp add: nan_env_def)
  note th = audit_failure_is_swallowed [where env = nan_env and w = "\<lambda>s. ExecuteRaises DbError"
      and w' = "\<lambda>s. Written", unfolded u nan_env_no_audit_def [symmetric]]
  have l: "log_execution (ExecuteRaises DbError)
     \<lparr>pipeline_step = ''transform'', status = ''running'', rows_processed = 0,
      error_message = None\<rparr> \<lparr>audit_log = [], warnings = 0\<rparr> =
     Inr \<lparr>audit_log = [], warnings = 1\<rparr>"
    by (simp add: log_execution_def try_except_def db_insert_def)
  from th have "fst (main nan_env_no_audit) = fst (main nan_env)"
    and "cross_output (snd (main nan_env_no_audit)) = cross_output (snd (main nan_env))"
    by blast+
  with l show ?thesis
    by (simp add: main_nan_env)
qed

subsection \<open>What makes the transform stage fail\<close>

lemma py_truediv_Inl:
  "py_truediv a b = Inl e \<Longrightarrow>
   (e = ZeroDivisionError \<and> b = Float (Fin 0)) \<or> (e = TypeError \<and> (is_text a \<or> is_text b))"
  by (induction a b rule: py_truediv.induct) (auto split: if_splits pyfloat.splits)

lemma py_truediv_text: "is_text a \<or> is_text b \<Longrightarrow> py_truediv a b = Inl TypeError"
  by (induction a b rule: py_truediv.induct) auto

lemma pairs_loop_loaded_Inl:
  "pairs_loop_loaded d t ps = Inl e \<Longrightarrow>
   (e = ZeroDivisionError \<and> (\<exists>c. t c = Some (Float (Fin 0)))) \<or>
   (e = TypeError \<and> (\<exists>c v. t c = Some v \<and> is_text v))"
proof (induction d t ps rule: pairs_loop_loaded.induct)
  case (1 d t)
  then show ?case by simp
next
  case (2 d t b q ps)
  show ?case
  proof (cases "b \<noteq> q \<and> t b \<noteq> None \<and> t q \<noteq> None")
    case False
    with 2 show ?thesis by auto
  next
    case True
    show ?thesis
    proof (cases "py_truediv (the (t q)) (the (t b))")
      case (Inl e')
      with True "2.prems" have "e' = e" by simp
      with py_truediv_Inl [OF Inl] True show ?thesis by auto
    next
      case (Inr v)
      with True "2.prems" have "pairs_loop_loaded d t ps = Inl e"
        by (simp split: sum.splits)
      with "2.IH"(1) [OF True Inr] show ?thesis by simp
    qed
  qed
qed

lemma pairs_loop_loaded_text:
  assumes "(b, q) \<in> set ps" and "b \<noteq> q" and "t b = Some vb" and "t q = Some vq"
    and "is_text vb \<or> is_text vq"
  shows "\<exists>e. pairs_loop_loaded d t ps = Inl e"
  using assms(1)
proof (induction ps)
  case Nil
  then show ?case by simp
next
  case (Cons p ps)
  obtain b' q' where p: "p = (b', q')" by (cases p)
  show ?case
  proof (cases "p = (b, q)")
    case True
    from assms(5) have "py_truediv vq vb = Inl TypeError"
      by (auto intro: py_truediv_text)
    with True assms(2-4) show ?thesis by simp
  next
    case False
    with Cons.prems have "(b, q) \<in> set ps" by simp
    then obtain e where "pairs_loop_loaded d t ps = Inl e"
      using Cons.IH by blast
    then show ?thesis
      by (simp add: p split: sum.splits)
  qed
qed

lemma rates_dict_loop_value:
  assumes "rates_dict_loop m rs c = Some v"
  shows "m c = Some v \<or> (\<exists>r\<in>set rs. exchange_rate r = v)"
proof (cases "\<exists>r\<in>set rs. quote_currency r = c")
  case True
  define xs where "xs = filter (\<lambda>r. quote_currency r = c) rs"
  from True have "xs \<noteq> []"
    by (auto simp add: xs_def filter_empty_conv)
  then have "last xs \<in> set xs" by simp
  then have "last xs \<in> set rs" by (simp add: xs_def)
  moreover from True assms have "v = exchange_rate (last xs)"
    by (simp add: rates_dict_loop_eq xs_def)
  ultimately show ?thesis by blast
next
  case False
  with assms show ?thesis
    by (simp add: rates_dict_loop_eq)
qed

lemma dates_loop_loaded_Inl:
  "dates_loop_loaded df ds = Inl e \<Longrightarrow>
   (e = ZeroDivisionError \<and> (\<exists>r\<in>set df. exchange_rate r = Float (Fin 0))) \<or>
   (e = TypeError \<and> (\<exists>r\<in>set df. is_text (exchange_rate r)))"
proof (induction ds)
  case Nil
  then show ?case by simp
next
  case (Cons d ds)
  show ?case
  proof (cases "pairs_loop_loaded d (rates_dict_of_loaded (date_group df d)) currency_pairs")
    case (Inl e')
    with Cons.prems have e': "e' = e" by simp
    from pairs_loop_loaded_Inl [OF Inl] e' consider
      c where "e = ZeroDivisionError"
        "rates_dict_of_loaded (date_group df d) c = Some (Float (Fin 0))"
      | c v where "e = TypeError" "rates_dict_of_loaded (date_group df d) c = Some v" "is_text v"
      by blast
    then show ?thesis
    proof cases
      case 1
      from rates_dict_loop_value [OF 1(2) [unfolded rates_dict_of_loaded_def]]
      have "\<exists>r\<in>set (date_group df d). exchange_rate r = Float (Fin 0)"
        by (auto split: if_splits)
      then have "\<exists>r\<in>set df. exchange_rate r = Float (Fin 0)"
        by (auto simp add: date_group_def)
      with 1(1) show ?thesis by simp
    next
      case 2
      from rates_dict_loop_value [OF 2(2) [unfolded rates_dict_of_loaded_def]] 2(3)
      have "\<exists>r\<in>set (date_group df d). is_text (exchange_rate r)"
        by (auto split: if_splits)
      then have "\<exists>r\<in>set df. is_text (exchange_rate r)"
        by (auto simp add: date_group_def)
      with 2(1) show ?thesis by simp
    qed
  next
    case (Inr rs)
    with Cons.prems have "dates_loop_loaded df ds = Inl e"
      by (simp split: sum.splits)
    then show ?thesis by (rule Cons.IH)
  qed
qed

lemma dates_loop_loaded_raises:
  assumes "d \<in> set ds"
    and "pairs_loop_loaded d (rates_dict_of_loaded (date_group df d)) currency_pairs = Inl e"
  shows "\<exists>e'. dates_loop_loaded df ds = Inl e'"
  using assms(1)
proof (induction ds)
  case Nil
  then show ?case by simp
next
  case (Cons d' ds)
  show ?case
  proof (cases "d' = d")
    case True
    with assms(2) show ?thesis by simp
  next
    case False
    with Cons.prems have "d \<in> set ds" by simp
    then obtain e' where "dates_loop_loaded df ds = Inl e'"
      using Cons.IH by blast
    then show ?thesis
      by (simp split: sum.splits)
  qed
qed

lemma calculate_cross_pairs_loaded_Inl:
  assumes "calculate_cross_pairs_loaded df = Inl e"
  shows "e = KeyError \<or>
         (e = ZeroDivisionError \<and> (\<exists>r\<in>set df. exchange_rate r = Float (Fin 0))) \<or>
         (e = TypeError \<and> (\<exists>r\<in>set df. is_text (exchange_rate r)))"
proof (cases "dates_loop_loaded df (groupby_dates df)")
  case (Inl e')
  with assms have "e' = e"
    by (simp add: calculate_cross_pairs_loaded_def)
  with dates_loop_loaded_Inl [OF Inl] show ?thesis by simp
next
  case (Inr rs)
  with assms show ?thesis
    by (cases rs) (simp_all add: calculate_cross_pairs_loaded_def)
qed

lemma calculate_cross_pairs_loaded_text:
  assumes "non_numeric_rate df r"
  shows "\<exists>e. calculate_cross_pairs_loaded df = Inl e \<and> (e = TypeError \<or> e = ZeroDivisionError)"
proof -
  define d where "d = rate_date r"
  define c where "c = quote_currency r"
  from assms have r: "r \<in> set df" and c: "c \<in> set CURRENCIES" "c \<noteq> ''EUR''"
    and all: "\<forall>r'\<in>set df. rate_date r' = d \<and> quote_currency r' = c \<longrightarrow>
        is_text (exchange_rate r')"
    by (simp_all add: non_numeric_rate_def d_def c_def)
  let ?t = "rates_dict_of_loaded (date_group df d)"
  let ?xs = "filter (\<lambda>r. quote_currency r = c) (date_group df d)"
  from r have rin: "r \<in> set (date_group df d)"
    by (simp add: date_group_def d_def)
  then have ex: "\<exists>r\<in>set (date_group df d). quote_currency r = c"
    by (auto simp add: c_def)
  with rin have "?xs \<noteq> []"
    by (auto simp add: filter_empty_conv)
  then have "last ?xs \<in> set ?xs" by (rule last_in_set)
  then have "last ?xs \<in> set df \<and> rate_date (last ?xs) = d \<and> quote_currency (last ?xs) = c"
    unfolding set_filter date_group_def by blast
  with all have istxt: "is_text (exchange_rate (last ?xs))" by simp
  from ex have tc: "?t c = Some (exchange_rate (last ?xs))"
    by (simp add: rates_dict_of_loaded_def rates_dict_loop_eq)
  have "\<exists>v. ?t ''EUR'' = Some v"
    by (simp add: rates_dict_of_loaded_def rates_dict_loop_eq)
  then obtain v where te: "?t ''EUR'' = Some v" ..
  have "''EUR'' \<in> set CURRENCIES"
    by (simp add: CURRENCIES_def)
  with c have "(c, ''EUR'') \<in> set currency_pairs"
    by (simp add: currency_pairs_def)
  from pairs_loop_loaded_text [OF this c(2) tc te] istxt
  obtain e where p: "pairs_loop_loaded d ?t currency_pairs = Inl e"
    by blast
  from r have "d \<in> set (groupby_dates df)"
    by (simp add: groupby_dates_def d_def)
  from dates_loop_loaded_raises [OF this p]
  obtain e' where e': "dates_loop_loaded df (groupby_dates df) = Inl e'" ..
  then have "calculate_cross_pairs_loaded df = Inl e'"
    by (simp add: calculate_cross_pairs_loaded_def)
  moreover from dates_loop_loaded_Inl [OF e'] have "e' = TypeError \<or> e' = ZeroDivisionError"
    by blast
  ultimately show ?thesis by blast
qed

lemma transform_handler_sel:
  "cross_output (snd (transform_handler env r)) = cross_output (fst r)"
  "ytd_output (snd (transform_handler env r)) = ytd_output (fst r)"
  "connection (snd (transform_handler env r)) = connection (fst r)"
  "fst (transform_handler env r) = (if snd r = None then Inr 0 else Inr 1)"
  by (cases "snd r"; simp add: transform_handler_def call_log_execution_eq)+

lemma transform_finally_sel:
  "cross_output (snd (transform_finally env r)) = cross_output (snd r)"
  "ytd_output (snd (transform_finally env r)) = ytd_output (snd r)"
  "fst (transform_finally env r) =
     (if connection (snd r) \<and> close_result env \<noteq> None then Inl (the (close_result env))
      else fst r)"
  by (cases "close_result env"; simp add: transform_finally_def)+

lemma main_sel:
  "cross_output (snd (main env)) = cross_output (fst (transform_body env))"
  "ytd_output (snd (main env)) = ytd_output (fst (transform_body env))"
  "fst (main env) =
     (if connection (fst (transform_body env)) \<and> close_result env \<noteq> None
      then Inl (the (close_result env))
      else if snd (transform_body env) = None then Inr 0 else Inr 1)"
  by (simp_all add: main_def transform_finally_sel transform_handler_sel)

lemma transform_body_early:
  assumes "validate_config_result env = Some e \<or> load_extracted_data_result env = Inl e \<or>
      (\<exists>df. load_extracted_data_result env = Inr df \<and> calculate_cross_pairs_loaded df = Inl e)"
  shows "snd (transform_body env) \<noteq> None \<and> cross_output (fst (transform_body env)) = None \<and>
         ytd_output (fst (transform_body env)) = None"
proof (cases "validate_config_result env")
  case (Some e')
  then show ?thesis
    by (simp add: transform_body_def initial_state_def)
next
  case None
  note v = this
  show ?thesis
  proof (cases "load_extracted_data_result env")
    case (Inl e')
    with v show ?thesis
      by (simp add: transform_body_def Let_def connect_for_logs_sel initial_state_def)
  next
    case (Inr df)
    with v assms have "calculate_cross_pairs_loaded df = Inl e"
      by auto
    with v Inr show ?thesis
      by (simp add: transform_body_def Let_def connect_for_logs_sel initial_state_def)
  qed
qed

lemma transform_body_done:
  assumes "snd (transform_body env) = None"
  shows "cross_output (fst (transform_body env)) \<noteq> None \<and>
         ytd_output (fst (transform_body env)) \<noteq> None"
proof (cases "validate_config_result env")
  case (Some e)
  with assms show ?thesis
    by (simp add: transform_body_def)
next
  case None
  note v = this
  show ?thesis
  proof (cases "load_extracted_data_result env")
    case (Inl e)
    with v assms show ?thesis
      by (simp add: transform_body_def Let_def)
  next
    case (Inr df_raw)
    note l = this
    show ?thesis
    proof (cases "calculate_cross_pairs_loaded df_raw")
      case (Inl e)
      with v l assms show ?thesis
        by (simp add: transform_body_def Let_def)
    next
      case (Inr df_cross)
      note c = this
      show ?thesis
      proof (cases "save_cross_result env")
        case (Some e)
        with v l c assms show ?thesis
          by (simp add: transform_body_def Let_def)
      next
        case None
        note sc = this
        show ?thesis
        proof (cases "save_ytd_result env")
          case (Some e)
          with v l c sc assms show ?thesis
            by (simp add: transform_body_def Let_def)
        next
          case None
          with v l c sc show ?thesis
            by (simp add: transform_body_def Let_def call_log_execution_eq)
        qed
      qed
    qed
  qed
qed

lemma transform_body_partial:
  assumes "validate_config_result env = None" and "load_extracted_data_result env = Inr df"
    and "calculate_cross_pairs_loaded df = Inr cross" and "save_cross_result env = None"
    and "save_ytd_result env = Some e"
  shows "snd (transform_body env) \<noteq> None \<and> cross_output (fst (transform_body env)) = Some cross \<and>
         ytd_output (fst (transform_body env)) = None"
  using assms
  by (simp add: transform_body_def Let_def connect_for_logs_sel initial_state_def)

text \<open>
  Claim C8 makes every malformed row fatal.  The transform stage checks nothing itself: it
  fails where pandas or Python raise, and a missing rate raises nowhere.  Claim C8, as
  amended: when \<open>validate_config\<close>, \<open>load_extracted_data\<close> or \<open>calculate_cross_pairs\<close> raises,
  \<open>main\<close> writes neither output and does not return 0 (it returns 1 when closing the
  connection does not raise); when only the writing of the YTD output raises, the cross-pair
  output has been written and \<open>main\<close> does not return 0; \<open>main\<close> returns 0 only after both
  outputs were written; a rate that is not a number, in a row quoting a currency of the
  universe other than EUR, makes \<open>calculate_cross_pairs\<close> raise (\<open>TypeError\<close>, unless a zero
  rate has raised \<open>ZeroDivisionError\<close> before), so that \<open>main\<close> writes neither output and
  does not return 0; and \<open>calculate_cross_pairs\<close> raises only \<open>KeyError\<close>,
  \<open>ZeroDivisionError\<close> on an input that holds a rate equal to 0, or \<open>TypeError\<close> on an input
  that holds a rate that is text, hence never because a rate is missing.
\<close>

theorem transform_failure_semantics:
  "((validate_config_result env = Some e \<or> load_extracted_data_result env = Inl e \<or>
      (\<exists>df. load_extracted_data_result env = Inr df \<and> calculate_cross_pairs_loaded df = Inl e)) \<longrightarrow>
     cross_output (snd (main env)) = None \<and> ytd_output (snd (main env)) = None \<and>
     fst (main env) \<noteq> Inr 0 \<and> (close_result env = None \<longrightarrow> fst (main env) = Inr 1)) \<and>
   (validate_config_result env = None \<and> load_extracted_data_result env = Inr df \<and>
    calculate_cross_pairs_loaded df = Inr cross \<and> save_cross_result env = None \<and>
    save_ytd_result env = Some e \<longrightarrow>
     cross_output (snd (main env)) = Some cross \<and> ytd_output (snd (main env)) = None \<and>
     fst (main env) \<noteq> Inr 0) \<and>
   (fst (main env) = Inr 0 \<longrightarrow>
     cross_output (snd (main env)) \<noteq> None \<and> ytd_output (snd (main env)) \<noteq> None) \<and>
   (non_numeric_rate df' r \<longrightarrow>
     (\<exists>e'. calculate_cross_pairs_loaded df' = Inl e' \<and>
           (e' = TypeError \<or> e' = ZeroDivisionError)) \<and>
     (load_extracted_data_result env = Inr df' \<longrightarrow>
       cross_output (snd (main env)) = None \<and> ytd_output (snd (main env)) = None \<and>
       fst (main env) \<noteq> Inr 0 \<and> (close_result env = None \<longrightarrow> fst (main env) = Inr 1))) \<and>
   (calculate_cross_pairs_loaded df' = Inl e' \<longrightarrow>
     e' = KeyError \<or>
     (e' = ZeroDivisionError \<and> (\<exists>r\<in>set df'. exchange_rate r = Float (Fin 0))) \<or>
     (e' = TypeError \<and> (\<exists>r\<in>set df'. is_text (exchange_rate r))))"
proof -
  have early: "cross_output (snd (main env)) = None \<and> ytd_output (snd (main env)) = None \<and>
     fst (main env) \<noteq> Inr 0 \<and> (close_result env = None \<longrightarrow> fst (main env) = Inr 1)"
    if a: "validate_config_result env = Some x \<or> load_extracted_data_result env = Inl x \<or>
      (\<exists>df. load_extracted_data_result env = Inr df \<and> calculate_cross_pairs_loaded df = Inl x)"
    for x
  proof -
    note b = transform_body_early [OF a]
    from b show ?thesis
      by (auto simp add: main_sel)
  qed
  have partial: "cross_output (snd (main env)) = Some cross \<and>
      ytd_output (snd (main env)) = None \<and> fst (main env) \<noteq> Inr 0"
    if a: "validate_config_result env = None \<and> load_extracted_data_result env = Inr df \<and>
      calculate_cross_pairs_loaded df = Inr cross \<and> save_cross_result env = None \<and>
      save_ytd_result env = Some e"
  proof -
    from a have "validate_config_result env = None"
      and "load_extracted_data_result env = Inr df"
      and "calculate_cross_pairs_loaded df = Inr cross" and "save_cross_result env = None"
      and "save_ytd_result env = Some e"
      by simp_all
    then have b: "snd (transform_body env) \<noteq> None \<and>
        cross_output (fst (transform_body env)) = Some cross \<and>
        ytd_output (fst (transform_body env)) = None"
      by (rule transform_body_partial)
    then show ?thesis
      by (auto simp add: main_sel)
  qed
  have both: "cross_output (snd (main env)) \<noteq> None \<and> ytd_output (snd (main env)) \<noteq> None"
    if "fst (main env) = Inr 0"
  proof -
    from that have "snd (transform_body env) = None"
      by (simp add: main_sel split: if_splits)
    from transform_body_done [OF this] show ?thesis
      by (simp add: main_sel)
  qed
  have nonnum: "(\<exists>e'. calculate_cross_pairs_loaded df' = Inl e' \<and>
           (e' = TypeError \<or> e' = ZeroDivisionError)) \<and>
     (load_extracted_data_result env = Inr df' \<longrightarrow>
       cross_output (snd (main env)) = None \<and> ytd_output (snd (main env)) = None \<and>
       fst (main env) \<noteq> Inr 0 \<and> (close_result env = None \<longrightarrow> fst (main env) = Inr 1))"
    if a: "non_numeric_rate df' r"
  proof -
    from calculate_cross_pairs_loaded_text [OF a] obtain x where
      x: "calculate_cross_pairs_loaded df' = Inl x" "x = TypeError \<or> x = ZeroDivisionError"
      by blast
    have "cross_output (snd (main env)) = None \<and> ytd_output (snd (main env)) = None \<and>
       fst (main env) \<noteq> Inr 0 \<and> (close_result env = None \<longrightarrow> fst (main env) = Inr 1)"
      if "load_extracted_data_result env = Inr df'"
      using early [of x] that x(1) by blast
    with x show ?thesis by blast
  qed
  have only: "e' = KeyError \<or>
     (e' = ZeroDivisionError \<and> (\<exists>r\<in>set df'. exchange_rate r = Float (Fin 0))) \<or>
     (e' = TypeError \<and> (\<exists>r\<in>set df'. is_text (exchange_rate r)))"
    if "calculate_cross_pairs_loaded df' = Inl e'"
    using that by (rule calculate_cross_pairs_loaded_Inl)
  from early [of e] partial both nonnum only show ?thesis
    by blast
qed

text \<open>
  A run whose input cannot be read, a run whose YTD output cannot be written, the run on
  the frame with the missing rate, the run on the frame whose rates are text, and a frame
  with a zero rate.
\<close>

theorem transform_failure_semantics_witness:
  "load_extracted_data_result unreadable_env = Inl IoError \<and>
   close_result unreadable_env = None \<and>
   cross_output (snd (main unreadable_env)) = None \<and>
   ytd_output (snd (main unreadable_env)) = None \<and>
   fst (main unreadable_env) = Inr 1 \<and>
   validate_config_result ytd_unwritable_env = None \<and>
   load_extracted_data_result ytd_unwritable_env = Inr nan_example \<and>
   calculate_cross_pairs_loaded nan_example = Inr nan_example_out \<and>
   save_cross_result ytd_unwritable_env = None \<and>
   save_ytd_result ytd_unwritable_env = Some IoError \<and>
   cross_output (snd (main ytd_unwritable_env)) = Some nan_example_out \<and>
   ytd_output (snd (main ytd_unwritable_env)) = None \<and>
   fst (main ytd_unwritable_env) \<noteq> Inr 0 \<and>
   fst (main nan_env) = Inr 0 \<and>
   cross_output (snd (main nan_env)) \<noteq> None \<and>
   ytd_output (snd (main nan_env)) \<noteq> None \<and>
   non_numeric_rate text_example (text_example ! 1) \<and>
   load_extracted_data_result text_env = Inr text_example \<and>
   close_result text_env = None \<and>
   calculate_cross_pairs_loaded text_example = Inl TypeError \<and>
   cross_output (snd (main text_env)) = None \<and>
   ytd_output (snd (main text_env)) = None \<and>
   fst (main text_env) = Inr 1 \<and>
   calculate_cross_pairs_loaded zero_example = Inl ZeroDivisionError \<and>
   (\<exists>r\<in>set zero_example. exchange_rate r = Float (Fin 0))"
proof -
  have u: "load_extracted_data_result unreadable_env = Inl IoError"
    "close_result unreadable_env = None"
    by (simp_all add: unreadable_env_def nan_env_def)
  have y: "validate_config_result ytd_unwritable_env = None"
    "load_extracted_data_result ytd_unwritable_env = Inr nan_example"
    "save_cross_result ytd_unwritable_env = None"
    "save_ytd_result ytd_unwritable_env = Some IoError"
    by (simp_all add: ytd_unwritable_env_def nan_env_def)
  have c: "calculate_cross_pairs_loaded nan_example = Inr nan_example_out"
    by (rule calculate_cross_pairs_loaded_nan_example)
  have z: "calculate_cross_pairs_loaded zero_example = Inl ZeroDivisionError"
    by code_simp
  have x: "non_numeric_rate text_example (text_example ! 1)"
    by (simp add: non_numeric_rate_def text_example_def cross_row_def CURRENCIES_def)
  have xe: "load_extracted_data_result text_env = Inr text_example"
    "close_result text_env = None"
    by (simp_all add: text_env_def nan_env_def)
  have xc: "calculate_cross_pairs_loaded text_example = Inl TypeError"
    by code_simp
  have ok: "fst (main nan_env) = Inr 0"
    by (rule main_nan_env)
  note t1 = transform_failure_semantics [where env = unreadable_env and e = IoError,
      THEN conjunct1, rule_format]
  from t1 u have a: "cross_output (snd (main unreadable_env)) = None"
    "ytd_output (snd (main unreadable_env)) = None" "fst (main unreadable_env) = Inr 1"
    by blast+
  note t2 = transform_failure_semantics [where env = ytd_unwritable_env and e = IoError
      and df = nan_example and cross = nan_example_out,
      THEN conjunct2, THEN conjunct1, rule_format]
  from t2 y c have b: "cross_output (snd (main ytd_unwritable_env)) = Some nan_example_out"
    "ytd_output (snd (main ytd_unwritable_env)) = None" "fst (main ytd_unwritable_env) \<noteq> Inr 0"
    by blast+
  note t3 = transform_failure_semantics [where env = nan_env,
      THEN conjunct2, THEN conjunct2, THEN conjunct1, rule_format]
  from t3 ok have d: "cross_output (snd (main nan_env)) \<noteq> None"
    "ytd_output (snd (main nan_env)) \<noteq> None"
    by blast+
  note t4 = transform_failure_semantics [where env = text_env and df' = text_example
      and r = "text_example ! 1",
      THEN conjunct2, THEN conjunct2, THEN conjunct2, THEN conjunct1, rule_format]
  from t4 x xe have g: "cross_output (snd (main text_env)) = None"
    "ytd_output (snd (main text_env)) = None" "fst (main text_env) = Inr 1"
    by blast+
  note t5 = transform_failure_semantics [where df' = zero_example and e' = ZeroDivisionError,
      THEN conjunct2, THEN conjunct2, THEN conjunct2, THEN conjunct2, rule_format]
  from t5 z have f: "\<exists>r\<in>set zero_example. exchange_rate r = Float (Fin 0)"
    by blast
  show ?thesis
    by (intro conjI u y c z ok a b d f x xe xc g)
qed

text \<open>
  Claim C8 as stated fails on the frame whose SEK rate is missing: nothing raises, both
  outputs are written, the cross-pair rows of SEK hold NaN, and \<open>main\<close> returns 0.
\<close>

theorem transform_missing_rate_counterexample:
  "validate_config_result nan_env = None \<and>
   load_extracted_data_result nan_env = Inr nan_example \<and>
   exchange_rate (nan_example ! 1) = Float NaN \<and>
   calculate_cross_pairs_loaded nan_example = Inr nan_example_out \<and>
   fst (main nan_env) = Inr 0 \<and>
   cross_output (snd (main nan_env)) = Some nan_example_out \<and>
   ytd_output (snd (main nan_env)) = Some (calculate_ytd_metrics_loaded nan_example_out)"
proof -
  have "validate_config_result nan_env = None"
    "load_extracted_data_result nan_env = Inr nan_example"
    by (simp_all add: nan_env_def)
  moreover have "exchange_rate (nan_example ! 1) = Float NaN"
    by (simp add: nan_example_def cross_row_def)
  ultimately show ?thesis
    by (simp add: calculate_cross_pairs_loaded_nan_example main_nan_env)
qed

end
